theory Spec2Isabelle
  imports Main "HOL-Library.Multiset"
begin

section \<open>Python values and rows\<close>

text \<open>
  The values that travel between the program and the store. A Python \<open>str\<close> is kept
  as its UTF-8 text (a \<open>string\<close>), \<open>bytes\<close> as the list of byte values. The connector
  hands back \<open>datetime.datetime\<close> for DATETIME columns, \<open>datetime.date\<close> for DATE
  columns and \<open>decimal.Decimal\<close> for DECIMAL columns; all of them are naive (no time
  zone).
\<close>

record date =
  d_year :: nat
  d_month :: nat
  d_day :: nat

record datetime =
  year :: nat
  month :: nat
  day :: nat
  hour :: nat
  minute :: nat
  second :: nat
  microsecond :: nat

text \<open>\<open>Decimal unscaled scale\<close> stands for \<open>unscaled / 10 ^ scale\<close>.\<close>

datatype decimal = Decimal int nat

text \<open>
  \<open>PFloat d\<close> is the binary64 number that \<open>float\<close> yields for the decimal \<open>d\<close>; the
  rounding itself is not modelled, no property below reads the digits of a float.
\<close>

datatype pyval =
    PNone
  | PBool bool
  | PInt int
  | PFloat decimal
  | PStr string
  | PBytes "nat list"
  | PDateTime datetime
  | PDate date
  | PDecimal decimal

text \<open>A row is a Python \<open>dict\<close> from column names to values, in insertion order.\<close>

type_synonym row = "(string \<times> pyval) list"

datatype py_error = KeyError string | UnicodeDecodeError | TypeError | ValueError

text \<open>\<open>sep.join(xs)\<close>\<close>

fun join :: "string \<Rightarrow> string list \<Rightarrow> string" where
  "join sep [] = []"
| "join sep [x] = x"
| "join sep (x # y # ys) = x @ sep @ join sep (y # ys)"

text \<open>Python truthiness of an optional string argument: \<open>None\<close> and \<open>''\<close> are false.\<close>

fun truthy :: "string option \<Rightarrow> bool" where
  "truthy None = False"
| "truthy (Some s) = (s \<noteq> [])"

section \<open>The connection (class \<open>Database\<close> of main.py)\<close>

text \<open>
  The store is an external collaborator. Its answer to one statement is a function
  \<open>db query params store\<close>: \<open>None\<close> when the connector raises \<open>MySQLError\<close>, otherwise
  the store after the statement, the rows of the result set and \<open>cursor.lastrowid\<close>.
  The functions of the program are written over an arbitrary such \<open>db\<close>.
\<close>

type_synonym 's engine = "string \<Rightarrow> pyval list \<Rightarrow> 's \<Rightarrow> ('s \<times> row list \<times> int) option"

text \<open>
  What the program prints. The texts hold glyphs outside ASCII, so each line is kept by
  its kind and its interpolated values:
  \<^item> \<open>SqlError\<close>: "SQL-Fehler: ..." of \<open>Database.execute\<close>;
  \<^item> \<open>FetchError\<close>: "Fehler: ..." of \<open>fetch_all\<close> and \<open>fetch_one\<close>;
  \<^item> \<open>TeamHasPlayers n\<close>: "Team hat n Spieler. Setze auf inaktiv.";
  \<^item> \<open>SelfMatch\<close>: "Ein Team kann nicht gegen sich selbst spielen!";
  \<^item> \<open>InvalidTable t\<close>: "Ungueltig: t";
  \<^item> \<open>ImportReport i n\<close>: "i/n importiert.";
  \<^item> \<open>ResultRecorded\<close>: "Ergebnis eingetragen!";
  \<^item> \<open>NoData\<close>: "Keine Daten." of \<open>CLI.table\<close>;
  \<^item> \<open>TableHead cols\<close>, \<open>TableRow cells\<close>, \<open>More n\<close>: the head of a table with its rule,
    one row of it, and "... +n weitere";
  \<^item> \<open>Versus a b\<close>: "a vs b";
  \<^item> \<open>ImportSuccess n\<close>: the dialog "n Datensaetze importiert!" of the GUI.
\<close>

datatype message =
    SqlError
  | FetchError
  | TeamHasPlayers nat
  | SelfMatch
  | InvalidTable string
  | ImportReport nat nat
  | ResultRecorded
  | NoData
  | TableHead "string list"
  | TableRow "pyval list"
  | More nat
  | Versus pyval pyval
  | ImportSuccess nat

text \<open>
  The state the program runs in: the store behind the connection, the cursor's
  \<open>lastrowid\<close>, every statement handed to \<open>cursor.execute\<close> so far (its text, its
  bound parameters and whether the engine accepted it, in order of issue) and the lines
  printed so far.
\<close>

record call =
  text_of :: string
  params_of :: "pyval list"
  accepted :: bool

record 's world =
  store :: 's
  lastrowid :: int
  issued :: "call list"
  printed :: "message list"

definition call :: "string \<Rightarrow> pyval list \<Rightarrow> bool \<Rightarrow> call" where
  "call q ps ok = \<lparr>text_of = q, params_of = ps, accepted = ok\<rparr>"

text \<open>
  \<open>Database.execute\<close>: run one write statement; commit and return \<open>True\<close>, or roll
  back, print the error and return \<open>False\<close>. Every call is its own transaction, so a
  statement that fails leaves the store as it was.
\<close>

definition execute :: "'s engine \<Rightarrow> string \<Rightarrow> pyval list \<Rightarrow> 's world \<Rightarrow> bool \<times> 's world" where
  "execute db query params w =
     (case db query params (store w) of
        Some (s', rows, rid) \<Rightarrow>
          (True, w\<lparr>store := s', lastrowid := rid, issued := issued w @ [call query params True]\<rparr>)
      | None \<Rightarrow>
          (False, w\<lparr>issued := issued w @ [call query params False], printed := printed w @ [SqlError]\<rparr>))"

text \<open>
  \<open>Database.fetch_all\<close> and \<open>Database.fetch_one\<close>: run one read statement and return
  its rows (the first row), or print the error and return \<open>[]\<close> (\<open>None\<close>). They are only
  called with SELECT statements and never commit: the store stays as it is.
\<close>

definition fetch_all :: "'s engine \<Rightarrow> string \<Rightarrow> pyval list \<Rightarrow> 's world \<Rightarrow> row list \<times> 's world" where
  "fetch_all db query params w =
     (case db query params (store w) of
        Some (s', rows, rid) \<Rightarrow> (rows, w\<lparr>issued := issued w @ [call query params True]\<rparr>)
      | None \<Rightarrow>
          ([], w\<lparr>issued := issued w @ [call query params False], printed := printed w @ [FetchError]\<rparr>))"

definition fetch_one :: "'s engine \<Rightarrow> string \<Rightarrow> pyval list \<Rightarrow> 's world \<Rightarrow> row option \<times> 's world" where
  "fetch_one db query params w =
     (case db query params (store w) of
        Some (s', rows, rid) \<Rightarrow>
          ((case rows of [] \<Rightarrow> None | r # _ \<Rightarrow> Some r),
           w\<lparr>issued := issued w @ [call query params True]\<rparr>)
      | None \<Rightarrow>
          (None, w\<lparr>issued := issued w @ [call query params False], printed := printed w @ [FetchError]\<rparr>))"

text \<open>
  The pattern \<open>self.db.get_last_insert_id() if self.db.execute(q, params) else None\<close>
  of every \<open>create_*\<close>.
\<close>

definition insert_returning_id :: "'s engine \<Rightarrow> string \<Rightarrow> pyval list \<Rightarrow> 's world \<Rightarrow> int option \<times> 's world" where
  "insert_returning_id db q params w =
     (case execute db q params w of
        (True, w') \<Rightarrow> (Some (lastrowid w'), w')
      | (False, w') \<Rightarrow> (None, w'))"

section \<open>The repository (class \<open>CRUDOperations\<close> of main.py)\<close>

text \<open>
  The body shared, line for line, by \<open>update_user\<close>, \<open>update_team\<close>, \<open>update_player\<close>
  and \<open>update_tournament\<close>; they differ in the table, the key column and the set
  \<open>allowed\<close> only:
  \<^verbatim>\<open>
    updates = {k:v for k,v in kw.items() if k in allowed}
    if not updates: return False
    q = f"UPDATE T SET {', '.join(f'{k}=%s' for k in updates)} WHERE pk=%s"
    return self.db.execute(q, tuple(updates.values()) + (id,))
  \<close>
  \<open>kw\<close> is the dict of keyword arguments, so its keys are distinct and the
  comprehension keeps the allowed items in their order.

  The methods are declared \<open>def update_user(self, user_id, **kw)\<close> and called
  \<open>update_user(uid, **upd)\<close>. Python binds the arguments before the body runs: a map that
  holds the key \<open>self\<close> or the name of the key parameter (in all four methods the name of
  the key column) gives that parameter a second value, and the call raises \<open>TypeError\<close>.
\<close>

definition clashes :: "string \<Rightarrow> row \<Rightarrow> bool" where
  "clashes pk kw = (''self'' \<in> fst ` set kw \<or> pk \<in> fst ` set kw)"

definition update_query :: "string \<Rightarrow> string \<Rightarrow> string list \<Rightarrow> string" where
  "update_query table pk cols =
     ''UPDATE '' @ table @ '' SET '' @ join '', '' (map (\<lambda>k. k @ ''=%s'') cols)
       @ '' WHERE '' @ pk @ ''=%s''"

definition update_entity ::
  "string \<Rightarrow> string \<Rightarrow> string list \<Rightarrow> 's engine \<Rightarrow> int \<Rightarrow> row \<Rightarrow> 's world
     \<Rightarrow> py_error + bool \<times> 's world" where
  "update_entity table pk allowed db ident kw w =
     (if clashes pk kw then Inl TypeError
      else
        (let updates = filter (\<lambda>(k, v). k \<in> set allowed) kw in
         if updates = [] then Inr (False, w)
         else Inr (execute db (update_query table pk (map fst updates))
                     (map snd updates @ [PInt ident]) w)))"

definition users_allowed :: "string list" where
  "users_allowed = [''username'', ''email'', ''role'', ''password_hash'', ''last_login'']"

definition teams_allowed :: "string list" where
  "teams_allowed =
     [''team_name'', ''abbreviation'', ''country'', ''coach'', ''founded_date'', ''is_active'']"

definition players_allowed :: "string list" where
  "players_allowed =
     [''nickname'', ''team_id'', ''real_name'', ''nationality'', ''role'', ''birth_date'',
      ''is_active'']"

definition tournaments_allowed :: "string list" where
  "tournaments_allowed =
     [''tournament_name'', ''location'', ''start_date'', ''end_date'', ''prize_pool'', ''tier'',
      ''status'']"

definition update_user ::
  "'s engine \<Rightarrow> int \<Rightarrow> row \<Rightarrow> 's world \<Rightarrow> py_error + bool \<times> 's world" where
  "update_user = update_entity ''USERS'' ''user_id'' users_allowed"

definition update_team ::
  "'s engine \<Rightarrow> int \<Rightarrow> row \<Rightarrow> 's world \<Rightarrow> py_error + bool \<times> 's world" where
  "update_team = update_entity ''TEAMS'' ''team_id'' teams_allowed"

definition update_player ::
  "'s engine \<Rightarrow> int \<Rightarrow> row \<Rightarrow> 's world \<Rightarrow> py_error + bool \<times> 's world" where
  "update_player = update_entity ''PLAYERS'' ''player_id'' players_allowed"

definition update_tournament ::
  "'s engine \<Rightarrow> int \<Rightarrow> row \<Rightarrow> 's world \<Rightarrow> py_error + bool \<times> 's world" where
  "update_tournament = update_entity ''TOURNAMENTS'' ''tournament_id'' tournaments_allowed"


subsection \<open>Users\<close>

definition create_user ::
  "'s engine \<Rightarrow> pyval \<Rightarrow> pyval \<Rightarrow> pyval \<Rightarrow> pyval \<Rightarrow> 's world \<Rightarrow> int option \<times> 's world" where
  "create_user db username password_hash role email =
     insert_returning_id db
       ''INSERT INTO USERS (username, password_hash, role, email) VALUES (%s,%s,%s,%s)''
       [username, password_hash, role, email]"

definition get_all_users :: "'s engine \<Rightarrow> 's world \<Rightarrow> row list \<times> 's world" where
  "get_all_users db = fetch_all db ''SELECT * FROM USERS ORDER BY user_id'' []"

definition get_user_by_id :: "'s engine \<Rightarrow> int \<Rightarrow> 's world \<Rightarrow> row option \<times> 's world" where
  "get_user_by_id db ident = fetch_one db ''SELECT * FROM USERS WHERE user_id=%s'' [PInt ident]"

definition delete_user :: "'s engine \<Rightarrow> int \<Rightarrow> 's world \<Rightarrow> bool \<times> 's world" where
  "delete_user db ident = execute db ''DELETE FROM USERS WHERE user_id=%s'' [PInt ident]"

subsection \<open>Teams\<close>

definition create_team ::
  "'s engine \<Rightarrow> pyval \<Rightarrow> pyval \<Rightarrow> pyval \<Rightarrow> pyval \<Rightarrow> pyval \<Rightarrow> 's world \<Rightarrow> int option \<times> 's world" where
  "create_team db team_name abbreviation country coach founded_date =
     insert_returning_id db
       ''INSERT INTO TEAMS (team_name,abbreviation,country,coach,founded_date) VALUES (%s,%s,%s,%s,%s)''
       [team_name, abbreviation, country, coach, founded_date]"

definition get_all_teams :: "'s engine \<Rightarrow> 's world \<Rightarrow> row list \<times> 's world" where
  "get_all_teams db = fetch_all db ''SELECT * FROM TEAMS WHERE is_active=TRUE ORDER BY team_name'' []"

definition get_team_by_id :: "'s engine \<Rightarrow> int \<Rightarrow> 's world \<Rightarrow> row option \<times> 's world" where
  "get_team_by_id db ident = fetch_one db ''SELECT * FROM TEAMS WHERE team_id=%s'' [PInt ident]"

text \<open>
  \<^verbatim>\<open>
    players = self.db.fetch_all("SELECT player_id FROM PLAYERS WHERE team_id=%s", (id,))
    if players:
        print(f"... Team hat {len(players)} Spieler. Setze auf inaktiv.")
        return self.db.execute("UPDATE TEAMS SET is_active=FALSE WHERE team_id=%s", (id,))
    return self.db.execute("DELETE FROM TEAMS WHERE team_id=%s", (id,))
  \<close>
\<close>

definition delete_team :: "'s engine \<Rightarrow> int \<Rightarrow> 's world \<Rightarrow> bool \<times> 's world" where
  "delete_team db ident w =
     (case fetch_all db ''SELECT player_id FROM PLAYERS WHERE team_id=%s'' [PInt ident] w of
        (players, w1) \<Rightarrow>
          if players \<noteq> [] then
            execute db ''UPDATE TEAMS SET is_active=FALSE WHERE team_id=%s'' [PInt ident]
              (w1\<lparr>printed := printed w1 @ [TeamHasPlayers (length players)]\<rparr>)
          else execute db ''DELETE FROM TEAMS WHERE team_id=%s'' [PInt ident] w1)"

subsection \<open>Players\<close>

definition create_player ::
  "'s engine \<Rightarrow> pyval \<Rightarrow> pyval \<Rightarrow> pyval \<Rightarrow> pyval \<Rightarrow> pyval \<Rightarrow> pyval \<Rightarrow> 's world
     \<Rightarrow> int option \<times> 's world" where
  "create_player db nickname team_id real_name nationality role birth_date =
     insert_returning_id db
       ''INSERT INTO PLAYERS (nickname,team_id,real_name,nationality,role,birth_date) VALUES (%s,%s,%s,%s,%s,%s)''
       [nickname, team_id, real_name, nationality, role, birth_date]"

definition get_all_players :: "'s engine \<Rightarrow> 's world \<Rightarrow> row list \<times> 's world" where
  "get_all_players db =
     fetch_all db
       (''SELECT p.*, t.team_name, t.abbreviation as team_abbr \<newline>''
        @ ''            FROM PLAYERS p LEFT JOIN TEAMS t ON p.team_id=t.team_id WHERE p.is_active=TRUE ORDER BY p.nickname'')
       []"

definition get_player_by_id :: "'s engine \<Rightarrow> int \<Rightarrow> 's world \<Rightarrow> row option \<times> 's world" where
  "get_player_by_id db ident =
     fetch_one db
       ''SELECT p.*, t.team_name FROM PLAYERS p LEFT JOIN TEAMS t ON p.team_id=t.team_id WHERE p.player_id=%s''
       [PInt ident]"

definition get_players_by_team :: "'s engine \<Rightarrow> int \<Rightarrow> 's world \<Rightarrow> row list \<times> 's world" where
  "get_players_by_team db team_id =
     fetch_all db
       ''SELECT * FROM PLAYERS WHERE team_id=%s AND is_active=TRUE ORDER BY role,nickname''
       [PInt team_id]"

definition delete_player :: "'s engine \<Rightarrow> int \<Rightarrow> 's world \<Rightarrow> bool \<times> 's world" where
  "delete_player db ident =
     execute db ''UPDATE PLAYERS SET is_active=FALSE WHERE player_id=%s'' [PInt ident]"

subsection \<open>Tournaments\<close>

definition create_tournament ::
  "'s engine \<Rightarrow> pyval \<Rightarrow> pyval \<Rightarrow> pyval \<Rightarrow> pyval \<Rightarrow> pyval \<Rightarrow> pyval \<Rightarrow> pyval \<Rightarrow> 's world
     \<Rightarrow> int option \<times> 's world" where
  "create_tournament db tournament_name start_date end_date location prize_pool tier status =
     insert_returning_id db
       ''INSERT INTO TOURNAMENTS (tournament_name,location,start_date,end_date,prize_pool,tier,status) VALUES (%s,%s,%s,%s,%s,%s,%s)''
       [tournament_name, location, start_date, end_date, prize_pool, tier, status]"

definition get_all_tournaments :: "'s engine \<Rightarrow> 's world \<Rightarrow> row list \<times> 's world" where
  "get_all_tournaments db = fetch_all db ''SELECT * FROM TOURNAMENTS ORDER BY start_date DESC'' []"

definition get_tournament_by_id :: "'s engine \<Rightarrow> int \<Rightarrow> 's world \<Rightarrow> row option \<times> 's world" where
  "get_tournament_by_id db ident =
     fetch_one db ''SELECT * FROM TOURNAMENTS WHERE tournament_id=%s'' [PInt ident]"

definition get_upcoming_tournaments :: "'s engine \<Rightarrow> 's world \<Rightarrow> row list \<times> 's world" where
  "get_upcoming_tournaments db =
     fetch_all db
       (''SELECT * FROM TOURNAMENTS WHERE status='' @ [CHR 0x27] @ ''Upcoming'' @ [CHR 0x27]
        @ '' ORDER BY start_date'')
       []"

definition delete_tournament :: "'s engine \<Rightarrow> int \<Rightarrow> 's world \<Rightarrow> bool \<times> 's world" where
  "delete_tournament db ident =
     execute db ''DELETE FROM TOURNAMENTS WHERE tournament_id=%s'' [PInt ident]"

subsection \<open>Matches\<close>

text \<open>
  \<^verbatim>\<open>
    if team1_id == team2_id:
        print("... Ein Team kann nicht gegen sich selbst spielen!")
        return None
    q = "INSERT INTO MATCHES (...) VALUES (%s,%s,%s,%s,%s,%s)"
    return self.db.get_last_insert_id() if self.db.execute(q, (...)) else None
  \<close>
\<close>

definition create_match ::
  "'s engine \<Rightarrow> int \<Rightarrow> int \<Rightarrow> int \<Rightarrow> pyval \<Rightarrow> pyval \<Rightarrow> pyval \<Rightarrow> 's world \<Rightarrow> int option \<times> 's world" where
  "create_match db tournament_id team1_id team2_id match_date best_of stage w =
     (if team1_id = team2_id then (None, w\<lparr>printed := printed w @ [SelfMatch]\<rparr>)
      else insert_returning_id db
             ''INSERT INTO MATCHES (tournament_id,team1_id,team2_id,match_date,best_of,stage) VALUES (%s,%s,%s,%s,%s,%s)''
             [PInt tournament_id, PInt team1_id, PInt team2_id, match_date, best_of, stage] w)"

definition get_all_matches :: "'s engine \<Rightarrow> 's world \<Rightarrow> row list \<times> 's world" where
  "get_all_matches db =
     fetch_all db
       (''SELECT m.*, t.tournament_name, t1.team_name as team1_name, t1.abbreviation as team1_abbr,\<newline>''
        @ ''            t2.team_name as team2_name, t2.abbreviation as team2_abbr, tw.team_name as winner_name\<newline>''
        @ ''            FROM MATCHES m JOIN TOURNAMENTS t ON m.tournament_id=t.tournament_id\<newline>''
        @ ''            JOIN TEAMS t1 ON m.team1_id=t1.team_id JOIN TEAMS t2 ON m.team2_id=t2.team_id\<newline>''
        @ ''            LEFT JOIN TEAMS tw ON m.winner_team_id=tw.team_id ORDER BY m.match_date DESC'')
       []"

definition get_match_by_id :: "'s engine \<Rightarrow> int \<Rightarrow> 's world \<Rightarrow> row option \<times> 's world" where
  "get_match_by_id db ident =
     fetch_one db
       (''SELECT m.*, t.tournament_name, t1.team_name as team1_name, t2.team_name as team2_name\<newline>''
        @ ''            FROM MATCHES m JOIN TOURNAMENTS t ON m.tournament_id=t.tournament_id\<newline>''
        @ ''            JOIN TEAMS t1 ON m.team1_id=t1.team_id JOIN TEAMS t2 ON m.team2_id=t2.team_id WHERE m.match_id=%s'')
       [PInt ident]"

definition update_match_score ::
  "'s engine \<Rightarrow> int \<Rightarrow> int \<Rightarrow> int \<Rightarrow> pyval \<Rightarrow> 's world \<Rightarrow> bool \<times> 's world" where
  "update_match_score db match_id score1 score2 winner_id =
     execute db
       ''UPDATE MATCHES SET score_team1=%s, score_team2=%s, winner_team_id=%s WHERE match_id=%s''
       [PInt score1, PInt score2, winner_id, PInt match_id]"

definition delete_match :: "'s engine \<Rightarrow> int \<Rightarrow> 's world \<Rightarrow> bool \<times> 's world" where
  "delete_match db ident = execute db ''DELETE FROM MATCHES WHERE match_id=%s'' [PInt ident]"

subsection \<open>Recording a result (\<open>CLI.m_matches\<close>, choice 3)\<close>

text \<open>
  \<^verbatim>\<open>
    m = self.crud.get_match_by_id(mid)
    if m:
        s1,s2 = int(...), int(...)
        w = m['team1_id'] if s1>s2 else (m['team2_id'] if s2>s1 else None)
        if self.crud.update_match_score(mid, s1, s2, w): print("... Ergebnis eingetragen!")
  \<close>
  \<open>m[k]\<close> raises \<open>KeyError\<close> when the row has no column \<open>k\<close>. An empty dict is false.
\<close>

definition subscript :: "row \<Rightarrow> string \<Rightarrow> py_error + pyval" where
  "subscript r k = (case map_of r k of None \<Rightarrow> Inl (KeyError k) | Some v \<Rightarrow> Inr v)"

text \<open>
  \<open>CLI.table(data, cols)\<close> prints "Keine Daten." for no rows, and otherwise the head
  (the given columns, or the keys of the first row when none is given), the first twenty
  rows with \<open>r.get(c, '')\<close> for each column, and the number of the rows left out. The
  widths and the padding of the cells are not kept.
\<close>

definition cli_table :: "row list \<Rightarrow> string list \<Rightarrow> 's world \<Rightarrow> 's world" where
  "cli_table data cols w =
     (if data = [] then w\<lparr>printed := printed w @ [NoData]\<rparr>
      else
        (let cols' = (if cols = [] then map fst (hd data) else cols);
             shown = map (\<lambda>r. TableRow (map (\<lambda>c. case map_of r c of None \<Rightarrow> PStr [] | Some v \<Rightarrow> v)
                                            cols'))
                       (take 20 data);
             rest = (if length data > 20 then [More (length data - 20)] else [])
         in w\<lparr>printed := printed w @ [TableHead cols'] @ shown @ rest\<rparr>))"

text \<open>
  Choice 3 of \<open>CLI.m_matches\<close> (main.py:534-543), the only caller of
  \<open>update_match_score\<close>:

  \<^verbatim>\<open>self.table(self.crud.get_all_matches(), ['match_id','team1_name','team2_name'])\<close>
  \<^verbatim>\<open>mid = int(self.inp("Match-ID"))\<close>
  \<^verbatim>\<open>m = self.crud.get_match_by_id(mid)\<close>
  \<^verbatim>\<open>if m:\<close>
  \<^verbatim>\<open>    print(f"\n  {m['team1_name']} vs {m['team2_name']}")\<close>
  \<^verbatim>\<open>    s1,s2 = int(self.inp(f"Score {m['team1_name']}")), int(self.inp(f"Score {m['team2_name']}"))\<close>
  \<^verbatim>\<open>    w = m['team1_id'] if s1>s2 else (m['team2_id'] if s2>s1 else None)\<close>
  \<^verbatim>\<open>    if self.crud.update_match_score(mid, s1, s2, w): print("  Ergebnis eingetragen!")\<close>

  The three inputs are given as what \<open>int\<close> makes of the typed text: \<open>Some n\<close>, or \<open>None\<close>
  for a text that is no number, where \<open>int\<close> raises \<open>ValueError\<close>. The subscripts raise
  \<open>KeyError\<close> on a row without the key; the two names are read before the scores are
  asked for. An exception ends the branch; the prompts of \<open>input\<close> are not kept.
\<close>

definition list_matches :: "'s engine \<Rightarrow> 's world \<Rightarrow> 's world" where
  "list_matches db w =
     (case get_all_matches db w of
        (ms, w0) \<Rightarrow> cli_table ms [''match_id'', ''team1_name'', ''team2_name''] w0)"

definition winner_of :: "row \<Rightarrow> int \<Rightarrow> int \<Rightarrow> py_error + pyval" where
  "winner_of m s1 s2 =
     (if s1 > s2 then subscript m ''team1_id''
      else if s2 > s1 then subscript m ''team2_id''
      else Inr PNone)"

definition enter_scores ::
  "'s engine \<Rightarrow> int \<Rightarrow> row \<Rightarrow> int option \<Rightarrow> int option \<Rightarrow> 's world \<Rightarrow> py_error + 's world" where
  "enter_scores db mid m score1 score2 w =
     (case subscript m ''team1_name'' of
        Inl e \<Rightarrow> Inl e
      | Inr n1 \<Rightarrow>
          (case subscript m ''team2_name'' of
             Inl e \<Rightarrow> Inl e
           | Inr n2 \<Rightarrow>
               (case score1 of
                  None \<Rightarrow> Inl ValueError
                | Some s1 \<Rightarrow>
                    (case score2 of
                       None \<Rightarrow> Inl ValueError
                     | Some s2 \<Rightarrow>
                         (case winner_of m s1 s2 of
                            Inl e \<Rightarrow> Inl e
                          | Inr wn \<Rightarrow>
                              (case update_match_score db mid s1 s2 wn
                                      (w\<lparr>printed := printed w @ [Versus n1 n2]\<rparr>) of
                                 (True, w2) \<Rightarrow> Inr (w2\<lparr>printed := printed w2 @ [ResultRecorded]\<rparr>)
                               | (False, w2) \<Rightarrow> Inr w2))))))"

definition record_result ::
  "'s engine \<Rightarrow> int option \<Rightarrow> int option \<Rightarrow> int option \<Rightarrow> 's world \<Rightarrow> py_error + 's world" where
  "record_result db match_id score1 score2 w =
     (case match_id of
        None \<Rightarrow> Inl ValueError
      | Some mid \<Rightarrow>
          (case get_match_by_id db mid (list_matches db w) of
             (None, w1) \<Rightarrow> Inr w1
           | (Some m, w1) \<Rightarrow>
               if m = [] then Inr w1 else enter_scores db mid m score1 score2 w1))"

section \<open>Search (class \<open>SearchOperations\<close> of main.py)\<close>

text \<open>
  \<^verbatim>\<open>
    conds, params = [], []
    if term: conds.append("(tournament_name LIKE %s OR location LIKE %s)"); params.extend([f"%{term}%"]*2)
    if tier: conds.append("tier=%s"); params.append(tier)
    if status: conds.append("status=%s"); params.append(status)
    where = " AND ".join(conds) if conds else "1=1"
    return self.db.fetch_all(f"SELECT * FROM TOURNAMENTS WHERE {where} ORDER BY start_date DESC", tuple(params))
  \<close>
\<close>

definition term_filter :: "string option \<Rightarrow> string list \<times> pyval list" where
  "term_filter term =
     (case term of
        Some t \<Rightarrow>
          if t \<noteq> [] then
            ([''(tournament_name LIKE %s OR location LIKE %s)''],
             replicate 2 (PStr (''%'' @ t @ ''%'')))
          else ([], [])
      | None \<Rightarrow> ([], []))"

definition eq_filter :: "string \<Rightarrow> string option \<Rightarrow> string list \<times> pyval list" where
  "eq_filter clause v =
     (case v of
        Some t \<Rightarrow> if t \<noteq> [] then ([clause], [PStr t]) else ([], [])
      | None \<Rightarrow> ([], []))"

definition search_conds :: "string option \<Rightarrow> string option \<Rightarrow> string option \<Rightarrow> string list" where
  "search_conds term tier status =
     fst (term_filter term) @ fst (eq_filter ''tier=%s'' tier) @ fst (eq_filter ''status=%s'' status)"

definition search_params :: "string option \<Rightarrow> string option \<Rightarrow> string option \<Rightarrow> pyval list" where
  "search_params term tier status =
     snd (term_filter term) @ snd (eq_filter ''tier=%s'' tier) @ snd (eq_filter ''status=%s'' status)"

definition search_where :: "string list \<Rightarrow> string" where
  "search_where conds = (if conds \<noteq> [] then join '' AND '' conds else ''1=1'')"

definition search_query :: "string option \<Rightarrow> string option \<Rightarrow> string option \<Rightarrow> string" where
  "search_query term tier status =
     ''SELECT * FROM TOURNAMENTS WHERE '' @ search_where (search_conds term tier status)
       @ '' ORDER BY start_date DESC''"

definition search_tournaments ::
  "'s engine \<Rightarrow> string option \<Rightarrow> string option \<Rightarrow> string option \<Rightarrow> 's world \<Rightarrow> row list \<times> 's world" where
  "search_tournaments db term tier status =
     fetch_all db (search_query term tier status) (search_params term tier status)"

section \<open>Export (class \<open>DataExporter\<close> of main.py)\<close>

subsection \<open>\<open>isoformat\<close> of the standard library\<close>

definition digit_char :: "nat \<Rightarrow> char" where
  "digit_char d = ''0123456789'' ! d"

fun show_nat :: "nat \<Rightarrow> string" where
  "show_nat n = (if n < 10 then [digit_char n] else show_nat (n div 10) @ [digit_char (n mod 10)])"

declare show_nat.simps [simp del]

text \<open>The format \<open>%0wd\<close>: decimal digits, filled with zeros on the left up to width \<open>w\<close>.\<close>

definition zero_pad :: "nat \<Rightarrow> nat \<Rightarrow> string" where
  "zero_pad w n = replicate (w - length (show_nat n)) (CHR ''0'') @ show_nat n"

text \<open>\<open>date.isoformat()\<close>: \<open>YYYY-MM-DD\<close>.\<close>

definition isoformat_date :: "date \<Rightarrow> string" where
  "isoformat_date d =
     zero_pad 4 (d_year d) @ ''-'' @ zero_pad 2 (d_month d) @ ''-'' @ zero_pad 2 (d_day d)"

text \<open>
  \<open>datetime.isoformat()\<close> of a naive value: \<open>YYYY-MM-DDTHH:MM:SS\<close>, followed by
  \<open>.ffffff\<close> when the microsecond is not zero.
\<close>

definition isoformat_datetime :: "datetime \<Rightarrow> string" where
  "isoformat_datetime t =
     zero_pad 4 (year t) @ ''-'' @ zero_pad 2 (month t) @ ''-'' @ zero_pad 2 (day t) @ ''T''
     @ zero_pad 2 (hour t) @ '':'' @ zero_pad 2 (minute t) @ '':'' @ zero_pad 2 (second t)
     @ (if microsecond t \<noteq> 0 then ''.'' @ zero_pad 6 (microsecond t) else [])"

subsection \<open>\<open>bytes.decode('utf-8')\<close> of the standard library\<close>

text \<open>
  The strict decoder accepts exactly the well-formed byte sequences of the Unicode
  standard (no overlong forms, no surrogates, nothing above U+10FFFF). A \<open>str\<close> is kept
  as its UTF-8 text, so decoding well-formed bytes returns the same bytes as characters.
\<close>

definition cont :: "nat \<Rightarrow> bool" where
  "cont b = (0x80 \<le> b \<and> b \<le> 0xBF)"

fun utf8_valid :: "nat list \<Rightarrow> bool" where
  "utf8_valid [] = True"
| "utf8_valid (a # bs) =
     (if a < 0x80 then utf8_valid bs
      else if 0xC2 \<le> a \<and> a \<le> 0xDF then
        (case bs of b # r \<Rightarrow> cont b \<and> utf8_valid r | _ \<Rightarrow> False)
      else if 0xE0 \<le> a \<and> a \<le> 0xEF then
        (case bs of
           b # c # r \<Rightarrow>
             (if a = 0xE0 then 0xA0 \<le> b \<and> b \<le> 0xBF
              else if a = 0xED then 0x80 \<le> b \<and> b \<le> 0x9F
              else cont b)
             \<and> cont c \<and> utf8_valid r
         | _ \<Rightarrow> False)
      else if 0xF0 \<le> a \<and> a \<le> 0xF4 then
        (case bs of
           b # c # d # r \<Rightarrow>
             (if a = 0xF0 then 0x90 \<le> b \<and> b \<le> 0xBF
              else if a = 0xF4 then 0x80 \<le> b \<and> b \<le> 0x8F
              else cont b)
             \<and> cont c \<and> cont d \<and> utf8_valid r
         | _ \<Rightarrow> False)
      else False)"

subsection \<open>\<open>DataExporter._serialize\<close>\<close>

text \<open>
  \<^verbatim>\<open>
    if isinstance(v, datetime): return v.isoformat()
    if isinstance(v, Decimal): return float(v)
    if isinstance(v, bytes): return v.decode('utf-8')
    return v
  \<close>
  \<open>datetime\<close> is a subclass of \<open>date\<close>, not the other way round: a \<open>date\<close> is not an
  instance of \<open>datetime\<close> and takes the last line.
\<close>

definition serialize :: "pyval \<Rightarrow> py_error + pyval" where
  "serialize v =
     (case v of
        PDateTime t \<Rightarrow> Inr (PStr (isoformat_datetime t))
      | PDecimal d \<Rightarrow> Inr (PFloat d)
      | PBytes b \<Rightarrow> if utf8_valid b then Inr (PStr (map char_of b)) else Inl UnicodeDecodeError
      | _ \<Rightarrow> Inr v)"

text \<open>\<open>{k: self._serialize(v) for k,v in row.items()}\<close> and the list of these.\<close>

fun serialize_row :: "row \<Rightarrow> py_error + row" where
  "serialize_row [] = Inr []"
| "serialize_row ((k, v) # r) =
     (case serialize v of
        Inl e \<Rightarrow> Inl e
      | Inr v' \<Rightarrow> (case serialize_row r of Inl e \<Rightarrow> Inl e | Inr r' \<Rightarrow> Inr ((k, v') # r')))"

fun serialize_rows :: "row list \<Rightarrow> py_error + row list" where
  "serialize_rows [] = Inr []"
| "serialize_rows (r # rs) =
     (case serialize_row r of
        Inl e \<Rightarrow> Inl e
      | Inr r' \<Rightarrow> (case serialize_rows rs of Inl e \<Rightarrow> Inl e | Inr rs' \<Rightarrow> Inr (r' # rs')))"

text \<open>
  \<open>json.dump\<close> of the standard library writes \<open>None\<close>, booleans, numbers and strings and
  raises \<open>TypeError\<close> on any other object.
\<close>

fun json_serializable :: "pyval \<Rightarrow> bool" where
  "json_serializable PNone = True"
| "json_serializable (PBool b) = True"
| "json_serializable (PInt i) = True"
| "json_serializable (PFloat d) = True"
| "json_serializable (PStr s) = True"
| "json_serializable v = False"

text \<open>
  \<open>export_to_json\<close>, up to the file it writes: the rows handed to \<open>json.dump\<close>, or the
  exception that leaves the function.
\<close>

definition export_to_json :: "row list \<Rightarrow> py_error + row list" where
  "export_to_json data =
     (case serialize_rows data of
        Inl e \<Rightarrow> Inl e
      | Inr rows \<Rightarrow>
          if list_all (\<lambda>r. list_all (\<lambda>(k, v). json_serializable v) r) rows then Inr rows
          else Inl TypeError)"

section \<open>Import (class \<open>DataImporter\<close> of main.py)\<close>

text \<open>
  \<open>str.upper()\<close> is the upper-casing of Unicode text of the standard library: it maps
  the ASCII letters to their capitals, and other characters by the tables of Unicode
  (U+017F, the long s, to \<open>S\<close>; U+00DF to \<open>SS\<close>). The tables are not reproduced: the
  functions that call \<open>str.upper()\<close> take it as their first argument \<open>up\<close>, a function on
  texts.
\<close>

definition import_cols :: "(string \<times> string list) list" where
  "import_cols =
     [(''USERS'', [''username'', ''password_hash'', ''role'', ''email'']),
      (''TEAMS'', [''team_name'', ''abbreviation'', ''country'', ''coach'', ''founded_date'',
                  ''is_active'']),
      (''PLAYERS'', [''team_id'', ''nickname'', ''real_name'', ''nationality'', ''role'',
                    ''birth_date'', ''is_active'']),
      (''TOURNAMENTS'', [''tournament_name'', ''location'', ''start_date'', ''end_date'',
                        ''prize_pool'', ''tier'', ''status'']),
      (''MATCHES'', [''tournament_id'', ''team1_id'', ''team2_id'', ''score_team1'',
                    ''score_team2'', ''match_date'', ''best_of'', ''stage'', ''winner_team_id''])]"

text \<open>
  The inner loop over \<open>cols[t]\<close>:
  \<^verbatim>\<open>
    if c in row:
        v = row[c]
        vals.append(None if v in ('','None') else v)
        vcols.append(c)
  \<close>
\<close>

definition import_value :: "pyval \<Rightarrow> pyval" where
  "import_value v = (if v = PStr [] \<or> v = PStr ''None'' then PNone else v)"

definition import_items :: "string list \<Rightarrow> row \<Rightarrow> row" where
  "import_items cs r =
     concat (map (\<lambda>c. case map_of r c of Some v \<Rightarrow> [(c, import_value v)] | None \<Rightarrow> []) cs)"

definition insert_query :: "string \<Rightarrow> string list \<Rightarrow> string" where
  "insert_query t vcols =
     ''INSERT INTO '' @ t @ '' ('' @ join '','' vcols @ '') VALUES (''
       @ join '','' (replicate (length vcols) ''%s'') @ '')''"

text \<open>
  The loop over the rows:
  \<^verbatim>\<open>
    if vcols:
        q = f"INSERT INTO {t} ({','.join(vcols)}) VALUES ({','.join(['%s']*len(vcols))})"
        try:
            if self.db.execute(q, tuple(vals)): imported += 1
        except: pass
  \<close>
\<close>

fun import_rows ::
  "'s engine \<Rightarrow> string \<Rightarrow> string list \<Rightarrow> row list \<Rightarrow> nat \<Rightarrow> 's world \<Rightarrow> nat \<times> 's world" where
  "import_rows db t cs [] imported w = (imported, w)"
| "import_rows db t cs (r # rest) imported w =
     (let items = import_items cs r in
      if items \<noteq> [] then
        (case execute db (insert_query t (map fst items)) (map snd items) w of
           (True, w') \<Rightarrow> import_rows db t cs rest (imported + 1) w'
         | (False, w') \<Rightarrow> import_rows db t cs rest imported w')
      else import_rows db t cs rest imported w)"

text \<open>
  \<open>DataImporter._import\<close>:
  \<^verbatim>\<open>
    if not data: return 0
    t = table.upper()
    if t not in cols: print(f"... Ungueltig: {table}"); return 0
    imported = 0
    for row in data: ...
    print(f"... {imported}/{len(data)} importiert.")
    return imported
  \<close>
\<close>

definition importer_import ::
  "(string \<Rightarrow> string) \<Rightarrow> 's engine \<Rightarrow> row list \<Rightarrow> string \<Rightarrow> 's world \<Rightarrow> nat \<times> 's world" where
  "importer_import up db data table w =
     (if data = [] then (0, w)
      else
        (case map_of import_cols (up table) of
           None \<Rightarrow> (0, w\<lparr>printed := printed w @ [InvalidTable table]\<rparr>)
         | Some cs \<Rightarrow>
             (case import_rows db (up table) cs data 0 w of
                (imported, w') \<Rightarrow>
                  (imported,
                   w'\<lparr>printed := printed w' @ [ImportReport imported (length data)]\<rparr>))))"

section \<open>The GUI (main\_gui.py)\<close>

text \<open>\<open>str.strip()\<close> and \<open>str.startswith\<close>.\<close>

definition is_space :: "char \<Rightarrow> bool" where
  "is_space c =
     (c \<in> set [CHR '' '', CHR 0x09, CHR 0x0A, CHR 0x0B, CHR 0x0C, CHR 0x0D,
               CHR 0x1C, CHR 0x1D, CHR 0x1E, CHR 0x1F])"

definition strip :: "string \<Rightarrow> string" where
  "strip s = rev (dropWhile is_space (rev (dropWhile is_space s)))"

definition startswith :: "string \<Rightarrow> string \<Rightarrow> bool" where
  "startswith s p = (take (length p) s = p)"

text \<open>
  \<open>Database.execute\<close> of the GUI:
  \<^verbatim>\<open>
    try:
        self.cursor.execute(query, params or ())
        if query.strip().upper().startswith('SELECT'):
            return self.cursor.fetchall()
        self.connection.commit()
        return None
    except MySQLError as e:
        messagebox.showerror("SQL-Fehler", str(e))
        self.connection.rollback()
        return None
  \<close>
\<close>

definition gui_execute ::
  "(string \<Rightarrow> string) \<Rightarrow> 's engine \<Rightarrow> string \<Rightarrow> pyval list \<Rightarrow> 's world
     \<Rightarrow> row list option \<times> 's world" where
  "gui_execute up db query params w =
     (case db query params (store w) of
        Some (s', rows, rid) \<Rightarrow>
          if startswith (up (strip query)) ''SELECT''
          then (Some rows, w\<lparr>issued := issued w @ [call query params True]\<rparr>)
          else (None, w\<lparr>store := s', lastrowid := rid, issued := issued w @ [call query params True]\<rparr>)
      | None \<Rightarrow>
          (None, w\<lparr>issued := issued w @ [call query params False], printed := printed w @ [SqlError]\<rparr>))"

text \<open>The entries \<open>'name'\<close> and \<open>'pk'\<close> of \<open>self.tables[self.current_table]\<close>.\<close>

record table_info =
  ti_name :: string
  ti_pk :: string

definition gui_tables :: "(string \<times> table_info) list" where
  "gui_tables =
     [(''users'', \<lparr>ti_name = ''USERS'', ti_pk = ''user_id''\<rparr>),
      (''teams'', \<lparr>ti_name = ''TEAMS'', ti_pk = ''team_id''\<rparr>),
      (''players'', \<lparr>ti_name = ''PLAYERS'', ti_pk = ''player_id''\<rparr>),
      (''tournaments'', \<lparr>ti_name = ''TOURNAMENTS'', ti_pk = ''tournament_id''\<rparr>),
      (''matches'', \<lparr>ti_name = ''MATCHES'', ti_pk = ''match_id''\<rparr>)]"

text \<open>
  The loop of \<open>CS2EsportApp.import_json\<close> over the rows read by \<open>json.load\<close>:
  \<^verbatim>\<open>
    count = 0
    for row in data:
        row.pop(table_info['pk'], None)
        if row:
            columns = ', '.join(row.keys())
            placeholders = ', '.join(['%s'] * len(row))
            query = f"INSERT INTO {table_info['name']} ({columns}) VALUES ({placeholders})"
            self.db.execute(query, tuple(row.values()))
            count += 1
    messagebox.showinfo("Import erfolgreich", f"... {count} Datensaetze importiert!")
  \<close>
\<close>

definition gui_insert_query :: "string \<Rightarrow> string list \<Rightarrow> string" where
  "gui_insert_query t cols =
     ''INSERT INTO '' @ t @ '' ('' @ join '', '' cols @ '') VALUES (''
       @ join '', '' (replicate (length cols) ''%s'') @ '')''"

definition pop :: "string \<Rightarrow> row \<Rightarrow> row" where
  "pop k r = filter (\<lambda>(c, v). c \<noteq> k) r"

fun gui_import_rows ::
  "(string \<Rightarrow> string) \<Rightarrow> 's engine \<Rightarrow> table_info \<Rightarrow> row list \<Rightarrow> nat \<Rightarrow> 's world
     \<Rightarrow> nat \<times> 's world" where
  "gui_import_rows up db ti [] cnt w = (cnt, w)"
| "gui_import_rows up db ti (r # rest) cnt w =
     (let r' = pop (ti_pk ti) r in
      if r' \<noteq> [] then
        (case gui_execute up db (gui_insert_query (ti_name ti) (map fst r')) (map snd r') w of
           (res, w') \<Rightarrow> gui_import_rows up db ti rest (cnt + 1) w')
      else gui_import_rows up db ti rest cnt w)"

definition import_json ::
  "(string \<Rightarrow> string) \<Rightarrow> 's engine \<Rightarrow> table_info \<Rightarrow> row list \<Rightarrow> 's world \<Rightarrow> 's world" where
  "import_json up db ti data w =
     (case gui_import_rows up db ti data 0 w of
        (cnt, w') \<Rightarrow> w'\<lparr>printed := printed w' @ [ImportSuccess cnt]\<rparr>)"

text \<open>
  \<open>CS2EsportApp.serialize_value\<close>:
  \<^verbatim>\<open>
    if isinstance(value, (datetime, date)):
        return value.isoformat()  # z.B. "2025-01-15" oder "2025-01-15T14:30:00"
    if isinstance(value, Decimal):
        return float(value)
    return value
  \<close>
\<close>

definition serialize_value :: "pyval \<Rightarrow> pyval" where
  "serialize_value v =
     (case v of
        PDateTime t \<Rightarrow> PStr (isoformat_datetime t)
      | PDate d \<Rightarrow> PStr (isoformat_date d)
      | PDecimal d \<Rightarrow> PFloat d
      | _ \<Rightarrow> v)"

section \<open>A model of the store\<close>

text \<open>
  The relational engine and the schema are external collaborators; neither is among the
  sources. Where a property speaks about the rows of the store, the engine is the model
  of this section: the five tables, and the single-table statements the program issues
  (INSERT, UPDATE, DELETE and SELECT without joins), read from the statement text as the
  engine reads it. Everything else about the engine is left open and enters as a
  parameter:
  \<^item> \<open>rejects\<close>: the write statements the engine refuses (a violated constraint, a
    value that does not fit its column); a refused statement raises \<open>MySQLError\<close>;
  \<^item> \<open>on_delete\<close>: the referential action of each foreign key;
  \<^item> \<open>other\<close>: the answer to every statement outside the fragment (joins, literals).
  Comparison is the engine's: NULL equals nothing, TRUE and FALSE are 1 and 0. Collation
  (case folding) and the conversion of strings to column types are not modelled.
\<close>

record tables =
  users :: "row list"
  teams :: "row list"
  players :: "row list"
  tournaments :: "row list"
  matches :: "row list"

definition get_table :: "string \<Rightarrow> tables \<Rightarrow> row list option" where
  "get_table t s =
     (if t = ''USERS'' then Some (users s)
      else if t = ''TEAMS'' then Some (teams s)
      else if t = ''PLAYERS'' then Some (players s)
      else if t = ''TOURNAMENTS'' then Some (tournaments s)
      else if t = ''MATCHES'' then Some (matches s)
      else None)"

definition set_table :: "string \<Rightarrow> row list \<Rightarrow> tables \<Rightarrow> tables" where
  "set_table t rows s =
     (if t = ''USERS'' then s\<lparr>users := rows\<rparr>
      else if t = ''TEAMS'' then s\<lparr>teams := rows\<rparr>
      else if t = ''PLAYERS'' then s\<lparr>players := rows\<rparr>
      else if t = ''TOURNAMENTS'' then s\<lparr>tournaments := rows\<rparr>
      else if t = ''MATCHES'' then s\<lparr>matches := rows\<rparr>
      else s)"

definition pk_of :: "string \<Rightarrow> string" where
  "pk_of t =
     (if t = ''USERS'' then ''user_id''
      else if t = ''TEAMS'' then ''team_id''
      else if t = ''PLAYERS'' then ''player_id''
      else if t = ''TOURNAMENTS'' then ''tournament_id''
      else ''match_id'')"

text \<open>
  Modelled from the spec: the schema is not among the sources. The foreign keys are the
  relationships of the spec's data model (child table, child column, parent table); the
  active-flag of teams and players is set for a new row that does not give it, as
  \<open>get_all_teams\<close> and \<open>get_all_players\<close> expect of the rows \<open>create_team\<close> and
  \<open>create_player\<close> insert.
\<close>

definition foreign_keys :: "(string \<times> string \<times> string) list" where
  "foreign_keys =
     [(''PLAYERS'', ''team_id'', ''TEAMS''),
      (''MATCHES'', ''tournament_id'', ''TOURNAMENTS''),
      (''MATCHES'', ''team1_id'', ''TEAMS''),
      (''MATCHES'', ''team2_id'', ''TEAMS''),
      (''MATCHES'', ''winner_team_id'', ''TEAMS'')]"

definition defaults :: "string \<Rightarrow> row" where
  "defaults t = (if t = ''TEAMS'' \<or> t = ''PLAYERS'' then [(''is_active'', PInt 1)] else [])"

datatype ref_action = Restrict | Cascade | SetNull

subsection \<open>Values\<close>

definition field :: "row \<Rightarrow> string \<Rightarrow> pyval" where
  "field r c = (case map_of r c of Some v \<Rightarrow> v | None \<Rightarrow> PNone)"

fun set_field :: "string \<Rightarrow> pyval \<Rightarrow> row \<Rightarrow> row" where
  "set_field c v [] = [(c, v)]"
| "set_field c v ((k, x) # r) = (if k = c then (k, v) # r else (k, x) # set_field c v r)"

fun sql_num :: "pyval \<Rightarrow> pyval" where
  "sql_num (PBool b) = PInt (if b then 1 else 0)"
| "sql_num v = v"

definition sql_eq :: "pyval \<Rightarrow> pyval \<Rightarrow> bool" where
  "sql_eq a b = (a \<noteq> PNone \<and> b \<noteq> PNone \<and> sql_num a = sql_num b)"

text \<open>\<open>text LIKE pattern\<close>: \<open>%\<close> stands for any run of characters, \<open>_\<close> for one.\<close>

fun like :: "string \<Rightarrow> string \<Rightarrow> bool" where
  "like [] [] = True"
| "like [] (c # cs) = False"
| "like (p # ps) [] = (p = CHR ''%'' \<and> like ps [])"
| "like (p # ps) (c # cs) =
     (if p = CHR ''%'' then like ps (c # cs) \<or> like (p # ps) cs
      else (p = CHR ''_'' \<or> p = c) \<and> like ps cs)"

definition sql_like :: "pyval \<Rightarrow> pyval \<Rightarrow> bool" where
  "sql_like v pat = (case (v, pat) of (PStr s, PStr p) \<Rightarrow> like p s | _ \<Rightarrow> False)"

text \<open>The order of ORDER BY: NULL first, then numbers, dates and strings among themselves.\<close>

fun lex_le :: "nat list \<Rightarrow> nat list \<Rightarrow> bool" where
  "lex_le [] ys = True"
| "lex_le (x # xs) [] = False"
| "lex_le (x # xs) (y # ys) = (x < y \<or> (x = y \<and> lex_le xs ys))"

fun sql_key :: "pyval \<Rightarrow> nat list" where
  "sql_key (PStr s) = map of_char s"
| "sql_key (PDate d) = [d_year d, d_month d, d_day d]"
| "sql_key (PDateTime t) = [year t, month t, day t, hour t, minute t, second t, microsecond t]"
| "sql_key v = []"

definition sql_le :: "pyval \<Rightarrow> pyval \<Rightarrow> bool" where
  "sql_le a b =
     (if a = PNone then True
      else if b = PNone then False
      else
        (case (sql_num a, sql_num b) of
           (PInt i, PInt j) \<Rightarrow> i \<le> j
         | (PInt i, _) \<Rightarrow> True
         | (_, PInt j) \<Rightarrow> False
         | _ \<Rightarrow> lex_le (sql_key a) (sql_key b)))"

fun insert_by :: "('a \<Rightarrow> 'a \<Rightarrow> bool) \<Rightarrow> 'a \<Rightarrow> 'a list \<Rightarrow> 'a list" where
  "insert_by le x [] = [x]"
| "insert_by le x (y # ys) = (if le x y then x # y # ys else y # insert_by le x ys)"

definition sort_by :: "('a \<Rightarrow> 'a \<Rightarrow> bool) \<Rightarrow> 'a list \<Rightarrow> 'a list" where
  "sort_by le xs = foldr (insert_by le) xs []"

definition order_rows :: "(string \<times> bool) option \<Rightarrow> row list \<Rightarrow> row list" where
  "order_rows ord rows =
     (case ord of
        None \<Rightarrow> rows
      | Some (c, desc) \<Rightarrow>
          (let sorted_rows = sort_by (\<lambda>a b. sql_le (field a c) (field b c)) rows
           in if desc then rev sorted_rows else sorted_rows))"

subsection \<open>Reading a statement\<close>

fun split_on :: "('a \<Rightarrow> bool) \<Rightarrow> 'a list \<Rightarrow> 'a list list" where
  "split_on P [] = [[]]"
| "split_on P (x # xs) =
     (if P x then [] # split_on P xs
      else (case split_on P xs of [] \<Rightarrow> [[x]] | g # gs \<Rightarrow> (x # g) # gs))"

definition sql_words :: "string \<Rightarrow> string list" where
  "sql_words q = filter (\<lambda>w. w \<noteq> []) (split_on is_space q)"

definition ident_char :: "char \<Rightarrow> bool" where
  "ident_char c =
     (c \<in> set ''abcdefghijklmnopqrstuvwxyzABCDEFGHIJKLMNOPQRSTUVWXYZ0123456789_'')"

definition is_ident :: "string \<Rightarrow> bool" where
  "is_ident s = (s \<noteq> [] \<and> list_all ident_char s)"

datatype sql_value = Placeholder | Lit pyval

datatype sql_cond = CondTrue | CondEq string sql_value | CondLike "string list"

datatype sql_stmt =
    Insert string "string list"
  | Update string "(string \<times> sql_value) list" "sql_cond list"
  | Delete string "sql_cond list"
  | Select string "string option" "sql_cond list" "(string \<times> bool) option"

definition parse_value :: "string \<Rightarrow> sql_value option" where
  "parse_value v =
     (if v = ''%s'' then Some Placeholder
      else if v = ''TRUE'' then Some (Lit (PInt 1))
      else if v = ''FALSE'' then Some (Lit (PInt 0))
      else None)"

text \<open>\<open>column=value\<close>, written without blanks.\<close>

definition parse_assign :: "string \<Rightarrow> (string \<times> sql_value) option" where
  "parse_assign tok =
     (let c = takeWhile (\<lambda>x. x \<noteq> CHR ''='') tok in
      if \<not> is_ident c then None
      else
        (case dropWhile (\<lambda>x. x \<noteq> CHR ''='') tok of
           [] \<Rightarrow> None
         | e # v \<Rightarrow> map_option (Pair c) (parse_value v)))"

text \<open>The list after SET: every assignment but the last is followed by a comma.\<close>

fun parse_assigns :: "string list \<Rightarrow> (string \<times> sql_value) list option" where
  "parse_assigns [] = None"
| "parse_assigns [tok] = map_option (\<lambda>a. [a]) (parse_assign tok)"
| "parse_assigns (tok # tl0) =
     (if tok \<noteq> [] \<and> last tok = CHR '','' then
        (case (parse_assign (butlast tok), parse_assigns tl0) of
           (Some a, Some rest) \<Rightarrow> Some (a # rest)
         | _ \<Rightarrow> None)
      else None)"

text \<open>\<open>c LIKE %s OR c LIKE %s ...\<close>, the parentheses taken off.\<close>

fun parse_likes :: "string list \<Rightarrow> string list option" where
  "parse_likes [c, l, v] = (if is_ident c \<and> l = ''LIKE'' \<and> v = ''%s'' then Some [c] else None)"
| "parse_likes (c # l # v # j # tl0) =
     (if is_ident c \<and> l = ''LIKE'' \<and> v = ''%s'' \<and> j = ''OR''
      then map_option ((#) c) (parse_likes tl0) else None)"
| "parse_likes toks = None"

definition parse_cond :: "string list \<Rightarrow> sql_cond option" where
  "parse_cond toks =
     (case toks of
        [] \<Rightarrow> None
      | [tok] \<Rightarrow>
          if tok = ''1=1'' then Some CondTrue
          else map_option (\<lambda>(c, v). CondEq c v) (parse_assign tok)
      | tok # tl0 \<Rightarrow>
          (case (tok, rev (last tl0)) of
             (l # c, r # v) \<Rightarrow>
               if l = CHR ''('' \<and> r = CHR '')''
               then map_option CondLike (parse_likes (c # butlast tl0 @ [rev v]))
               else None
           | _ \<Rightarrow> None))"

fun sequence :: "'a option list \<Rightarrow> 'a list option" where
  "sequence [] = Some []"
| "sequence (x # xs) =
     (case (x, sequence xs) of (Some y, Some ys) \<Rightarrow> Some (y # ys) | _ \<Rightarrow> None)"

text \<open>The conditions after WHERE, joined by AND.\<close>

definition parse_conds :: "string list \<Rightarrow> sql_cond list option" where
  "parse_conds toks = sequence (map parse_cond (split_on (\<lambda>w. w = ''AND'') toks))"

definition parse_where :: "string list \<Rightarrow> sql_cond list option" where
  "parse_where toks =
     (case toks of
        [] \<Rightarrow> Some []
      | w # tl0 \<Rightarrow> if w = ''WHERE'' then parse_conds tl0 else None)"

definition parse_order :: "string list \<Rightarrow> (string \<times> bool) option option" where
  "parse_order toks =
     (case toks of
        [] \<Rightarrow> Some None
      | [a, b, c] \<Rightarrow>
          if a = ''ORDER'' \<and> b = ''BY'' \<and> is_ident c then Some (Some (c, False)) else None
      | [a, b, c, d] \<Rightarrow>
          if a = ''ORDER'' \<and> b = ''BY'' \<and> is_ident c \<and> (d = ''DESC'' \<or> d = ''ASC'')
          then Some (Some (c, d = ''DESC'')) else None
      | _ \<Rightarrow> None)"

text \<open>\<open>(a,b,c)\<close>: the items between the parentheses, blanks dropped.\<close>

definition parse_tuple :: "string list \<Rightarrow> string list option" where
  "parse_tuple toks =
     (case concat toks of
        [] \<Rightarrow> None
      | l # tl0 \<Rightarrow>
          if l = CHR ''('' \<and> tl0 \<noteq> [] \<and> last tl0 = CHR '')''
          then Some (split_on (\<lambda>x. x = CHR '','') (butlast tl0))
          else None)"

definition parse_insert :: "string \<Rightarrow> string list \<Rightarrow> sql_stmt option" where
  "parse_insert t toks =
     (case (parse_tuple (takeWhile (\<lambda>w. w \<noteq> ''VALUES'') toks),
            dropWhile (\<lambda>w. w \<noteq> ''VALUES'') toks) of
        (Some cols, v # vals) \<Rightarrow>
          (case parse_tuple vals of
             Some vs \<Rightarrow>
               if list_all is_ident cols \<and> list_all (\<lambda>x. x = ''%s'') vs \<and> length vs = length cols
               then Some (Insert t cols) else None
           | None \<Rightarrow> None)
      | _ \<Rightarrow> None)"

definition parse_update :: "string \<Rightarrow> string list \<Rightarrow> sql_stmt option" where
  "parse_update t toks =
     (case (parse_assigns (takeWhile (\<lambda>w. w \<noteq> ''WHERE'') toks),
            parse_where (dropWhile (\<lambda>w. w \<noteq> ''WHERE'') toks)) of
        (Some asg, Some conds) \<Rightarrow> Some (Update t asg conds)
      | _ \<Rightarrow> None)"

definition parse_select :: "string \<Rightarrow> string \<Rightarrow> string list \<Rightarrow> sql_stmt option" where
  "parse_select proj t toks =
     (case (parse_where (takeWhile (\<lambda>w. w \<noteq> ''ORDER'') toks),
            parse_order (dropWhile (\<lambda>w. w \<noteq> ''ORDER'') toks)) of
        (Some conds, Some ord) \<Rightarrow>
          if proj = ''*'' then Some (Select t None conds ord)
          else if is_ident proj then Some (Select t (Some proj) conds ord)
          else None
      | _ \<Rightarrow> None)"

definition parse_sql :: "string \<Rightarrow> sql_stmt option" where
  "parse_sql q =
     (case sql_words q of
        a # b # c # tl0 \<Rightarrow>
          if a = ''INSERT'' \<and> b = ''INTO'' \<and> is_ident c then parse_insert c tl0
          else if a = ''UPDATE'' \<and> is_ident b \<and> c = ''SET'' then parse_update b tl0
          else if a = ''DELETE'' \<and> b = ''FROM'' \<and> is_ident c then
            map_option (Delete c) (parse_where tl0)
          else if a = ''SELECT'' \<and> c = ''FROM'' then
            (case tl0 of t # rest \<Rightarrow> if is_ident t then parse_select b t rest else None
             | [] \<Rightarrow> None)
          else None
      | _ \<Rightarrow> None)"

subsection \<open>Running a statement\<close>

text \<open>
  The placeholders take the bound parameters in the order of the text; a statement with
  too few or too many parameters raises an error.
\<close>

fun bind_assigns ::
  "(string \<times> sql_value) list \<Rightarrow> pyval list \<Rightarrow> ((string \<times> pyval) list \<times> pyval list) option" where
  "bind_assigns [] ps = Some ([], ps)"
| "bind_assigns ((c, Lit v) # tl0) ps =
     map_option (\<lambda>(bs, rest). ((c, v) # bs, rest)) (bind_assigns tl0 ps)"
| "bind_assigns ((c, Placeholder) # tl0) [] = None"
| "bind_assigns ((c, Placeholder) # tl0) (p # ps) =
     map_option (\<lambda>(bs, rest). ((c, sql_num p) # bs, rest)) (bind_assigns tl0 ps)"

datatype bound_cond = BTrue | BEq string pyval | BLike "(string \<times> pyval) list"

fun bind_conds :: "sql_cond list \<Rightarrow> pyval list \<Rightarrow> (bound_cond list \<times> pyval list) option" where
  "bind_conds [] ps = Some ([], ps)"
| "bind_conds (CondTrue # tl0) ps =
     map_option (\<lambda>(bs, rest). (BTrue # bs, rest)) (bind_conds tl0 ps)"
| "bind_conds (CondEq c v # tl0) ps =
     (case bind_assigns [(c, v)] ps of
        Some ([(c', v')], ps') \<Rightarrow>
          map_option (\<lambda>(bs, rest). (BEq c' v' # bs, rest)) (bind_conds tl0 ps')
      | _ \<Rightarrow> None)"
| "bind_conds (CondLike cs # tl0) ps =
     (if length ps < length cs then None
      else map_option (\<lambda>(bs, rest). (BLike (zip cs (take (length cs) ps)) # bs, rest))
             (bind_conds tl0 (drop (length cs) ps)))"

fun holds :: "row \<Rightarrow> bound_cond \<Rightarrow> bool" where
  "holds r BTrue = True"
| "holds r (BEq c v) = sql_eq (field r c) v"
| "holds r (BLike cvs) = list_ex (\<lambda>(c, v). sql_like (field r c) v) cvs"

definition selected :: "bound_cond list \<Rightarrow> row \<Rightarrow> bool" where
  "selected conds r = list_all (holds r) conds"

definition next_id :: "string \<Rightarrow> row list \<Rightarrow> int" where
  "next_id pk rows =
     1 + fold (\<lambda>r m. case field r pk of PInt i \<Rightarrow> max i m | _ \<Rightarrow> m) rows 0"

definition exec_insert ::
  "string \<Rightarrow> string list \<Rightarrow> pyval list \<Rightarrow> tables \<Rightarrow> (tables \<times> row list \<times> int) option" where
  "exec_insert t cols ps s =
     (case get_table t s of
        None \<Rightarrow> None
      | Some rows \<Rightarrow>
          if length ps \<noteq> length cols then None
          else
            (let given = zip cols (map sql_num ps);
                 new_id = (case field given (pk_of t) of PInt i \<Rightarrow> i | _ \<Rightarrow> next_id (pk_of t) rows);
                 r = (pk_of t, PInt new_id) # filter (\<lambda>(c, v). c \<noteq> pk_of t) given
                       @ filter (\<lambda>(c, v). c \<notin> set cols) (defaults t)
             in Some (set_table t (rows @ [r]) s, [], new_id)))"

definition exec_update ::
  "string \<Rightarrow> (string \<times> sql_value) list \<Rightarrow> sql_cond list \<Rightarrow> pyval list \<Rightarrow> tables
     \<Rightarrow> (tables \<times> row list \<times> int) option" where
  "exec_update t asg conds ps s =
     (case get_table t s of
        None \<Rightarrow> None
      | Some rows \<Rightarrow>
          (case bind_assigns asg ps of
             None \<Rightarrow> None
           | Some (sets, ps') \<Rightarrow>
               (case bind_conds conds ps' of
                  Some (bs, []) \<Rightarrow>
                    Some (set_table t
                            (map (\<lambda>r. if selected bs r
                                       then fold (\<lambda>(c, v). set_field c v) sets r else r) rows) s,
                          [], 0)
                | _ \<Rightarrow> None)))"

text \<open>
  Deleting parent rows with the keys \<open>keys\<close> acts on the rows that reference them, one
  foreign key after the other: RESTRICT refuses the statement, CASCADE deletes the
  referencing rows, SET NULL clears their reference. The child tables (players and
  matches) are parents of nothing, so no action reaches further.
\<close>

definition references :: "string \<Rightarrow> pyval list \<Rightarrow> row \<Rightarrow> bool" where
  "references col keys r = list_ex (\<lambda>k. sql_eq (field r col) k) keys"

fun apply_fks ::
  "(string \<Rightarrow> string \<Rightarrow> ref_action) \<Rightarrow> string \<Rightarrow> pyval list \<Rightarrow> (string \<times> string \<times> string) list
     \<Rightarrow> tables \<Rightarrow> tables option" where
  "apply_fks on_delete parent keys [] s = Some s"
| "apply_fks on_delete parent keys ((child, col, p) # fks) s =
     (if p \<noteq> parent then apply_fks on_delete parent keys fks s
      else
        (case get_table child s of
           None \<Rightarrow> None
         | Some rows \<Rightarrow>
             (case on_delete child col of
                Restrict \<Rightarrow>
                  if list_ex (references col keys) rows then None
                  else apply_fks on_delete parent keys fks s
              | Cascade \<Rightarrow>
                  apply_fks on_delete parent keys fks
                    (set_table child (filter (\<lambda>r. \<not> references col keys r) rows) s)
              | SetNull \<Rightarrow>
                  apply_fks on_delete parent keys fks
                    (set_table child
                       (map (\<lambda>r. if references col keys r then set_field col PNone r else r) rows)
                       s))))"

definition exec_delete ::
  "(string \<Rightarrow> string \<Rightarrow> ref_action) \<Rightarrow> string \<Rightarrow> sql_cond list \<Rightarrow> pyval list \<Rightarrow> tables
     \<Rightarrow> (tables \<times> row list \<times> int) option" where
  "exec_delete on_delete t conds ps s =
     (case get_table t s of
        None \<Rightarrow> None
      | Some rows \<Rightarrow>
          (case bind_conds conds ps of
             Some (bs, []) \<Rightarrow>
               map_option (\<lambda>s'. (s', [], 0))
                 (apply_fks on_delete t (map (\<lambda>r. field r (pk_of t)) (filter (selected bs) rows))
                    foreign_keys
                    (set_table t (filter (\<lambda>r. \<not> selected bs r) rows) s))
           | _ \<Rightarrow> None))"

definition exec_select ::
  "string \<Rightarrow> string option \<Rightarrow> sql_cond list \<Rightarrow> (string \<times> bool) option \<Rightarrow> pyval list \<Rightarrow> tables
     \<Rightarrow> (tables \<times> row list \<times> int) option" where
  "exec_select t proj conds ord ps s =
     (case get_table t s of
        None \<Rightarrow> None
      | Some rows \<Rightarrow>
          (case bind_conds conds ps of
             Some (bs, []) \<Rightarrow>
               (let found = order_rows ord (filter (selected bs) rows) in
                Some (s,
                      (case proj of
                         None \<Rightarrow> found
                       | Some c \<Rightarrow> map (\<lambda>r. [(c, field r c)]) found),
                      0))
           | _ \<Rightarrow> None))"

fun exec_stmt ::
  "(string \<Rightarrow> string \<Rightarrow> ref_action) \<Rightarrow> sql_stmt \<Rightarrow> pyval list \<Rightarrow> tables
     \<Rightarrow> (tables \<times> row list \<times> int) option" where
  "exec_stmt on_delete (Insert t cols) ps s = exec_insert t cols ps s"
| "exec_stmt on_delete (Update t asg conds) ps s = exec_update t asg conds ps s"
| "exec_stmt on_delete (Delete t conds) ps s = exec_delete on_delete t conds ps s"
| "exec_stmt on_delete (Select t proj conds ord) ps s = exec_select t proj conds ord ps s"

fun is_select :: "sql_stmt \<Rightarrow> bool" where
  "is_select (Select t proj conds ord) = True"
| "is_select st = False"

definition mariadb ::
  "(string \<Rightarrow> pyval list \<Rightarrow> tables \<Rightarrow> bool) \<Rightarrow> (string \<Rightarrow> string \<Rightarrow> ref_action) \<Rightarrow> tables engine
     \<Rightarrow> tables engine" where
  "mariadb rejects on_delete other q ps s =
     (case parse_sql q of
        None \<Rightarrow> other q ps s
      | Some st \<Rightarrow>
          if \<not> is_select st \<and> rejects q ps s then None
          else exec_stmt on_delete st ps s)"

text \<open>
  A connection that can fail: \<open>down q ps s\<close> tells the statements that fail before the
  engine has run them (a lost connection, a timeout, a missing table), reads included.
\<close>

definition unreliable :: "(string \<Rightarrow> pyval list \<Rightarrow> 's \<Rightarrow> bool) \<Rightarrow> 's engine \<Rightarrow> 's engine" where
  "unreliable down db q ps s = (if down q ps s then None else db q ps s)"

section \<open>Sequences of repository operations\<close>

text \<open>Every method of \<open>CRUDOperations\<close>, with its arguments.\<close>

datatype repo_op =
    CreateUser pyval pyval pyval pyval
  | GetAllUsers
  | GetUserById int
  | UpdateUser int row
  | DeleteUser int
  | CreateTeam pyval pyval pyval pyval pyval
  | GetAllTeams
  | GetTeamById int
  | UpdateTeam int row
  | DeleteTeam int
  | CreatePlayer pyval pyval pyval pyval pyval pyval
  | GetAllPlayers
  | GetPlayerById int
  | GetPlayersByTeam int
  | UpdatePlayer int row
  | DeletePlayer int
  | CreateTournament pyval pyval pyval pyval pyval pyval pyval
  | GetAllTournaments
  | GetTournamentById int
  | GetUpcomingTournaments
  | UpdateTournament int row
  | DeleteTournament int
  | CreateMatch int int int pyval pyval pyval
  | GetAllMatches
  | GetMatchById int
  | UpdateMatchScore int int int pyval
  | DeleteMatch int

text \<open>
  The world after one call. An exception leaves the method before it touched the
  connection: the world is as it was.
\<close>

definition after :: "py_error + 'a \<times> 's world \<Rightarrow> 's world \<Rightarrow> 's world" where
  "after res w = (case res of Inl e \<Rightarrow> w | Inr r \<Rightarrow> snd r)"

fun run_op :: "'s engine \<Rightarrow> repo_op \<Rightarrow> 's world \<Rightarrow> 's world" where
  "run_op db (CreateUser a b c d) w = snd (create_user db a b c d w)"
| "run_op db GetAllUsers w = snd (get_all_users db w)"
| "run_op db (GetUserById i) w = snd (get_user_by_id db i w)"
| "run_op db (UpdateUser i kw) w = after (update_user db i kw w) w"
| "run_op db (DeleteUser i) w = snd (delete_user db i w)"
| "run_op db (CreateTeam a b c d e) w = snd (create_team db a b c d e w)"
| "run_op db GetAllTeams w = snd (get_all_teams db w)"
| "run_op db (GetTeamById i) w = snd (get_team_by_id db i w)"
| "run_op db (UpdateTeam i kw) w = after (update_team db i kw w) w"
| "run_op db (DeleteTeam i) w = snd (delete_team db i w)"
| "run_op db (CreatePlayer a b c d e f) w = snd (create_player db a b c d e f w)"
| "run_op db GetAllPlayers w = snd (get_all_players db w)"
| "run_op db (GetPlayerById i) w = snd (get_player_by_id db i w)"
| "run_op db (GetPlayersByTeam i) w = snd (get_players_by_team db i w)"
| "run_op db (UpdatePlayer i kw) w = after (update_player db i kw w) w"
| "run_op db (DeletePlayer i) w = snd (delete_player db i w)"
| "run_op db (CreateTournament a b c d e f g) w = snd (create_tournament db a b c d e f g w)"
| "run_op db GetAllTournaments w = snd (get_all_tournaments db w)"
| "run_op db (GetTournamentById i) w = snd (get_tournament_by_id db i w)"
| "run_op db GetUpcomingTournaments w = snd (get_upcoming_tournaments db w)"
| "run_op db (UpdateTournament i kw) w = after (update_tournament db i kw w) w"
| "run_op db (DeleteTournament i) w = snd (delete_tournament db i w)"
| "run_op db (CreateMatch t a b d e f) w = snd (create_match db t a b d e f w)"
| "run_op db GetAllMatches w = snd (get_all_matches db w)"
| "run_op db (GetMatchById i) w = snd (get_match_by_id db i w)"
| "run_op db (UpdateMatchScore i a b v) w = snd (update_match_score db i a b v w)"
| "run_op db (DeleteMatch i) w = snd (delete_match db i w)"

fun run_ops :: "'s engine \<Rightarrow> repo_op list \<Rightarrow> 's world \<Rightarrow> 's world" where
  "run_ops db [] w = w"
| "run_ops db (x # xs) w = run_ops db xs (run_op db x w)"

text \<open>The keys of the player rows, in the order of the rows.\<close>

definition player_ids :: "tables \<Rightarrow> pyval list" where
  "player_ids s = map (\<lambda>r. field r ''player_id'') (players s)"

section \<open>Statements and examples\<close>

text \<open>
  What a whitelisted update is, for one table with its key column and its allowed
  columns, when the call returns \<open>res\<close>: the columns of the statement are the allowed
  keys of \<open>kw\<close> in their order;
  with none of them the call returns \<open>False\<close> and changes nothing; otherwise exactly one
  statement is issued, its text is built from the column names alone and reads, as SQL,
  as an UPDATE of these columns with one placeholder each and the key in the WHERE
  clause, and the values travel as parameters, the key last.
\<close>

definition whitelisted_update ::
  "string \<Rightarrow> string \<Rightarrow> string list \<Rightarrow> 's engine \<Rightarrow> int \<Rightarrow> row \<Rightarrow> 's world \<Rightarrow> bool \<times> 's world \<Rightarrow> bool" where
  "whitelisted_update table pk allowed db ident kw w res =
     (let updates = filter (\<lambda>(k, v). k \<in> set allowed) kw;
          cols = map fst updates;
          q = update_query table pk cols;
          params = map snd updates @ [PInt ident]
      in set cols \<subseteq> set allowed
       \<and> (if cols = [] then res = (False, w)
          else fst res = (db q params (store w) \<noteq> None)
             \<and> issued (snd res) = issued w @ [call q params (fst res)]
             \<and> parse_sql q
                 = Some (Update table (map (\<lambda>k. (k, Placeholder)) cols) [CondEq pk Placeholder])))"

text \<open>Engines and worlds for the examples.\<close>

definition refuse_all :: "unit engine" where
  "refuse_all q ps s = None"

definition start :: "unit world" where
  "start = \<lparr>store = (), lastrowid = 0, issued = [], printed = []\<rparr>"

text \<open>
  Reading the log of issued statements: the statements without their outcome, and the
  number of those the engine refused.
\<close>

definition statements :: "call list \<Rightarrow> (string \<times> pyval list) list" where
  "statements cs = map (\<lambda>c. (text_of c, params_of c)) cs"

definition rejected :: "call list \<Rightarrow> nat" where
  "rejected cs = length (filter (\<lambda>c. \<not> accepted c) cs)"

text \<open>
  The statements an import attempts, one for every row that has insertable data:
  \<open>DataImporter._import\<close> and the GUI's \<open>import_json\<close>.
\<close>

definition import_statements :: "string \<Rightarrow> string list \<Rightarrow> row list \<Rightarrow> (string \<times> pyval list) list" where
  "import_statements t cs data =
     map (\<lambda>r. (insert_query t (map fst (import_items cs r)), map snd (import_items cs r)))
       (filter (\<lambda>r. import_items cs r \<noteq> []) data)"

definition gui_import_statements :: "table_info \<Rightarrow> row list \<Rightarrow> (string \<times> pyval list) list" where
  "gui_import_statements ti data =
     map (\<lambda>r. (gui_insert_query (ti_name ti) (map fst (pop (ti_pk ti) r)), map snd (pop (ti_pk ti) r)))
       (filter (\<lambda>r. pop (ti_pk ti) r \<noteq> []) data)"

text \<open>
  What an import into the table \<open>t\<close> with the columns \<open>cs\<close> is to attempt: for every row
  that has at least one of the columns, an INSERT into \<open>t\<close> of the columns the row has, in
  the order of \<open>cs\<close>, with the values of the row as parameters, the texts \<open>''\<close> and
  \<open>'None'\<close> replaced by NULL.
\<close>

definition known_columns :: "string list \<Rightarrow> row \<Rightarrow> string list" where
  "known_columns cs r = filter (\<lambda>c. map_of r c \<noteq> None) cs"

definition expected_inserts ::
  "string \<Rightarrow> string list \<Rightarrow> row list \<Rightarrow> (sql_stmt option \<times> pyval list) list" where
  "expected_inserts t cs data =
     map (\<lambda>r. (Some (Insert t (known_columns cs r)),
               map (\<lambda>c. case map_of r c of
                           Some v \<Rightarrow> if v = PStr [] \<or> v = PStr ''None'' then PNone else v
                         | None \<Rightarrow> PNone)
                 (known_columns cs r)))
       (filter (\<lambda>r. known_columns cs r \<noteq> []) data)"

text \<open>
  Handing statements to the engine one after the other, a refused one leaving the store
  as it was: the outcome of each and the store at the end.
\<close>

fun replay :: "'s engine \<Rightarrow> (string \<times> pyval list) list \<Rightarrow> 's \<Rightarrow> bool list \<times> 's" where
  "replay db [] s = ([], s)"
| "replay db ((q, ps) # rest) s =
     (case db q ps s of
        None \<Rightarrow> (case replay db rest s of (oks, s') \<Rightarrow> (False # oks, s'))
      | Some (s1, rows, rid) \<Rightarrow> (case replay db rest s1 of (oks, s') \<Rightarrow> (True # oks, s')))"

text \<open>
  \<open>str.upper()\<close> on a text of ASCII characters: the letters \<open>a\<close> to \<open>z\<close> become their
  capitals. It stands for \<open>up\<close> in the examples, whose table names are ASCII.
\<close>

definition ascii_upper :: "string \<Rightarrow> string" where
  "ascii_upper s =
     map (\<lambda>c. case map_of (zip ''abcdefghijklmnopqrstuvwxyz'' ''ABCDEFGHIJKLMNOPQRSTUVWXYZ'') c of
                Some u \<Rightarrow> u
              | None \<Rightarrow> c)
       s"

text \<open>
  An engine that refuses a statement with a NULL parameter and files the parameters of
  every other one, three rows to import, and the empty world of this engine.
\<close>

definition not_null :: "pyval list list engine" where
  "not_null q ps s = (if PNone \<in> set ps then None else Some (s @ [ps], [], int (length s) + 1))"

definition three_teams :: "row list" where
  "three_teams =
     [[(''team_id'', PInt 4), (''team_name'', PStr ''A''), (''color'', PStr ''red'')],
      [(''team_id'', PInt 5), (''team_name'', PStr '''')],
      [(''team_name'', PStr ''C'')]]"

definition blank :: "pyval list list world" where
  "blank = \<lparr>store = [], lastrowid = 0, issued = [], printed = []\<rparr>"

section \<open>Reading ISO-8601 text back\<close>

text \<open>
  The sources hold no parser of their own: on import the text goes to the engine as it
  is. The re-parse of the round-trip properties is \<open>date.fromisoformat\<close> and
  \<open>datetime.fromisoformat\<close> of the standard library, on the two shapes \<open>isoformat\<close>
  writes: they return a value only for well-formed text that names a valid date and time.
\<close>

definition digit_val :: "char \<Rightarrow> nat option" where
  "digit_val c = map_of (zip ''0123456789'' [0, 1, 2, 3, 4, 5, 6, 7, 8, 9]) c"

definition digit_step :: "char \<Rightarrow> nat option \<Rightarrow> nat option" where
  "digit_step c acc =
     (case (acc, digit_val c) of (Some a, Some d) \<Rightarrow> Some (10 * a + d) | _ \<Rightarrow> None)"

definition parse_nat :: "string \<Rightarrow> nat option" where
  "parse_nat s = (if s = [] then None else fold digit_step s (Some 0))"

definition leap_year :: "nat \<Rightarrow> bool" where
  "leap_year y = (y mod 4 = 0 \<and> (y mod 100 \<noteq> 0 \<or> y mod 400 = 0))"

definition days_in_month :: "nat \<Rightarrow> nat \<Rightarrow> nat" where
  "days_in_month y m =
     (if m = 2 then (if leap_year y then 29 else 28)
      else if m = 4 \<or> m = 6 \<or> m = 9 \<or> m = 11 then 30
      else 31)"

text \<open>The values a \<open>date\<close> and a \<open>datetime\<close> object can hold.\<close>

definition valid_date :: "date \<Rightarrow> bool" where
  "valid_date d =
     (1 \<le> d_year d \<and> d_year d \<le> 9999 \<and> 1 \<le> d_month d \<and> d_month d \<le> 12
      \<and> 1 \<le> d_day d \<and> d_day d \<le> days_in_month (d_year d) (d_month d))"

definition valid_datetime :: "datetime \<Rightarrow> bool" where
  "valid_datetime t =
     (valid_date \<lparr>d_year = year t, d_month = month t, d_day = day t\<rparr>
      \<and> hour t < 24 \<and> minute t < 60 \<and> second t < 60 \<and> microsecond t < 1000000)"

definition date_fromisoformat :: "string \<Rightarrow> date option" where
  "date_fromisoformat s =
     (if length s = 10 \<and> s ! 4 = CHR ''-'' \<and> s ! 7 = CHR ''-'' then
        (case (parse_nat (take 4 s), parse_nat (take 2 (drop 5 s)), parse_nat (drop 8 s)) of
           (Some y, Some m, Some d) \<Rightarrow>
             if valid_date \<lparr>d_year = y, d_month = m, d_day = d\<rparr>
             then Some \<lparr>d_year = y, d_month = m, d_day = d\<rparr> else None
         | _ \<Rightarrow> None)
      else None)"

definition time_fromisoformat :: "string \<Rightarrow> (nat \<times> nat \<times> nat \<times> nat) option" where
  "time_fromisoformat s =
     (if (length s = 8 \<or> (length s = 15 \<and> s ! 8 = CHR ''.''))
         \<and> s ! 2 = CHR '':'' \<and> s ! 5 = CHR '':'' then
        (case (parse_nat (take 2 s), parse_nat (take 2 (drop 3 s)), parse_nat (take 2 (drop 6 s)),
               if length s = 8 then Some 0 else parse_nat (drop 9 s)) of
           (Some h, Some m, Some sec, Some us) \<Rightarrow>
             if h < 24 \<and> m < 60 \<and> sec < 60 then Some (h, m, sec, us) else None
         | _ \<Rightarrow> None)
      else None)"

definition datetime_fromisoformat :: "string \<Rightarrow> datetime option" where
  "datetime_fromisoformat s =
     (if 10 < length s \<and> s ! 10 = CHR ''T'' then
        (case (date_fromisoformat (take 10 s), time_fromisoformat (drop 11 s)) of
           (Some d, Some (h, m, sec, us)) \<Rightarrow>
             Some \<lparr>year = d_year d, month = d_month d, day = d_day d,
                   hour = h, minute = m, second = sec, microsecond = us\<rparr>
         | _ \<Rightarrow> None)
      else None)"

text \<open>
  The rows of a team, and the player rows that reference a team, whatever their
  active-flag.
\<close>

definition team_rows :: "int \<Rightarrow> tables \<Rightarrow> row list" where
  "team_rows i s = filter (\<lambda>r. sql_eq (field r ''team_id'') (PInt i)) (teams s)"

definition team_players :: "int \<Rightarrow> tables \<Rightarrow> row list" where
  "team_players i s = filter (\<lambda>r. sql_eq (field r ''team_id'') (PInt i)) (players s)"

definition active_team_players :: "int \<Rightarrow> tables \<Rightarrow> row list" where
  "active_team_players i s =
     filter (\<lambda>r. sql_eq (field r ''is_active'') (PInt 1)) (team_players i s)"

text \<open>
  A store with one team and one player of it who was deactivated earlier, the same store
  without the player, and an engine that refuses nothing and restricts every foreign key.
\<close>

definition plain_db :: "tables engine" where
  "plain_db = mariadb (\<lambda>q ps s. False) (\<lambda>child col. Restrict) (\<lambda>q ps s. None)"

text \<open>
  An engine that answers the two reads of matches with their team names (statements
  outside the fragment, answered from the table of matches) and refuses nothing, and a
  world with one match that has no result yet.
\<close>

definition with_names :: "tables engine" where
  "with_names q ps s =
     Some (s,
           map (\<lambda>r. r @ [(''team1_name'', PStr ''Alpha''), (''team2_name'', PStr ''Beta'')])
             (filter (\<lambda>r. case ps of [] \<Rightarrow> True | p # ps' \<Rightarrow> sql_eq (field r ''match_id'') p)
                (matches s)),
           0)"

definition match_db :: "tables engine" where
  "match_db = mariadb (\<lambda>q ps s. False) (\<lambda>child col. Restrict) with_names"

definition one_match :: "tables world" where
  "one_match =
     \<lparr>store = \<lparr>users = [], teams = [], players = [], tournaments = [],
                matches = [[(''match_id'', PInt 1), (''team1_id'', PInt 10), (''team2_id'', PInt 20),
                            (''score_team1'', PInt 0), (''score_team2'', PInt 0),
                            (''winner_team_id'', PNone)]]\<rparr>,
      lastrowid = 0, issued = [], printed = []\<rparr>"

text \<open>
  An engine that fails on the read of the players of a team, refuses nothing else and
  clears every reference to a deleted row.
\<close>

definition blind_db :: "tables engine" where
  "blind_db =
     unreliable (\<lambda>q ps s. q = ''SELECT player_id FROM PLAYERS WHERE team_id=%s'')
       (mariadb (\<lambda>q ps s. False) (\<lambda>child col. SetNull) (\<lambda>q ps s. None))"

definition team_without_players :: "tables world" where
  "team_without_players =
     \<lparr>store = \<lparr>users = [],
                teams = [[(''team_id'', PInt 1), (''team_name'', PStr ''Alpha''),
                          (''is_active'', PInt 1)]],
                players = [], tournaments = [], matches = []\<rparr>,
      lastrowid = 0, issued = [], printed = []\<rparr>"

definition team_with_inactive_player :: "tables world" where
  "team_with_inactive_player =
     team_without_players
       \<lparr>store := (store team_without_players)
          \<lparr>players := [[(''player_id'', PInt 5), (''nickname'', PStr ''ace''),
                        (''team_id'', PInt 1), (''is_active'', PInt 0)]]\<rparr>\<rparr>"

text \<open>
  What the structured search asks of a tournament row, filter by filter: a filter that is
  absent (or the empty string) asks nothing, the term must occur in the name or in the
  location, the tier and the status must equal the column.
\<close>

definition term_matches :: "string option \<Rightarrow> row \<Rightarrow> bool" where
  "term_matches term r =
     (case term of
        None \<Rightarrow> True
      | Some t \<Rightarrow>
          t = [] \<or> sql_like (field r ''tournament_name'') (PStr (''%'' @ t @ ''%''))
                 \<or> sql_like (field r ''location'') (PStr (''%'' @ t @ ''%'')))"

definition column_matches :: "string \<Rightarrow> string option \<Rightarrow> row \<Rightarrow> bool" where
  "column_matches c v r =
     (case v of None \<Rightarrow> True | Some t \<Rightarrow> t = [] \<or> sql_eq (field r c) (PStr t))"

definition tournament_matches :: "string option \<Rightarrow> string option \<Rightarrow> string option \<Rightarrow> row \<Rightarrow> bool" where
  "tournament_matches term tier status r =
     (term_matches term r \<and> column_matches ''tier'' tier r \<and> column_matches ''status'' status r)"

text \<open>Three tournaments of two tiers.\<close>

definition three_tournaments :: "tables world" where
  "three_tournaments =
     \<lparr>store = \<lparr>users = [], teams = [], players = [],
                tournaments =
                  [[(''tournament_id'', PInt 1), (''tournament_name'', PStr ''Major''),
                    (''start_date'', PDate \<lparr>d_year = 2025, d_month = 3, d_day = 2\<rparr>),
                    (''tier'', PStr ''S-Tier''), (''status'', PStr ''Upcoming'')],
                   [(''tournament_id'', PInt 2), (''tournament_name'', PStr ''Cup''),
                    (''start_date'', PDate \<lparr>d_year = 2025, d_month = 5, d_day = 9\<rparr>),
                    (''tier'', PStr ''B-Tier''), (''status'', PStr ''Upcoming'')],
                   [(''tournament_id'', PInt 3), (''tournament_name'', PStr ''Finals''),
                    (''start_date'', PDate \<lparr>d_year = 2025, d_month = 7, d_day = 20\<rparr>),
                    (''tier'', PStr ''S-Tier''), (''status'', PStr ''Completed'')]],
                matches = []\<rparr>,
      lastrowid = 0, issued = [], printed = []\<rparr>"

section \<open>Properties\<close>

lemma split_on_sep:
  "list_all (\<lambda>x. \<not> P x) u \<Longrightarrow> P c \<Longrightarrow> split_on P (u @ c # rest) = u # split_on P rest"
  by (induction u) auto

lemma split_on_word: "list_all (\<lambda>x. \<not> P x) u \<Longrightarrow> split_on P u = [u]"
  by (induction u) auto

lemma is_space_blank: "is_space (CHR '' '')"
  by (simp add: is_space_def)

lemma sql_words_cons:
  "list_all (\<lambda>x. \<not> is_space x) u \<Longrightarrow> u \<noteq> [] \<Longrightarrow>
     sql_words (u @ CHR '' '' # rest) = u # sql_words rest"
  by (simp add: sql_words_def split_on_sep is_space_blank)

lemma sql_words_word:
  "list_all (\<lambda>x. \<not> is_space x) u \<Longrightarrow> u \<noteq> [] \<Longrightarrow> sql_words u = [u]"
  by (simp add: sql_words_def split_on_word)

lemma ident_char_plain:
  "ident_char c \<Longrightarrow> \<not> is_space c \<and> c \<noteq> CHR ''='' \<and> c \<noteq> CHR '','' \<and> c \<noteq> CHR ''%''"
  unfolding ident_char_def is_space_def by auto

lemma is_ident_plain:
  "is_ident s \<Longrightarrow>
     list_all (\<lambda>x. \<not> is_space x \<and> x \<noteq> CHR ''='' \<and> x \<noteq> CHR '','' \<and> x \<noteq> CHR ''%'') s"
  unfolding is_ident_def by (auto simp: list_all_iff dest: ident_char_plain)

lemma is_ident_no_space: "is_ident s \<Longrightarrow> list_all (\<lambda>x. \<not> is_space x) s"
  using is_ident_plain [of s] by (auto simp: list_all_iff)

lemma is_ident_no_eq: "is_ident s \<Longrightarrow> CHR ''='' \<notin> set s"
  using is_ident_plain [of s] by (auto simp: list_all_iff)

lemma takeWhile_until: "c \<notin> set u \<Longrightarrow> takeWhile (\<lambda>x. x \<noteq> c) (u @ c # v) = u"
  by (induction u) auto

lemma dropWhile_until: "c \<notin> set u \<Longrightarrow> dropWhile (\<lambda>x. x \<noteq> c) (u @ c # v) = c # v"
  by (induction u) auto

lemma parse_assign_placeholder:
  "is_ident k \<Longrightarrow> parse_assign (k @ ''=%s'') = Some (k, Placeholder)"
  using takeWhile_until [of "CHR ''=''" k "''%s''"] dropWhile_until [of "CHR ''=''" k "''%s''"]
  by (simp add: parse_assign_def parse_value_def is_ident_no_eq)

lemma assign_word:
  "is_ident k \<Longrightarrow> list_all (\<lambda>x. \<not> is_space x) (k @ ''=%s'' @ u) = list_all (\<lambda>x. \<not> is_space x) u"
  using is_ident_no_space [of k] by (simp add: is_space_def)

lemma words_assigns:
  "cols \<noteq> [] \<Longrightarrow> list_all is_ident cols \<Longrightarrow>
     \<exists>toks. sql_words (join '', '' (map (\<lambda>k. k @ ''=%s'') cols) @ CHR '' '' # rest)
               = toks @ sql_words rest
          \<and> parse_assigns toks = Some (map (\<lambda>k. (k, Placeholder)) cols)
          \<and> list_all (\<lambda>w. w \<noteq> ''WHERE'') toks"
proof (induction cols rule: induct_list012)
  case 1
  then show ?case by simp
next
  case (2 c)
  then have id: "is_ident c" by simp
  have sp: "list_all (\<lambda>x. \<not> is_space x) (c @ ''=%s'')"
    using assign_word [OF id, of "[]"] by simp
  have "sql_words ((c @ ''=%s'') @ CHR '' '' # rest) = (c @ ''=%s'') # sql_words rest"
    by (rule sql_words_cons [OF sp]) simp
  moreover have "c @ ''=%s'' \<noteq> ''WHERE''"
    using is_ident_no_eq [OF id] by (auto simp: append_eq_Cons_conv)
  ultimately show ?case
    using parse_assign_placeholder [OF id]
    by (intro exI [of _ "[c @ ''=%s'']"]) simp
next
  case (3 c d ds)
  then have id: "is_ident c" and rest_ok: "list_all is_ident (d # ds)" by simp_all
  from 3(2) [OF _ rest_ok] obtain toks where
    w: "sql_words (join '', '' (map (\<lambda>k. k @ ''=%s'') (d # ds)) @ CHR '' '' # rest)
          = toks @ sql_words rest"
    and p: "parse_assigns toks = Some (map (\<lambda>k. (k, Placeholder)) (d # ds))"
    and nw: "list_all (\<lambda>w. w \<noteq> ''WHERE'') toks"
    by auto
  from p obtain t ts where toks: "toks = t # ts" by (cases toks) auto
  have sp: "list_all (\<lambda>x. \<not> is_space x) (c @ ''=%s,'')"
    using assign_word [OF id, of "'',''"] by (simp add: is_space_def)
  have tx: "join '', '' (map (\<lambda>k. k @ ''=%s'') (c # d # ds)) @ CHR '' '' # rest
        = (c @ ''=%s,'') @ CHR '' '' # (join '', '' (map (\<lambda>k. k @ ''=%s'') (d # ds)) @ CHR '' '' # rest)"
    by simp
  have ws: "sql_words (join '', '' (map (\<lambda>k. k @ ''=%s'') (c # d # ds)) @ CHR '' '' # rest)
        = (c @ ''=%s,'') # toks @ sql_words rest"
    unfolding tx using sql_words_cons [OF sp] w by simp
  have ne: "c @ ''=%s,'' \<noteq> ''WHERE''"
    using is_ident_no_eq [OF id] by (auto simp: append_eq_Cons_conv)
  have bl: "butlast (c @ ''=%s,'') = c @ ''=%s''" by (simp add: butlast_append)
  have pa: "parse_assigns ((c @ ''=%s,'') # t # ts)
        = Some (map (\<lambda>k. (k, Placeholder)) (c # d # ds))"
    using p parse_assign_placeholder [OF id] bl by (simp add: toks)
  show ?case
    using ws pa ne nw by (intro exI [of _ "(c @ ''=%s,'') # toks"]) (simp add: toks)
qed


lemma takeWhile_all: "list_all P xs \<Longrightarrow> \<not> P y \<Longrightarrow> takeWhile P (xs @ y # ys) = xs"
  by (induction xs) auto

lemma dropWhile_all: "list_all P xs \<Longrightarrow> \<not> P y \<Longrightarrow> dropWhile P (xs @ y # ys) = y # ys"
  by (induction xs) auto

lemma parse_where_key:
  "is_ident pk \<Longrightarrow> parse_where [''WHERE'', pk @ ''=%s''] = Some [CondEq pk Placeholder]"
proof -
  assume id: "is_ident pk"
  have a: "pk @ ''=%s'' \<noteq> ''AND''" and b: "pk @ ''=%s'' \<noteq> ''1=1''"
    using is_ident_no_eq [OF id] by (auto simp: append_eq_Cons_conv)
  show ?thesis
    using a b parse_assign_placeholder [OF id]
    by (simp add: parse_where_def parse_conds_def parse_cond_def)
qed

lemma sql_words_update_query:
  assumes t: "is_ident t" and pk: "is_ident pk" and ne: "cols \<noteq> []" and ids: "list_all is_ident cols"
  shows "\<exists>toks. sql_words (update_query t pk cols)
                  = ''UPDATE'' # t # ''SET'' # toks @ [''WHERE'', pk @ ''=%s'']
           \<and> parse_assigns toks = Some (map (\<lambda>k. (k, Placeholder)) cols)
           \<and> list_all (\<lambda>w. w \<noteq> ''WHERE'') toks"
proof -
  let ?tail = "''WHERE'' @ CHR '' '' # (pk @ ''=%s'')"
  from words_assigns [OF ne ids, of ?tail] obtain toks where
    w: "sql_words (join '', '' (map (\<lambda>k. k @ ''=%s'') cols) @ CHR '' '' # ?tail)
          = toks @ sql_words ?tail"
    and p: "parse_assigns toks = Some (map (\<lambda>k. (k, Placeholder)) cols)"
    and nw: "list_all (\<lambda>w. w \<noteq> ''WHERE'') toks"
    by blast
  have pkw: "sql_words (pk @ ''=%s'') = [pk @ ''=%s'']"
    using assign_word [OF pk, of "[]"] by (intro sql_words_word) simp_all
  have tailw: "sql_words ?tail = [''WHERE'', pk @ ''=%s'']"
    using pkw by (subst sql_words_cons) (simp_all add: is_space_def)
  have q: "update_query t pk cols
        = ''UPDATE'' @ CHR '' '' # (t @ CHR '' '' # (''SET'' @ CHR '' '' #
            (join '', '' (map (\<lambda>k. k @ ''=%s'') cols) @ CHR '' '' # ?tail)))"
    by (simp add: update_query_def)
  have "sql_words (update_query t pk cols) = ''UPDATE'' # t # ''SET'' # toks @ [''WHERE'', pk @ ''=%s'']"
    unfolding q
    apply (subst sql_words_cons)
      apply (simp add: is_space_def)
     apply simp
    apply (subst sql_words_cons [OF is_ident_no_space [OF t]])
    using t apply (simp add: is_ident_def)
    apply (subst sql_words_cons)
      apply (simp add: is_space_def)
     apply simp
    apply (simp only: w tailw)
    done
  with p nw show ?thesis by blast
qed

lemma parse_update_query:
  assumes t: "is_ident t" and pk: "is_ident pk" and ne: "cols \<noteq> []" and ids: "list_all is_ident cols"
  shows "parse_sql (update_query t pk cols)
           = Some (Update t (map (\<lambda>k. (k, Placeholder)) cols) [CondEq pk Placeholder])"
proof -
  from sql_words_update_query [OF assms] obtain toks where
    w: "sql_words (update_query t pk cols) = ''UPDATE'' # t # ''SET'' # toks @ [''WHERE'', pk @ ''=%s'']"
    and p: "parse_assigns toks = Some (map (\<lambda>k. (k, Placeholder)) cols)"
    and nw: "list_all (\<lambda>w. w \<noteq> ''WHERE'') toks"
    by blast
  have tk: "takeWhile (\<lambda>w. w \<noteq> ''WHERE'') (toks @ [''WHERE'', pk @ ''=%s'']) = toks"
    using takeWhile_all [OF nw, of "''WHERE''" "[pk @ ''=%s'']"] by simp
  have dr: "dropWhile (\<lambda>w. w \<noteq> ''WHERE'') (toks @ [''WHERE'', pk @ ''=%s''])
              = [''WHERE'', pk @ ''=%s'']"
    using dropWhile_all [OF nw, of "''WHERE''" "[pk @ ''=%s'']"] by simp
  show ?thesis
    using t by (simp add: parse_sql_def w parse_update_def tk dr p parse_where_key [OF pk])
qed



lemma is_ident_names:
  "is_ident ''USERS''" "is_ident ''TEAMS''" "is_ident ''PLAYERS''" "is_ident ''TOURNAMENTS''"
  "is_ident ''MATCHES''"
  "is_ident ''user_id''" "is_ident ''team_id''" "is_ident ''player_id''"
  "is_ident ''tournament_id''" "is_ident ''match_id''"
  by (simp_all add: is_ident_def ident_char_def)

lemma allowed_idents:
  "list_all is_ident users_allowed" "list_all is_ident teams_allowed"
  "list_all is_ident players_allowed" "list_all is_ident tournaments_allowed"
  by (simp_all add: users_allowed_def teams_allowed_def players_allowed_def
        tournaments_allowed_def is_ident_def ident_char_def)

lemma filtered_keys_ident:
  "list_all is_ident allowed \<Longrightarrow>
     list_all is_ident (map fst (filter (\<lambda>(k, v). k \<in> set allowed) kw))"
  by (auto simp: list_all_iff)

text \<open>
  C3. Creating a match with the same team on both sides fails for every tournament, team
  and match field: the call returns \<open>None\<close>, prints the self-match message, and hands no
  statement to the store, which stays as it was. The test comes before any statement is
  built.
\<close>

theorem create_match_rejects_self_match:
  "create_match db tournament_id x x match_date best_of stage w
     = (None, w\<lparr>printed := printed w @ [SelfMatch]\<rparr>)
   \<and> issued (snd (create_match db tournament_id x x match_date best_of stage w)) = issued w
   \<and> store (snd (create_match db tournament_id x x match_date best_of stage w)) = store w"
  by (simp add: create_match_def)


lemma execute_issued:
  "issued (snd (execute db q ps w)) = issued w @ [call q ps (fst (execute db q ps w))]"
  by (simp add: execute_def split: option.splits)

lemma execute_fst: "fst (execute db q ps w) = (db q ps (store w) \<noteq> None)"
  by (simp add: execute_def split: option.splits)

lemma execute_printed:
  "printed (snd (execute db q ps w))
     = printed w @ (if fst (execute db q ps w) then [] else [SqlError])"
  by (simp add: execute_def split: option.splits)

lemma execute_refused:
  "\<not> fst (execute db q ps w) \<Longrightarrow> store (snd (execute db q ps w)) = store w"
  by (auto simp: execute_def split: option.splits)

lemma update_entity_whitelisted:
  assumes "is_ident table" "is_ident pk" "list_all is_ident allowed" "\<not> clashes pk kw"
  shows "\<exists>res. update_entity table pk allowed db ident kw w = Inr res
           \<and> whitelisted_update table pk allowed db ident kw w res"
proof -
  let ?u = "filter (\<lambda>(k, v). k \<in> set allowed) kw"
  have sub: "set (map fst ?u) \<subseteq> set allowed" by auto
  show ?thesis
  proof (cases "?u = []")
    case True
    then show ?thesis
      using assms(4) by (simp add: whitelisted_update_def update_entity_def)
  next
    case False
    then have ne: "map fst ?u \<noteq> []" by simp
    have p: "parse_sql (update_query table pk (map fst ?u))
               = Some (Update table (map (\<lambda>k. (k, Placeholder)) (map fst ?u)) [CondEq pk Placeholder])"
      by (rule parse_update_query [OF assms(1,2) ne filtered_keys_ident [OF assms(3)]])
    show ?thesis
      using False sub p assms(4)
      by (simp add: whitelisted_update_def update_entity_def Let_def execute_issued execute_fst)
  qed
qed

lemma update_entity_outcome:
  assumes "is_ident table" "is_ident pk" "list_all is_ident allowed"
  shows "if clashes pk kw then update_entity table pk allowed db ident kw w = Inl TypeError
         else \<exists>res. update_entity table pk allowed db ident kw w = Inr res
                \<and> whitelisted_update table pk allowed db ident kw w res"
proof (cases "clashes pk kw")
  case True
  then show ?thesis by (simp add: update_entity_def)
next
  case False
  with update_entity_whitelisted [OF assms False] show ?thesis by simp
qed

text \<open>
  C1 (as amended). For each of the four entities and every partial field map: a map that
  holds the key \<open>self\<close> or the name of the key parameter makes the call raise
  \<open>TypeError\<close>; for every other map the update builds its statement from the allowed
  columns only: other keys are dropped without an error, the text holds column names of
  the allowed set and placeholders, and the values are bound parameters with the key
  value last.
\<close>

theorem update_uses_whitelisted_columns:
  "(if clashes ''user_id'' kw then update_user db ident kw w = Inl TypeError
    else \<exists>res. update_user db ident kw w = Inr res
           \<and> whitelisted_update ''USERS'' ''user_id'' users_allowed db ident kw w res)
   \<and> (if clashes ''team_id'' kw then update_team db ident kw w = Inl TypeError
       else \<exists>res. update_team db ident kw w = Inr res
              \<and> whitelisted_update ''TEAMS'' ''team_id'' teams_allowed db ident kw w res)
   \<and> (if clashes ''player_id'' kw then update_player db ident kw w = Inl TypeError
       else \<exists>res. update_player db ident kw w = Inr res
              \<and> whitelisted_update ''PLAYERS'' ''player_id'' players_allowed db ident kw w res)
   \<and> (if clashes ''tournament_id'' kw then update_tournament db ident kw w = Inl TypeError
       else \<exists>res. update_tournament db ident kw w = Inr res
              \<and> whitelisted_update ''TOURNAMENTS'' ''tournament_id'' tournaments_allowed db
                  ident kw w res)"
  unfolding update_user_def update_team_def update_player_def update_tournament_def
  by (intro conjI update_entity_outcome is_ident_names allowed_idents)

text \<open>
  The claim as written fails on a map that holds the name of the key parameter: the key is
  outside the allowed set, and it is not dropped, the call raises \<open>TypeError\<close>.
\<close>

theorem update_user_key_argument_counterexample:
  "''user_id'' \<notin> set users_allowed
   \<and> update_user refuse_all 7 [(''email'', PStr ''a@b.c''), (''user_id'', PInt 1)] start
       = Inl TypeError"
  by (simp add: users_allowed_def update_user_def update_entity_def clashes_def)

lemma update_entity_nothing:
  "set (map fst kw) \<inter> set allowed = {} \<Longrightarrow>
     update_entity table pk allowed db ident kw w
       = (if clashes pk kw then Inl TypeError else Inr (False, w))"
proof -
  assume "set (map fst kw) \<inter> set allowed = {}"
  then have "filter (\<lambda>(k, v). k \<in> set allowed) kw = []"
    by (auto simp: filter_empty_conv)
  then show ?thesis by (simp add: update_entity_def)
qed

lemma update_entity_false:
  assumes "update_entity table pk allowed db ident kw w = Inr (False, w')"
  shows "if set (map fst kw) \<inter> set allowed = {} then w' = w
         else printed w' = printed w @ [SqlError]
            \<and> length (issued w') = Suc (length (issued w)) \<and> store w' = store w"
proof (cases "set (map fst kw) \<inter> set allowed = {}")
  case True
  with assms update_entity_nothing [OF True, of table pk db ident w] show ?thesis
    by (auto split: if_splits)
next
  case False
  then have ne: "filter (\<lambda>(k, v). k \<in> set allowed) kw \<noteq> []"
    by (auto simp: filter_empty_conv)
  let ?q = "update_query table pk (map fst (filter (\<lambda>(k, v). k \<in> set allowed) kw))"
  let ?ps = "map snd (filter (\<lambda>(k, v). k \<in> set allowed) kw) @ [PInt ident]"
  from assms ne have e: "execute db ?q ?ps w = (False, w')"
    by (simp add: update_entity_def Let_def split: if_splits)
  have "printed w' = printed w @ [SqlError]"
    using execute_printed [of db ?q ?ps w] by (simp add: e)
  moreover have "length (issued w') = Suc (length (issued w))"
    using execute_issued [of db ?q ?ps w] by (simp add: e)
  moreover have "store w' = store w"
    using execute_refused [of db ?q ?ps w] by (simp add: e)
  ultimately show ?thesis using False by simp
qed

text \<open>
  C9 (as amended). For each of the four entities and every field map with no key among
  the allowed columns: a map that holds the key \<open>self\<close> or the name of the key parameter
  makes the call raise \<open>TypeError\<close>; every other such map makes the update return \<open>False\<close>
  and leave the world as it was: no statement is issued, nothing is printed, the store is
  unchanged. \<open>False\<close> is also what a refused statement returns; the two are set apart by
  the world only: after a refused statement one more statement is in the log and the
  error line is printed.
\<close>

theorem update_without_allowed_fields:
  "(set (map fst kw) \<inter> set users_allowed = {} \<longrightarrow>
      update_user db ident kw w
        = (if clashes ''user_id'' kw then Inl TypeError else Inr (False, w)))
   \<and> (set (map fst kw) \<inter> set teams_allowed = {} \<longrightarrow>
        update_team db ident kw w
          = (if clashes ''team_id'' kw then Inl TypeError else Inr (False, w)))
   \<and> (set (map fst kw) \<inter> set players_allowed = {} \<longrightarrow>
        update_player db ident kw w
          = (if clashes ''player_id'' kw then Inl TypeError else Inr (False, w)))
   \<and> (set (map fst kw) \<inter> set tournaments_allowed = {} \<longrightarrow>
        update_tournament db ident kw w
          = (if clashes ''tournament_id'' kw then Inl TypeError else Inr (False, w)))
   \<and> (update_user db ident kw' w = Inr (False, w') \<longrightarrow>
        (if set (map fst kw') \<inter> set users_allowed = {} then w' = w
         else printed w' = printed w @ [SqlError]
            \<and> length (issued w') = Suc (length (issued w)) \<and> store w' = store w))
   \<and> (update_team db ident kw' w = Inr (False, w') \<longrightarrow>
        (if set (map fst kw') \<inter> set teams_allowed = {} then w' = w
         else printed w' = printed w @ [SqlError]
            \<and> length (issued w') = Suc (length (issued w)) \<and> store w' = store w))
   \<and> (update_player db ident kw' w = Inr (False, w') \<longrightarrow>
        (if set (map fst kw') \<inter> set players_allowed = {} then w' = w
         else printed w' = printed w @ [SqlError]
            \<and> length (issued w') = Suc (length (issued w)) \<and> store w' = store w))
   \<and> (update_tournament db ident kw' w = Inr (False, w') \<longrightarrow>
        (if set (map fst kw') \<inter> set tournaments_allowed = {} then w' = w
         else printed w' = printed w @ [SqlError]
            \<and> length (issued w') = Suc (length (issued w)) \<and> store w' = store w))"
  unfolding update_user_def update_team_def update_player_def update_tournament_def
  by (intro conjI impI update_entity_nothing update_entity_false)

lemma refused_email_update:
  "update_user refuse_all 7 [(''email'', PStr ''a@b.c'')] start
     = Inr (False,
            start\<lparr>issued := [call ''UPDATE USERS SET email=%s WHERE user_id=%s''
                                 [PStr ''a@b.c'', PInt 7] False],
                   printed := [SqlError]\<rparr>)"
  by (simp add: update_user_def update_entity_def clashes_def users_allowed_def update_query_def
        execute_def refuse_all_def start_def)

theorem update_without_allowed_fields_witness:
  "set (map fst [(''hacked'', PStr ''x'')]) \<inter> set users_allowed = {}
   \<and> update_user refuse_all 7 [(''hacked'', PStr ''x'')] start = Inr (False, start)
   \<and> set (map fst [(''hacked'', PStr ''x'')]) \<inter> set teams_allowed = {}
   \<and> update_team refuse_all 7 [(''hacked'', PStr ''x'')] start = Inr (False, start)
   \<and> set (map fst [(''hacked'', PStr ''x'')]) \<inter> set players_allowed = {}
   \<and> update_player refuse_all 7 [(''hacked'', PStr ''x'')] start = Inr (False, start)
   \<and> set (map fst [(''hacked'', PStr ''x'')]) \<inter> set tournaments_allowed = {}
   \<and> update_tournament refuse_all 7 [(''hacked'', PStr ''x'')] start = Inr (False, start)
   \<and> update_user refuse_all 7 [(''email'', PStr ''a@b.c'')] start
       = Inr (False,
              start\<lparr>issued := [call ''UPDATE USERS SET email=%s WHERE user_id=%s''
                                   [PStr ''a@b.c'', PInt 7] False],
                     printed := [SqlError]\<rparr>)
   \<and> printed (start\<lparr>issued := [call ''UPDATE USERS SET email=%s WHERE user_id=%s''
                                   [PStr ''a@b.c'', PInt 7] False],
                     printed := [SqlError]\<rparr>)
       = printed start @ [SqlError]"
  using update_without_allowed_fields
    [of "[(''hacked'', PStr ''x'')]" refuse_all 7 start "[(''email'', PStr ''a@b.c'')]"
        "start\<lparr>issued := [call ''UPDATE USERS SET email=%s WHERE user_id=%s''
                              [PStr ''a@b.c'', PInt 7] False],
                printed := [SqlError]\<rparr>"]
    refused_email_update
  by (simp add: users_allowed_def teams_allowed_def players_allowed_def tournaments_allowed_def
        clashes_def start_def)

text \<open>
  The claim as written fails on a map whose only key is the name of the key parameter: no
  key is among the allowed columns, and the call does not return at all, it raises
  \<open>TypeError\<close>.
\<close>

theorem update_team_key_argument_counterexample:
  "set (map fst [(''team_id'', PInt 3)]) \<inter> set teams_allowed = {}
   \<and> update_team refuse_all 7 [(''team_id'', PInt 3)] start = Inl TypeError"
  by (simp add: teams_allowed_def update_team_def update_entity_def clashes_def)


lemma fetch_one_store: "store (snd (fetch_one db q ps w)) = store w"
  by (simp add: fetch_one_def split: option.splits)

lemma subscript_present: "map_of m k = Some v \<Longrightarrow> subscript m k = Inr v"
  by (simp add: subscript_def)

lemma fetch_all_store: "store (snd (fetch_all db q ps w)) = store w"
  by (simp add: fetch_all_def split: option.splits)

lemma list_matches_store: "store (list_matches db w) = store w"
proof -
  have "store (snd (get_all_matches db w)) = store w"
    by (simp add: get_all_matches_def fetch_all_store)
  then show ?thesis
    by (cases "get_all_matches db w") (simp add: list_matches_def cli_table_def Let_def)
qed

lemma get_match_by_id_store: "store (snd (get_match_by_id db mid w)) = store w"
  by (simp add: get_match_by_id_def fetch_one_store)

lemma selected_key: "selected [BEq c v] r = sql_eq (field r c) v"
  by (simp add: selected_def)

lemma parse_update_score:
  "parse_sql ''UPDATE MATCHES SET score_team1=%s, score_team2=%s, winner_team_id=%s WHERE match_id=%s''
     = Some (Update ''MATCHES''
               [(''score_team1'', Placeholder), (''score_team2'', Placeholder),
                (''winner_team_id'', Placeholder)]
               [CondEq ''match_id'' Placeholder])"
  by code_simp

lemma mariadb_update_score:
  "mariadb rejects on_delete other
     ''UPDATE MATCHES SET score_team1=%s, score_team2=%s, winner_team_id=%s WHERE match_id=%s''
     [a, b, v, PInt i] s
   = (if rejects
           ''UPDATE MATCHES SET score_team1=%s, score_team2=%s, winner_team_id=%s WHERE match_id=%s''
           [a, b, v, PInt i] s
      then None
      else Some (s\<lparr>matches :=
                     map (\<lambda>r. if sql_eq (field r ''match_id'') (PInt i)
                               then set_field ''winner_team_id'' (sql_num v)
                                      (set_field ''score_team2'' (sql_num b)
                                         (set_field ''score_team1'' (sql_num a) r))
                               else r)
                       (matches s)\<rparr>,
                 [], 0))"
  by (simp add: mariadb_def parse_update_score exec_update_def get_table_def set_table_def
        selected_key)

lemma parse_all_matches:
  "parse_sql
       (''SELECT m.*, t.tournament_name, t1.team_name as team1_name, t1.abbreviation as team1_abbr,\<newline>''
        @ ''            t2.team_name as team2_name, t2.abbreviation as team2_abbr, tw.team_name as winner_name\<newline>''
        @ ''            FROM MATCHES m JOIN TOURNAMENTS t ON m.tournament_id=t.tournament_id\<newline>''
        @ ''            JOIN TEAMS t1 ON m.team1_id=t1.team_id JOIN TEAMS t2 ON m.team2_id=t2.team_id\<newline>''
        @ ''            LEFT JOIN TEAMS tw ON m.winner_team_id=tw.team_id ORDER BY m.match_date DESC'') = None"
  by code_simp

lemma parse_match_by_id:
  "parse_sql
       (''SELECT m.*, t.tournament_name, t1.team_name as team1_name, t2.team_name as team2_name\<newline>''
        @ ''            FROM MATCHES m JOIN TOURNAMENTS t ON m.tournament_id=t.tournament_id\<newline>''
        @ ''            JOIN TEAMS t1 ON m.team1_id=t1.team_id JOIN TEAMS t2 ON m.team2_id=t2.team_id WHERE m.match_id=%s'') = None"
  by code_simp

lemma read_one_match:
  "fst (get_match_by_id match_db 1 (list_matches match_db one_match))
     = Some [(''match_id'', PInt 1), (''team1_id'', PInt 10), (''team2_id'', PInt 20),
             (''score_team1'', PInt 0), (''score_team2'', PInt 0), (''winner_team_id'', PNone),
             (''team1_name'', PStr ''Alpha''), (''team2_name'', PStr ''Beta'')]"
  using parse_all_matches parse_match_by_id
  by (simp add: get_match_by_id_def list_matches_def get_all_matches_def fetch_one_def
        fetch_all_def match_db_def mariadb_def with_names_def one_match_def cli_table_def
        sql_eq_def field_def Let_def)


lemma enter_scores_result:
  assumes "map_of m ''team1_id'' = Some t1"
    and "map_of m ''team2_id'' = Some t2"
    and "map_of m ''team1_name'' = Some n1"
    and "map_of m ''team2_name'' = Some n2"
  shows "enter_scores db mid m (Some s1) (Some s2) w
     = Inr (case db ''UPDATE MATCHES SET score_team1=%s, score_team2=%s, winner_team_id=%s WHERE match_id=%s''
                   [PInt s1, PInt s2, if s1 > s2 then t1 else if s2 > s1 then t2 else PNone, PInt mid]
                   (store w) of
              None \<Rightarrow>
                w\<lparr>issued := issued w
                     @ [call ''UPDATE MATCHES SET score_team1=%s, score_team2=%s, winner_team_id=%s WHERE match_id=%s''
                          [PInt s1, PInt s2, if s1 > s2 then t1 else if s2 > s1 then t2 else PNone,
                           PInt mid] False],
                   printed := printed w @ [Versus n1 n2, SqlError]\<rparr>
            | Some (s', rows, rid) \<Rightarrow>
                w\<lparr>store := s', lastrowid := rid,
                   issued := issued w
                     @ [call ''UPDATE MATCHES SET score_team1=%s, score_team2=%s, winner_team_id=%s WHERE match_id=%s''
                          [PInt s1, PInt s2, if s1 > s2 then t1 else if s2 > s1 then t2 else PNone,
                           PInt mid] True],
                   printed := printed w @ [Versus n1 n2, ResultRecorded]\<rparr>)"
  using assms
  by (simp add: enter_scores_def winner_of_def subscript_present update_match_score_def
        execute_def split: option.splits)

text \<open>
  C4. Recording a result for the match \<open>mid\<close>, read as the row \<open>m\<close>, with the scores \<open>s1\<close>
  and \<open>s2\<close>: the winner is the first team when \<open>s1 > s2\<close>, the second team when \<open>s2 > s1\<close>
  and \<open>None\<close> on a tie. The two scores and the winner are written by one UPDATE
  statement, the only statement issued after the match was read, and the store afterwards
  is what the engine made of this one statement: the store as it was when the engine
  refuses it. On the model of the store the statement sets the two scores and the winner
  of the rows of this match and of no other row, all three or none of them.
\<close>

theorem record_result_sets_winner:
  "(fst (get_match_by_id db mid (list_matches db w)) = Some m
      \<and> map_of m ''team1_id'' = Some t1 \<and> map_of m ''team2_id'' = Some t2
      \<and> map_of m ''team1_name'' = Some n1 \<and> map_of m ''team2_name'' = Some n2
    \<longrightarrow> winner_of m s1 s2 = Inr (if s1 > s2 then t1 else if s2 > s1 then t2 else PNone)
      \<and> (\<exists>w'. record_result db (Some mid) (Some s1) (Some s2) w = Inr w'
            \<and> issued w' = issued (snd (get_match_by_id db mid (list_matches db w)))
                 @ [call ''UPDATE MATCHES SET score_team1=%s, score_team2=%s, winner_team_id=%s WHERE match_id=%s''
                      [PInt s1, PInt s2, if s1 > s2 then t1 else if s2 > s1 then t2 else PNone,
                       PInt mid]
                      (db ''UPDATE MATCHES SET score_team1=%s, score_team2=%s, winner_team_id=%s WHERE match_id=%s''
                          [PInt s1, PInt s2, if s1 > s2 then t1 else if s2 > s1 then t2 else PNone,
                           PInt mid]
                          (store w) \<noteq> None)]
            \<and> store w'
                = (case db ''UPDATE MATCHES SET score_team1=%s, score_team2=%s, winner_team_id=%s WHERE match_id=%s''
                          [PInt s1, PInt s2, if s1 > s2 then t1 else if s2 > s1 then t2 else PNone,
                           PInt mid]
                          (store w) of
                     None \<Rightarrow> store w
                   | Some (s', rows, rid) \<Rightarrow> s')))
   \<and> (fst (get_match_by_id (mariadb rejects on_delete other) mid
              (list_matches (mariadb rejects on_delete other) v)) = Some m
        \<and> map_of m ''team1_id'' = Some t1 \<and> map_of m ''team2_id'' = Some t2
        \<and> map_of m ''team1_name'' = Some n1 \<and> map_of m ''team2_name'' = Some n2
      \<longrightarrow> (\<exists>v'. record_result (mariadb rejects on_delete other) (Some mid) (Some s1) (Some s2) v
                   = Inr v'
              \<and> store v'
                  = (if rejects
                          ''UPDATE MATCHES SET score_team1=%s, score_team2=%s, winner_team_id=%s WHERE match_id=%s''
                          [PInt s1, PInt s2, if s1 > s2 then t1 else if s2 > s1 then t2 else PNone,
                           PInt mid]
                          (store v)
                     then store v
                     else (store v)\<lparr>matches :=
                            map (\<lambda>r. if sql_eq (field r ''match_id'') (PInt mid)
                                      then set_field ''winner_team_id''
                                             (sql_num (if s1 > s2 then t1 else if s2 > s1 then t2
                                                       else PNone))
                                             (set_field ''score_team2'' (PInt s2)
                                                (set_field ''score_team1'' (PInt s1) r))
                                      else r)
                              (matches (store v))\<rparr>)))"
proof (intro conjI impI)
  assume a: "fst (get_match_by_id db mid (list_matches db w)) = Some m
      \<and> map_of m ''team1_id'' = Some t1 \<and> map_of m ''team2_id'' = Some t2
      \<and> map_of m ''team1_name'' = Some n1 \<and> map_of m ''team2_name'' = Some n2"
  then show "winner_of m s1 s2 = Inr (if s1 > s2 then t1 else if s2 > s1 then t2 else PNone)"
    by (simp add: winner_of_def subscript_present)
next
  let ?q = "''UPDATE MATCHES SET score_team1=%s, score_team2=%s, winner_team_id=%s WHERE match_id=%s''"
  let ?ps = "[PInt s1, PInt s2, if s1 > s2 then t1 else if s2 > s1 then t2 else PNone, PInt mid]"
  assume a: "fst (get_match_by_id db mid (list_matches db w)) = Some m
      \<and> map_of m ''team1_id'' = Some t1 \<and> map_of m ''team2_id'' = Some t2
      \<and> map_of m ''team1_name'' = Some n1 \<and> map_of m ''team2_name'' = Some n2"
  then obtain w1 where g: "get_match_by_id db mid (list_matches db w) = (Some m, w1)"
    by (cases "get_match_by_id db mid (list_matches db w)") auto
  have ne: "m \<noteq> []" using a by auto
  have st: "store w1 = store w"
    using get_match_by_id_store [of db mid "list_matches db w"]
    by (simp add: g list_matches_store)
  have r: "record_result db (Some mid) (Some s1) (Some s2) w
             = enter_scores db mid m (Some s1) (Some s2) w1"
    using g ne by (simp add: record_result_def)
  have e: "enter_scores db mid m (Some s1) (Some s2) w1
     = Inr (case db ?q ?ps (store w1) of
              None \<Rightarrow>
                w1\<lparr>issued := issued w1 @ [call ?q ?ps False],
                    printed := printed w1 @ [Versus n1 n2, SqlError]\<rparr>
            | Some (s', rows, rid) \<Rightarrow>
                w1\<lparr>store := s', lastrowid := rid,
                    issued := issued w1 @ [call ?q ?ps True],
                    printed := printed w1 @ [Versus n1 n2, ResultRecorded]\<rparr>)"
    using a by (intro enter_scores_result) simp_all
  show "\<exists>w'. record_result db (Some mid) (Some s1) (Some s2) w = Inr w'
            \<and> issued w' = issued (snd (get_match_by_id db mid (list_matches db w)))
                 @ [call ?q ?ps (db ?q ?ps (store w) \<noteq> None)]
            \<and> store w' = (case db ?q ?ps (store w) of None \<Rightarrow> store w | Some (s', rows, rid) \<Rightarrow> s')"
    unfolding r e g st by (cases "db ?q ?ps (store w)") (auto simp: st)
next
  let ?db = "mariadb rejects on_delete other"
  let ?q = "''UPDATE MATCHES SET score_team1=%s, score_team2=%s, winner_team_id=%s WHERE match_id=%s''"
  let ?ps = "[PInt s1, PInt s2, if s1 > s2 then t1 else if s2 > s1 then t2 else PNone, PInt mid]"
  assume a: "fst (get_match_by_id ?db mid (list_matches ?db v)) = Some m
      \<and> map_of m ''team1_id'' = Some t1 \<and> map_of m ''team2_id'' = Some t2
      \<and> map_of m ''team1_name'' = Some n1 \<and> map_of m ''team2_name'' = Some n2"
  then obtain w1 where g: "get_match_by_id ?db mid (list_matches ?db v) = (Some m, w1)"
    by (cases "get_match_by_id ?db mid (list_matches ?db v)") auto
  have ne: "m \<noteq> []" using a by auto
  have st: "store w1 = store v"
    using get_match_by_id_store [of ?db mid "list_matches ?db v"]
    by (simp add: g list_matches_store)
  have r: "record_result ?db (Some mid) (Some s1) (Some s2) v
             = enter_scores ?db mid m (Some s1) (Some s2) w1"
    using g ne by (simp add: record_result_def)
  have e: "enter_scores ?db mid m (Some s1) (Some s2) w1
     = Inr (case ?db ?q ?ps (store w1) of
              None \<Rightarrow>
                w1\<lparr>issued := issued w1 @ [call ?q ?ps False],
                    printed := printed w1 @ [Versus n1 n2, SqlError]\<rparr>
            | Some (s', rows, rid) \<Rightarrow>
                w1\<lparr>store := s', lastrowid := rid,
                    issued := issued w1 @ [call ?q ?ps True],
                    printed := printed w1 @ [Versus n1 n2, ResultRecorded]\<rparr>)"
    using a by (intro enter_scores_result) simp_all
  show "\<exists>v'. record_result ?db (Some mid) (Some s1) (Some s2) v = Inr v'
          \<and> store v'
              = (if rejects ?q ?ps (store v) then store v
                 else (store v)\<lparr>matches :=
                        map (\<lambda>r. if sql_eq (field r ''match_id'') (PInt mid)
                                  then set_field ''winner_team_id''
                                         (sql_num (if s1 > s2 then t1 else if s2 > s1 then t2
                                                   else PNone))
                                         (set_field ''score_team2'' (PInt s2)
                                            (set_field ''score_team1'' (PInt s1) r))
                                  else r)
                          (matches (store v))\<rparr>)"
    using st by (simp add: r e mariadb_update_score)
qed

theorem record_result_sets_winner_witness:
  "fst (get_match_by_id match_db 1 (list_matches match_db one_match))
     = Some [(''match_id'', PInt 1), (''team1_id'', PInt 10), (''team2_id'', PInt 20),
             (''score_team1'', PInt 0), (''score_team2'', PInt 0), (''winner_team_id'', PNone),
             (''team1_name'', PStr ''Alpha''), (''team2_name'', PStr ''Beta'')]
   \<and> winner_of [(''match_id'', PInt 1), (''team1_id'', PInt 10), (''team2_id'', PInt 20),
             (''score_team1'', PInt 0), (''score_team2'', PInt 0), (''winner_team_id'', PNone),
             (''team1_name'', PStr ''Alpha''), (''team2_name'', PStr ''Beta'')] 16 10
       = Inr (PInt 10)
   \<and> (\<exists>w'. record_result match_db (Some 1) (Some 16) (Some 10) one_match = Inr w'
         \<and> issued w' = issued (snd (get_match_by_id match_db 1 (list_matches match_db one_match)))
              @ [call ''UPDATE MATCHES SET score_team1=%s, score_team2=%s, winner_team_id=%s WHERE match_id=%s''
                   [PInt 16, PInt 10, PInt 10, PInt 1] True]
         \<and> matches (store w')
             = [[(''match_id'', PInt 1), (''team1_id'', PInt 10), (''team2_id'', PInt 20),
                 (''score_team1'', PInt 16), (''score_team2'', PInt 10),
                 (''winner_team_id'', PInt 10)]])"
proof -
  let ?m = "[(''match_id'', PInt 1), (''team1_id'', PInt 10), (''team2_id'', PInt 20),
             (''score_team1'', PInt 0), (''score_team2'', PInt 0), (''winner_team_id'', PNone),
             (''team1_name'', PStr ''Alpha''), (''team2_name'', PStr ''Beta'')]"
  let ?q = "''UPDATE MATCHES SET score_team1=%s, score_team2=%s, winner_team_id=%s WHERE match_id=%s''"
  have g: "fst (get_match_by_id match_db 1 (list_matches match_db one_match)) = Some ?m"
    by (rule read_one_match)
  have h: "fst (get_match_by_id match_db 1 (list_matches match_db one_match)) = Some ?m
      \<and> map_of ?m ''team1_id'' = Some (PInt 10) \<and> map_of ?m ''team2_id'' = Some (PInt 20)
      \<and> map_of ?m ''team1_name'' = Some (PStr ''Alpha'')
      \<and> map_of ?m ''team2_name'' = Some (PStr ''Beta'')"
    using g by simp
  have u: "match_db ?q [PInt 16, PInt 10, PInt 10, PInt 1] (store one_match)
     = Some ((store one_match)
               \<lparr>matches := [[(''match_id'', PInt 1), (''team1_id'', PInt 10),
                              (''team2_id'', PInt 20), (''score_team1'', PInt 16),
                              (''score_team2'', PInt 10), (''winner_team_id'', PInt 10)]]\<rparr>,
             [], 0)"
    by (simp add: match_db_def mariadb_update_score one_match_def sql_eq_def field_def)
  note t = record_result_sets_winner
    [where db = match_db and mid = 1 and w = one_match and m = ?m and ?t1.0 = "PInt 10"
       and ?t2.0 = "PInt 20" and ?n1.0 = "PStr ''Alpha''" and ?n2.0 = "PStr ''Beta''"
       and ?s1.0 = 16 and ?s2.0 = 10 and rejects = "\<lambda>q ps s. False"
       and on_delete = "\<lambda>child col. Restrict" and other = with_names and v = one_match,
     folded match_db_def]
  from t h have a: "winner_of ?m 16 10 = Inr (PInt 10)"
    by simp
  from t h obtain w' where r: "record_result match_db (Some 1) (Some 16) (Some 10) one_match = Inr w'"
    and i: "issued w' = issued (snd (get_match_by_id match_db 1 (list_matches match_db one_match)))
              @ [call ?q [PInt 16, PInt 10, PInt 10, PInt 1]
                   (match_db ?q [PInt 16, PInt 10, PInt 10, PInt 1] (store one_match) \<noteq> None)]"
    and s: "store w' = (case match_db ?q [PInt 16, PInt 10, PInt 10, PInt 1] (store one_match) of
                          None \<Rightarrow> store one_match | Some (s', rows, rid) \<Rightarrow> s')"
    by auto
  from i have i': "issued w' = issued (snd (get_match_by_id match_db 1 (list_matches match_db one_match)))
              @ [call ?q [PInt 16, PInt 10, PInt 10, PInt 1] True]"
    by (simp only: u) simp
  from s have s': "matches (store w')
             = [[(''match_id'', PInt 1), (''team1_id'', PInt 10), (''team2_id'', PInt 20),
                 (''score_team1'', PInt 16), (''score_team2'', PInt 10),
                 (''winner_team_id'', PInt 10)]]"
    by (simp only: u) simp
  show ?thesis
    using g a r i' s' by (intro conjI exI [of _ w']) simp_all
qed

lemma call_sel [simp]:
  "text_of (call q ps ok) = q" "params_of (call q ps ok) = ps" "accepted (call q ps ok) = ok"
  by (simp_all add: call_def)

lemma replay_execute:
  "replay db ((q, ps) # rest) (store w)
     = (case replay db rest (store (snd (execute db q ps w))) of
          (oks, s') \<Rightarrow> (fst (execute db q ps w) # oks, s'))"
  by (simp add: execute_def split: option.splits prod.splits)

lemma import_rows_log:
  "\<exists>new. issued (snd (import_rows db t cs data k w)) = issued w @ new
     \<and> statements new = import_statements t cs data
     \<and> replay db (statements new) (store w)
         = (map accepted new, store (snd (import_rows db t cs data k w)))
     \<and> fst (import_rows db t cs data k w) = k + length (filter accepted new)
     \<and> printed (snd (import_rows db t cs data k w))
         = printed w @ replicate (rejected new) SqlError"
proof (induction data arbitrary: k w)
  case Nil
  show ?case by (simp add: statements_def import_statements_def rejected_def)
next
  case (Cons r rest)
  show ?case
  proof (cases "import_items cs r = []")
    case True
    with Cons [of k w] show ?thesis by (simp add: import_statements_def)
  next
    case False
    let ?q = "insert_query t (map fst (import_items cs r))"
    let ?ps = "map snd (import_items cs r)"
    obtain ok w1 where e: "execute db ?q ?ps w = (ok, w1)"
      by (cases "execute db ?q ?ps w") auto
    have i1: "issued w1 = issued w @ [call ?q ?ps ok]"
      using execute_issued [of db ?q ?ps w] by (simp add: e)
    have p1: "printed w1 = printed w @ (if ok then [] else [SqlError])"
      using execute_printed [of db ?q ?ps w] by (simp add: e)
    let ?k = "if ok then k + 1 else k"
    have step: "import_rows db t cs (r # rest) k w = import_rows db t cs rest ?k w1"
      using False e by (cases ok) (simp_all add: Let_def)
    from Cons [of ?k w1] obtain new where
      n1: "issued (snd (import_rows db t cs rest ?k w1)) = issued w1 @ new"
      and n2: "statements new = import_statements t cs rest"
      and n5: "replay db (statements new) (store w1)
                 = (map accepted new, store (snd (import_rows db t cs rest ?k w1)))"
      and n3: "fst (import_rows db t cs rest ?k w1) = ?k + length (filter accepted new)"
      and n4: "printed (snd (import_rows db t cs rest ?k w1))
                 = printed w1 @ replicate (rejected new) SqlError"
      by blast
    have r5: "replay db (statements (call ?q ?ps ok # new)) (store w)
                = (map accepted (call ?q ?ps ok # new),
                   store (snd (import_rows db t cs rest ?k w1)))"
      using replay_execute [of db ?q ?ps "statements new" w] n5
      by (simp add: statements_def e)
    have r1: "issued (snd (import_rows db t cs rest ?k w1)) = issued w @ call ?q ?ps ok # new"
      using n1 i1 by simp
    have r2: "statements (call ?q ?ps ok # new) = import_statements t cs (r # rest)"
      using n2 False by (simp add: statements_def import_statements_def)
    have r3: "fst (import_rows db t cs rest ?k w1)
                = k + length (filter accepted (call ?q ?ps ok # new))"
      using n3 by simp
    have r4: "printed (snd (import_rows db t cs rest ?k w1))
                = printed w @ replicate (rejected (call ?q ?ps ok # new)) SqlError"
      using n4 p1 by (simp add: rejected_def)
    show ?thesis
      unfolding step
      using r1 r2 r3 r4 r5 by (intro exI [of _ "call ?q ?ps ok # new"] conjI)
  qed
qed

lemma split_on_join:
  "cols \<noteq> [] \<Longrightarrow> list_all (\<lambda>c. CHR '','' \<notin> set c) cols \<Longrightarrow>
     split_on (\<lambda>x. x = CHR '','') (join '','' cols) = cols"
proof (induction cols rule: induct_list012)
  case 1
  then show ?case by simp
next
  case (2 c)
  then have "list_all (\<lambda>x. \<not> x = CHR '','') c" by (auto simp: list_all_iff)
  from split_on_word [of "\<lambda>x. x = CHR '',''" c, OF this] show ?case by simp
next
  case (3 c d ds)
  have "split_on (\<lambda>x. x = CHR '','') (c @ CHR '','' # join '','' (d # ds))
          = c # split_on (\<lambda>x. x = CHR '','') (join '','' (d # ds))"
    using 3(4) by (intro split_on_sep) (auto simp: list_all_iff)
  then show ?case using 3 by simp
qed

lemma join_no_space:
  "list_all (\<lambda>c. list_all (\<lambda>x. \<not> is_space x) c) cols \<Longrightarrow>
     list_all (\<lambda>x. \<not> is_space x) (join '','' cols)"
  by (induction cols rule: induct_list012) (simp_all add: is_space_def)

lemma parse_tuple_join:
  "cols \<noteq> [] \<Longrightarrow> list_all (\<lambda>c. CHR '','' \<notin> set c) cols \<Longrightarrow>
     parse_tuple [''('' @ join '','' cols @ '')''] = Some cols"
  by (simp add: parse_tuple_def split_on_join butlast_append)

lemma parse_insert_query:
  assumes t: "is_ident t" and ne: "cols \<noteq> []" and ids: "list_all is_ident cols"
  shows "parse_sql (insert_query t cols) = Some (Insert t cols)"
proof -
  let ?a = "''('' @ join '','' cols @ '')''"
  let ?b = "''('' @ join '','' (replicate (length cols) ''%s'') @ '')''"
  have nc: "list_all (\<lambda>c. CHR '','' \<notin> set c) cols"
    using ids is_ident_plain by (fastforce simp: list_all_iff)
  have ns: "list_all (\<lambda>c. list_all (\<lambda>x. \<not> is_space x) c) cols"
    using ids is_ident_no_space by (auto simp: list_all_iff)
  have sa: "list_all (\<lambda>x. \<not> is_space x) ?a"
    using join_no_space [OF ns] by (simp add: is_space_def)
  have sb: "list_all (\<lambda>x. \<not> is_space x) ?b"
    using join_no_space [of "replicate (length cols) ''%s''"]
    by (simp add: is_space_def list_all_iff)
  have q: "insert_query t cols
        = ''INSERT'' @ CHR '' '' # (''INTO'' @ CHR '' '' # (t @ CHR '' '' #
            (?a @ CHR '' '' # (''VALUES'' @ CHR '' '' # ?b))))"
    by (simp add: insert_query_def)
  have wb: "sql_words ?b = [?b]"
    using sb by (intro sql_words_word) simp_all
  have w: "sql_words (insert_query t cols) = [''INSERT'', ''INTO'', t, ?a, ''VALUES'', ?b]"
    unfolding q
    apply (subst sql_words_cons)
      apply (simp add: is_space_def)
     apply simp
    apply (subst sql_words_cons)
      apply (simp add: is_space_def)
     apply simp
    apply (subst sql_words_cons [OF is_ident_no_space [OF t]])
    using t apply (simp add: is_ident_def)
    apply (subst sql_words_cons [OF sa])
     apply simp
    apply (subst sql_words_cons)
      apply (simp add: is_space_def)
     apply simp
    apply (simp only: wb)
    done
  have pa: "parse_tuple [?a] = Some cols"
    by (rule parse_tuple_join [OF ne nc])
  have pb: "parse_tuple [?b] = Some (replicate (length cols) ''%s'')"
    using ne by (intro parse_tuple_join) (simp_all add: list_all_iff)
  have av: "?a \<noteq> ''VALUES''" by simp
  have "parse_insert t [?a, ''VALUES'', ?b] = Some (Insert t cols)"
    using pa pb ids av by (simp add: parse_insert_def list_all_iff del: append.simps)
  then show ?thesis
    using t by (simp only: parse_sql_def w list.case) simp
qed

lemma import_cols_idents:
  "map_of import_cols t = Some cs \<Longrightarrow> is_ident t \<and> list_all is_ident cs"
  by (auto simp: import_cols_def is_ident_def ident_char_def split: if_splits)

lemma import_items_columns:
  "map fst (import_items cs r) = known_columns cs r"
  "map snd (import_items cs r)
     = map (\<lambda>c. case map_of r c of
                  Some v \<Rightarrow> if v = PStr [] \<or> v = PStr ''None'' then PNone else v
                | None \<Rightarrow> PNone)
         (known_columns cs r)"
  by (induction cs) (auto simp: import_items_def known_columns_def import_value_def)

lemma import_items_empty: "(import_items cs r = []) = (known_columns cs r = [])"
  using import_items_columns(1) [of cs r] by (metis map_is_Nil_conv)

lemma known_columns_idents: "list_all is_ident cs \<Longrightarrow> list_all is_ident (known_columns cs r)"
  by (simp add: known_columns_def list_all_iff)

lemma import_statements_parse:
  assumes "is_ident t" "list_all is_ident cs"
  shows "map (\<lambda>(q, ps). (parse_sql q, ps)) (import_statements t cs data)
           = expected_inserts t cs data"
  unfolding import_statements_def expected_inserts_def
  by (induction data)
     (simp_all add: import_items_empty import_items_columns
        parse_insert_query [OF assms(1) _ known_columns_idents [OF assms(2)]])

text \<open>
  C5 (as amended). For every batch that is not empty and every table name whose upper
  case is one of the five tables: each row that has at least one of the table's columns
  gets its own INSERT of these columns, with the values of the row as bound parameters,
  whatever became of the rows before it; a row with none of the columns gets no
  statement. A refused statement prints the error and leaves the store as it was, and the
  loop goes on. The function returns the number of accepted statements, and the last line
  printed is the pair: this number, then the number of rows of the batch. For the empty
  batch the function returns 0 at once: no statement, no line. For every other table name
  it prints that the name is invalid and returns 0.
\<close>

theorem import_reports_successes:
  "importer_import up db [] table w = (0, w)
   \<and> (data \<noteq> [] \<and> map_of import_cols (up table) = None \<longrightarrow>
        importer_import up db data table w
          = (0, w\<lparr>printed := printed w @ [InvalidTable table]\<rparr>))
   \<and> (data \<noteq> [] \<and> map_of import_cols (up table) = Some cs \<longrightarrow>
        (\<exists>new. issued (snd (importer_import up db data table w)) = issued w @ new
           \<and> map (\<lambda>c. (parse_sql (text_of c), params_of c)) new
               = expected_inserts (up table) cs data
           \<and> replay db (statements new) (store w)
               = (map accepted new, store (snd (importer_import up db data table w)))
           \<and> fst (importer_import up db data table w) = length (filter accepted new)
           \<and> printed (snd (importer_import up db data table w))
               = printed w @ replicate (rejected new) SqlError
                 @ [ImportReport (length (filter accepted new)) (length data)]))"
proof (intro conjI impI)
  show "importer_import up db [] table w = (0, w)"
    by (simp add: importer_import_def)
next
  assume "data \<noteq> [] \<and> map_of import_cols (up table) = None"
  then show "importer_import up db data table w
          = (0, w\<lparr>printed := printed w @ [InvalidTable table]\<rparr>)"
    by (simp add: importer_import_def)
next
  assume a: "data \<noteq> [] \<and> map_of import_cols (up table) = Some cs"
  from import_rows_log [of db "up table" cs data 0 w] obtain new where
    n: "issued (snd (import_rows db (up table) cs data 0 w)) = issued w @ new"
       "statements new = import_statements (up table) cs data"
       "replay db (statements new) (store w)
          = (map accepted new, store (snd (import_rows db (up table) cs data 0 w)))"
       "fst (import_rows db (up table) cs data 0 w) = 0 + length (filter accepted new)"
       "printed (snd (import_rows db (up table) cs data 0 w))
          = printed w @ replicate (rejected new) SqlError"
    by blast
  obtain k1 w1 where e: "import_rows db (up table) cs data 0 w = (k1, w1)"
    by (cases "import_rows db (up table) cs data 0 w") auto
  from a import_cols_idents [of "up table" cs]
  have ids: "is_ident (up table)" "list_all is_ident cs" by simp_all
  have "map (\<lambda>c. (parse_sql (text_of c), params_of c)) new
          = map (\<lambda>(q, ps). (parse_sql q, ps)) (statements new)"
    by (simp add: statements_def)
  also have "\<dots> = expected_inserts (up table) cs data"
    unfolding n(2) by (rule import_statements_parse [OF ids])
  finally have st: "map (\<lambda>c. (parse_sql (text_of c), params_of c)) new
          = expected_inserts (up table) cs data" .
  show "\<exists>new. issued (snd (importer_import up db data table w)) = issued w @ new
           \<and> map (\<lambda>c. (parse_sql (text_of c), params_of c)) new
               = expected_inserts (up table) cs data
           \<and> replay db (statements new) (store w)
               = (map accepted new, store (snd (importer_import up db data table w)))
           \<and> fst (importer_import up db data table w) = length (filter accepted new)
           \<and> printed (snd (importer_import up db data table w))
               = printed w @ replicate (rejected new) SqlError
                 @ [ImportReport (length (filter accepted new)) (length data)]"
    using a n(1,3,4,5) st
    by (intro exI [of _ new]) (simp add: importer_import_def e)
qed

lemma upper_teams: "ascii_upper ''teams'' = ''TEAMS''" "ascii_upper ''coaches'' = ''COACHES''"
  by (simp_all add: ascii_upper_def)

lemma three_teams_import: "importer_import ascii_upper not_null three_teams ''teams'' blank
   = (2, \<lparr>store = [[PStr ''A''], [PStr ''C'']], lastrowid = 2,
          issued = [call ''INSERT INTO TEAMS (team_name) VALUES (%s)'' [PStr ''A''] True,
                    call ''INSERT INTO TEAMS (team_name) VALUES (%s)'' [PNone] False,
                    call ''INSERT INTO TEAMS (team_name) VALUES (%s)'' [PStr ''C''] True],
          printed = [SqlError, ImportReport 2 3]\<rparr>)"
  by (simp add: importer_import_def upper_teams import_cols_def three_teams_def blank_def import_items_def
        import_value_def insert_query_def execute_def not_null_def call_def)

theorem import_reports_successes_witness:
  "three_teams \<noteq> []
   \<and> map_of import_cols (ascii_upper ''coaches'') = None
   \<and> importer_import ascii_upper not_null three_teams ''coaches'' blank
       = (0, blank\<lparr>printed := printed blank @ [InvalidTable ''coaches'']\<rparr>)
   \<and> map_of import_cols (ascii_upper ''teams'')
       = Some [''team_name'', ''abbreviation'', ''country'', ''coach'', ''founded_date'', ''is_active'']
   \<and> (\<exists>new. issued (snd (importer_import ascii_upper not_null three_teams ''teams'' blank)) = new
         \<and> fst (importer_import ascii_upper not_null three_teams ''teams'' blank)
             = length (filter accepted new)
         \<and> printed (snd (importer_import ascii_upper not_null three_teams ''teams'' blank))
             = replicate (rejected new) SqlError
               @ [ImportReport (length (filter accepted new)) (length three_teams)])
   \<and> fst (importer_import ascii_upper not_null three_teams ''teams'' blank) = 2
   \<and> store (snd (importer_import ascii_upper not_null three_teams ''teams'' blank))
       = [[PStr ''A''], [PStr ''C'']]
   \<and> printed (snd (importer_import ascii_upper not_null three_teams ''teams'' blank))
       = [SqlError, ImportReport 2 3]"
proof -
  let ?cs = "[''team_name'', ''abbreviation'', ''country'', ''coach'', ''founded_date'', ''is_active'']"
  have h: "map_of import_cols (ascii_upper ''teams'') = Some ?cs"
    by (simp add: upper_teams import_cols_def)
  have u: "map_of import_cols (ascii_upper ''coaches'') = None"
    by (simp add: upper_teams import_cols_def)
  have ne: "three_teams \<noteq> []" by (simp add: three_teams_def)
  have b: "issued blank = []" "printed blank = []" by (simp_all add: blank_def)
  note t1 = import_reports_successes
    [where up = ascii_upper and db = not_null and data = three_teams and table = "''coaches''"
       and w = blank and cs = ?cs]
  note t2 = import_reports_successes
    [where up = ascii_upper and db = not_null and data = three_teams and table = "''teams''"
       and w = blank and cs = ?cs]
  from t1 ne u have c: "importer_import ascii_upper not_null three_teams ''coaches'' blank
       = (0, blank\<lparr>printed := printed blank @ [InvalidTable ''coaches'']\<rparr>)"
    by blast
  from t2 ne h b
  have "\<exists>new. issued (snd (importer_import ascii_upper not_null three_teams ''teams'' blank)) = new
         \<and> fst (importer_import ascii_upper not_null three_teams ''teams'' blank)
             = length (filter accepted new)
         \<and> printed (snd (importer_import ascii_upper not_null three_teams ''teams'' blank))
             = replicate (rejected new) SqlError
               @ [ImportReport (length (filter accepted new)) (length three_teams)]"
    by auto
  then show ?thesis
    using h u c ne by (simp add: three_teams_import)
qed

text \<open>
  The claim as written fails on the empty batch: the function returns before it counts
  or prints anything, and no pair is reported.
\<close>

theorem import_empty_batch_counterexample:
  "importer_import ascii_upper not_null [] ''teams'' blank = (0, blank)
   \<and> printed (snd (importer_import ascii_upper not_null [] ''teams'' blank)) = []"
  by (simp add: importer_import_def blank_def)

lemma gui_execute_issued:
  "\<exists>ok. issued (snd (gui_execute up db q ps w)) = issued w @ [call q ps ok]
     \<and> printed (snd (gui_execute up db q ps w)) = printed w @ (if ok then [] else [SqlError])"
  by (auto simp: gui_execute_def split: option.splits)

lemma gui_import_rows_log:
  "\<exists>new. issued (snd (gui_import_rows up db ti data k w)) = issued w @ new
     \<and> statements new = gui_import_statements ti data
     \<and> fst (gui_import_rows up db ti data k w) = k + length new
     \<and> printed (snd (gui_import_rows up db ti data k w))
         = printed w @ replicate (rejected new) SqlError"
proof (induction data arbitrary: k w)
  case Nil
  show ?case by (simp add: statements_def gui_import_statements_def rejected_def)
next
  case (Cons r rest)
  show ?case
  proof (cases "pop (ti_pk ti) r = []")
    case True
    with Cons [of k w] show ?thesis by (simp add: gui_import_statements_def)
  next
    case False
    let ?q = "gui_insert_query (ti_name ti) (map fst (pop (ti_pk ti) r))"
    let ?ps = "map snd (pop (ti_pk ti) r)"
    obtain res w1 where e: "gui_execute up db ?q ?ps w = (res, w1)"
      by (cases "gui_execute up db ?q ?ps w") auto
    from gui_execute_issued [of up db ?q ?ps w] obtain ok where
      i1: "issued w1 = issued w @ [call ?q ?ps ok]"
      and p1: "printed w1 = printed w @ (if ok then [] else [SqlError])"
      by (auto simp: e)
    have step: "gui_import_rows up db ti (r # rest) k w = gui_import_rows up db ti rest (k + 1) w1"
      using False e by (simp add: Let_def)
    from Cons [of "k + 1" w1] obtain new where
      n1: "issued (snd (gui_import_rows up db ti rest (k + 1) w1)) = issued w1 @ new"
      and n2: "statements new = gui_import_statements ti rest"
      and n3: "fst (gui_import_rows up db ti rest (k + 1) w1) = k + 1 + length new"
      and n4: "printed (snd (gui_import_rows up db ti rest (k + 1) w1))
                 = printed w1 @ replicate (rejected new) SqlError"
      by blast
    show ?thesis
      unfolding step
      using n1 n2 n3 n4 i1 p1 False
      by (intro exI [of _ "call ?q ?ps ok # new"])
         (auto simp: statements_def gui_import_statements_def rejected_def)
  qed
qed

text \<open>
  C10. In the GUI's import the count shown to the user is the number of rows that are not
  empty once the key is removed: one statement is issued for each of them and the count
  goes up whether or not the engine accepted it. With an engine that refuses everything
  two rows are reported as imported and none was accepted.
\<close>

theorem gui_import_counts_every_row:
  "(\<exists>new. issued (import_json up db ti data w) = issued w @ new
      \<and> statements new = gui_import_statements ti data
      \<and> printed (import_json up db ti data w)
          = printed w @ replicate (rejected new) SqlError @ [ImportSuccess (length new)])
   \<and> printed (import_json up refuse_all \<lparr>ti_name = ''TEAMS'', ti_pk = ''team_id''\<rparr>
                [[(''team_id'', PInt 1), (''team_name'', PStr ''A'')], [(''team_name'', PStr ''B'')]]
                start)
       = [SqlError, SqlError, ImportSuccess 2]
   \<and> filter accepted
        (issued (import_json up refuse_all \<lparr>ti_name = ''TEAMS'', ti_pk = ''team_id''\<rparr>
                   [[(''team_id'', PInt 1), (''team_name'', PStr ''A'')], [(''team_name'', PStr ''B'')]]
                   start))
       = []"
proof -
  from gui_import_rows_log [of up db ti data 0 w] obtain new where
    n: "issued (snd (gui_import_rows up db ti data 0 w)) = issued w @ new"
       "statements new = gui_import_statements ti data"
       "fst (gui_import_rows up db ti data 0 w) = 0 + length new"
       "printed (snd (gui_import_rows up db ti data 0 w)) = printed w @ replicate (rejected new) SqlError"
    by blast
  have a: "\<exists>new. issued (import_json up db ti data w) = issued w @ new
      \<and> statements new = gui_import_statements ti data
      \<and> printed (import_json up db ti data w)
          = printed w @ replicate (rejected new) SqlError @ [ImportSuccess (length new)]"
  proof -
    obtain k1 w1 where e: "gui_import_rows up db ti data 0 w = (k1, w1)"
      by (cases "gui_import_rows up db ti data 0 w") auto
    show ?thesis
      using n by (intro exI [of _ new]) (simp add: import_json_def e)
  qed
  have b: "printed (import_json up refuse_all \<lparr>ti_name = ''TEAMS'', ti_pk = ''team_id''\<rparr>
                [[(''team_id'', PInt 1), (''team_name'', PStr ''A'')], [(''team_name'', PStr ''B'')]]
                start)
       = [SqlError, SqlError, ImportSuccess 2]"
    by (simp add: import_json_def pop_def gui_execute_def refuse_all_def start_def call_def)
  have c: "filter accepted
        (issued (import_json up refuse_all \<lparr>ti_name = ''TEAMS'', ti_pk = ''team_id''\<rparr>
                   [[(''team_id'', PInt 1), (''team_name'', PStr ''A'')], [(''team_name'', PStr ''B'')]]
                   start))
       = []"
    by (simp add: import_json_def pop_def gui_execute_def refuse_all_def start_def call_def)
  from a b c show ?thesis by blast
qed

subsection \<open>The serializers\<close>

lemma digit_val_digit_char: "d < 10 \<Longrightarrow> digit_val (digit_char d) = Some d"
proof -
  have "list_all (\<lambda>d. digit_val (digit_char d) = Some d) [0..<10]"
    by code_simp
  moreover assume "d < 10"
  ultimately show ?thesis by (simp add: list_all_iff)
qed

lemma fold_show_nat: "fold digit_step (show_nat n) (Some 0) = Some n"
proof (induction n rule: show_nat.induct)
  case (1 n)
  show ?case
  proof (cases "n < 10")
    case True
    then show ?thesis
      by (subst show_nat.simps) (simp add: digit_step_def digit_val_digit_char)
  next
    case False
    with 1 have ih: "fold digit_step (show_nat (n div 10)) (Some 0) = Some (n div 10)"
      by simp
    have "show_nat n = show_nat (n div 10) @ [digit_char (n mod 10)]"
      using False by (subst show_nat.simps) simp
    then have "fold digit_step (show_nat n) (Some 0)
                 = digit_step (digit_char (n mod 10)) (Some (n div 10))"
      by (simp add: ih)
    also have "\<dots> = Some n"
      by (simp add: digit_step_def digit_val_digit_char)
    finally show ?thesis .
  qed
qed

lemma fold_zeros: "fold digit_step (replicate k (CHR ''0'')) (Some 0) = Some 0"
  by (induction k) (simp_all add: digit_step_def digit_val_def)

lemma show_nat_nonempty: "show_nat n \<noteq> []"
  by (subst show_nat.simps) simp

lemma parse_nat_zero_pad: "parse_nat (zero_pad w n) = Some n"
proof -
  have "fold digit_step (replicate (w - length (show_nat n)) (CHR ''0'') @ show_nat n) (Some 0)
          = fold digit_step (show_nat n)
              (fold digit_step (replicate (w - length (show_nat n)) (CHR ''0'')) (Some 0))"
    by (simp only: fold_append o_apply)
  then show ?thesis
    by (simp only: parse_nat_def zero_pad_def fold_zeros fold_show_nat)
       (simp add: show_nat_nonempty)
qed

lemma length_show_nat: "n < 10 ^ w \<Longrightarrow> 0 < w \<Longrightarrow> length (show_nat n) \<le> w"
proof (induction n arbitrary: w rule: show_nat.induct)
  case (1 n)
  show ?case
  proof (cases "n < 10")
    case True
    with 1(3) show ?thesis by (subst show_nat.simps) simp
  next
    case False
    then obtain v where w: "w = Suc v" and v: "0 < v"
      using 1(2,3) by (cases w; cases "w - 1") auto
    have "n div 10 < 10 ^ v" using 1(2) w by (simp add: less_mult_imp_div_less mult.commute)
    from 1(1) [OF False this v] show ?thesis
      using False w by (subst show_nat.simps) simp
  qed
qed

lemma length_zero_pad: "n < 10 ^ w \<Longrightarrow> 0 < w \<Longrightarrow> length (zero_pad w n) = w"
  using length_show_nat [of n w] by (simp add: zero_pad_def)

lemma date_fromisoformat_text:
  assumes "length a = 4" "length b = 2" "length c = 2"
  shows "date_fromisoformat (a @ ''-'' @ b @ ''-'' @ c)
     = (case (parse_nat a, parse_nat b, parse_nat c) of
          (Some y, Some m, Some d) \<Rightarrow>
            if valid_date \<lparr>d_year = y, d_month = m, d_day = d\<rparr>
            then Some \<lparr>d_year = y, d_month = m, d_day = d\<rparr> else None
        | _ \<Rightarrow> None)"
  using assms by (simp add: date_fromisoformat_def nth_append)

lemma length_day: "valid_date d \<Longrightarrow> length (zero_pad 2 (d_day d)) = 2"
proof -
  assume "valid_date d"
  then have "d_day d \<le> 31"
    by (simp add: valid_date_def days_in_month_def split: if_splits)
  then show ?thesis by (intro length_zero_pad) simp_all
qed

lemma date_roundtrip:
  assumes "valid_date d"
  shows "date_fromisoformat (isoformat_date d) = Some d"
proof -
  have y: "length (zero_pad 4 (d_year d)) = 4"
    using assms by (intro length_zero_pad) (simp_all add: valid_date_def)
  have m: "length (zero_pad 2 (d_month d)) = 2"
    using assms by (intro length_zero_pad) (simp_all add: valid_date_def)
  have "date_fromisoformat (isoformat_date d)
          = (if valid_date \<lparr>d_year = d_year d, d_month = d_month d, d_day = d_day d\<rparr>
             then Some \<lparr>d_year = d_year d, d_month = d_month d, d_day = d_day d\<rparr> else None)"
    by (simp only: isoformat_date_def date_fromisoformat_text [OF y m length_day [OF assms]]
          parse_nat_zero_pad prod.case option.case)
  moreover have "\<lparr>d_year = d_year d, d_month = d_month d, d_day = d_day d\<rparr> = d"
    by (cases d) simp
  ultimately show ?thesis using assms by simp
qed

lemma time_fromisoformat_text:
  assumes "length a = 2" "length b = 2" "length c = 2"
  shows "time_fromisoformat (a @ '':'' @ b @ '':'' @ c)
     = (case (parse_nat a, parse_nat b, parse_nat c) of
          (Some h, Some m, Some sec) \<Rightarrow>
            if h < 24 \<and> m < 60 \<and> sec < 60 then Some (h, m, sec, 0) else None
        | _ \<Rightarrow> None)"
    and "length f = 6 \<Longrightarrow> time_fromisoformat (a @ '':'' @ b @ '':'' @ c @ ''.'' @ f)
     = (case (parse_nat a, parse_nat b, parse_nat c, parse_nat f) of
          (Some h, Some m, Some sec, Some us) \<Rightarrow>
            if h < 24 \<and> m < 60 \<and> sec < 60 then Some (h, m, sec, us) else None
        | _ \<Rightarrow> None)"
  using assms by (simp_all add: time_fromisoformat_def nth_append split: option.splits)

lemma time_roundtrip:
  assumes "h < 24" "m < 60" "s < 60" "us < 1000000"
  shows "time_fromisoformat
           (zero_pad 2 h @ '':'' @ zero_pad 2 m @ '':'' @ zero_pad 2 s
            @ (if us \<noteq> 0 then ''.'' @ zero_pad 6 us else []))
         = Some (h, m, s, us)"
proof -
  have a: "length (zero_pad 2 h) = 2" using assms by (intro length_zero_pad) simp_all
  have b: "length (zero_pad 2 m) = 2" using assms by (intro length_zero_pad) simp_all
  have c: "length (zero_pad 2 s) = 2" using assms by (intro length_zero_pad) simp_all
  have u: "length (zero_pad 6 us) = 6" using assms by (intro length_zero_pad) simp_all
  show ?thesis
  proof (cases "us = 0")
    case True
    have "time_fromisoformat (zero_pad 2 h @ '':'' @ zero_pad 2 m @ '':'' @ zero_pad 2 s)
            = (if h < 24 \<and> m < 60 \<and> s < 60 then Some (h, m, s, 0) else None)"
      by (simp only: time_fromisoformat_text(1) [OF a b c] parse_nat_zero_pad prod.case option.case)
    then show ?thesis using True assms by simp
  next
    case False
    have "time_fromisoformat
            (zero_pad 2 h @ '':'' @ zero_pad 2 m @ '':'' @ zero_pad 2 s @ ''.'' @ zero_pad 6 us)
            = (if h < 24 \<and> m < 60 \<and> s < 60 then Some (h, m, s, us) else None)"
      by (simp only: time_fromisoformat_text(2) [OF a b c u] parse_nat_zero_pad prod.case
            option.case)
    then show ?thesis using False assms by simp
  qed
qed

lemma datetime_fromisoformat_text:
  "length a = 10 \<Longrightarrow>
     datetime_fromisoformat (a @ ''T'' @ b)
       = (case (date_fromisoformat a, time_fromisoformat b) of
            (Some d, Some (h, m, sec, us)) \<Rightarrow>
              Some \<lparr>year = d_year d, month = d_month d, day = d_day d,
                    hour = h, minute = m, second = sec, microsecond = us\<rparr>
          | _ \<Rightarrow> None)"
  by (simp add: datetime_fromisoformat_def nth_append)

lemma datetime_roundtrip:
  assumes "valid_datetime t"
  shows "datetime_fromisoformat (isoformat_datetime t) = Some t"
proof -
  let ?d = "\<lparr>d_year = year t, d_month = month t, d_day = day t\<rparr>"
  let ?time = "zero_pad 2 (hour t) @ '':'' @ zero_pad 2 (minute t) @ '':'' @ zero_pad 2 (second t)
               @ (if microsecond t \<noteq> 0 then ''.'' @ zero_pad 6 (microsecond t) else [])"
  have vd: "valid_date ?d" using assms by (simp add: valid_datetime_def)
  have y: "length (zero_pad 4 (year t)) = 4"
    using vd by (intro length_zero_pad) (simp_all add: valid_date_def)
  have m: "length (zero_pad 2 (month t)) = 2"
    using vd by (intro length_zero_pad) (simp_all add: valid_date_def)
  have dl: "length (zero_pad 2 (day t)) = 2"
    using length_day [OF vd] by simp
  have parts: "isoformat_datetime t = isoformat_date ?d @ ''T'' @ ?time"
    by (simp add: isoformat_datetime_def isoformat_date_def)
  have len: "length (isoformat_date ?d) = 10"
    using y m dl by (simp add: isoformat_date_def)
  have tr: "time_fromisoformat ?time = Some (hour t, minute t, second t, microsecond t)"
    using assms by (intro time_roundtrip) (simp_all add: valid_datetime_def)
  have "datetime_fromisoformat (isoformat_datetime t)
          = Some \<lparr>year = d_year ?d, month = d_month ?d, day = d_day ?d, hour = hour t,
                  minute = minute t, second = second t, microsecond = microsecond t\<rparr>"
    by (simp only: parts datetime_fromisoformat_text [OF len] date_roundtrip [OF vd] tr
          prod.case option.case)
  moreover have "\<lparr>year = year t, month = month t, day = day t, hour = hour t,
                  minute = minute t, second = second t, microsecond = microsecond t\<rparr> = t"
    by (cases t) simp
  ultimately show ?thesis by simp
qed

lemma serialize_datetime_roundtrip:
  "valid_datetime t \<Longrightarrow>
     \<exists>s. serialize (PDateTime t) = Inr (PStr s) \<and> datetime_fromisoformat s = Some t"
  by (simp add: serialize_def datetime_roundtrip)

lemma serialize_value_roundtrip:
  "valid_datetime t \<Longrightarrow>
     \<exists>s. serialize_value (PDateTime t) = PStr s \<and> datetime_fromisoformat s = Some t"
  "valid_date d \<Longrightarrow>
     \<exists>s. serialize_value (PDate d) = PStr s \<and> date_fromisoformat s = Some d"
  by (simp_all add: serialize_value_def datetime_roundtrip date_roundtrip)

lemma serialize_date: "serialize (PDate d) = Inr (PDate d)"
  by (simp add: serialize_def)

text \<open>
  C7. The serializer should turn a date into its ISO-8601 text, as it does a date-time.
  \<open>DataExporter._serialize\<close> of main.py tests for \<open>datetime\<close> only: a \<open>date\<close> (the value
  of a DATE column such as \<open>founded_date\<close>) comes back as the same object, and
  \<open>export_to_json\<close> then fails in \<open>json.dump\<close> with \<open>TypeError\<close>. The GUI's
  \<open>serialize_value\<close> turns the same value into \<open>2020-03-15\<close>, which reads back as the date.
\<close>

theorem serialize_keeps_date_object:
  "serialize (PDate \<lparr>d_year = 2020, d_month = 3, d_day = 15\<rparr>)
     = Inr (PDate \<lparr>d_year = 2020, d_month = 3, d_day = 15\<rparr>)
   \<and> export_to_json [[(''team_id'', PInt 7),
                       (''founded_date'', PDate \<lparr>d_year = 2020, d_month = 3, d_day = 15\<rparr>)]]
       = Inl TypeError
   \<and> serialize_value (PDate \<lparr>d_year = 2020, d_month = 3, d_day = 15\<rparr>) = PStr ''2020-03-15''
   \<and> date_fromisoformat ''2020-03-15'' = Some \<lparr>d_year = 2020, d_month = 3, d_day = 15\<rparr>"
proof (intro conjI)
  show "serialize (PDate \<lparr>d_year = 2020, d_month = 3, d_day = 15\<rparr>)
          = Inr (PDate \<lparr>d_year = 2020, d_month = 3, d_day = 15\<rparr>)"
    by (rule serialize_date)
  show "export_to_json [[(''team_id'', PInt 7),
                         (''founded_date'', PDate \<lparr>d_year = 2020, d_month = 3, d_day = 15\<rparr>)]]
          = Inl TypeError"
    by (simp add: export_to_json_def serialize_def)
  show "serialize_value (PDate \<lparr>d_year = 2020, d_month = 3, d_day = 15\<rparr>) = PStr ''2020-03-15''"
    by code_simp
  show "date_fromisoformat ''2020-03-15'' = Some \<lparr>d_year = 2020, d_month = 3, d_day = 15\<rparr>"
    by code_simp
qed

subsection \<open>The store model on the statements of the repository\<close>

lemma field_set_field: "field (set_field c v r) k = (if k = c then v else field r k)"
  by (induction r) (auto simp: field_def)

lemma get_table_cases:
  "get_table t s = Some rows \<Longrightarrow>
     (t = ''USERS'' \<and> rows = users s) \<or> (t = ''TEAMS'' \<and> rows = teams s)
     \<or> (t = ''PLAYERS'' \<and> rows = players s) \<or> (t = ''TOURNAMENTS'' \<and> rows = tournaments s)
     \<or> (t = ''MATCHES'' \<and> rows = matches s)"
  by (simp add: get_table_def split: if_splits)

lemma set_table_fields:
  "users (set_table t rows s) = (if t = ''USERS'' then rows else users s)"
  "teams (set_table t rows s) = (if t = ''TEAMS'' then rows else teams s)"
  "players (set_table t rows s) = (if t = ''PLAYERS'' then rows else players s)"
  "tournaments (set_table t rows s) = (if t = ''TOURNAMENTS'' then rows else tournaments s)"
  "matches (set_table t rows s) = (if t = ''MATCHES'' then rows else matches s)"
  by (simp_all add: set_table_def)

lemma parse_select_players:
  "parse_sql ''SELECT player_id FROM PLAYERS WHERE team_id=%s''
     = Some (Select ''PLAYERS'' (Some ''player_id'') [CondEq ''team_id'' Placeholder] None)"
  by code_simp

lemma parse_deactivate_team:
  "parse_sql ''UPDATE TEAMS SET is_active=FALSE WHERE team_id=%s''
     = Some (Update ''TEAMS'' [(''is_active'', Lit (PInt 0))] [CondEq ''team_id'' Placeholder])"
  by code_simp

lemma parse_delete_team:
  "parse_sql ''DELETE FROM TEAMS WHERE team_id=%s''
     = Some (Delete ''TEAMS'' [CondEq ''team_id'' Placeholder])"
  by code_simp

lemma parse_get_team:
  "parse_sql ''SELECT * FROM TEAMS WHERE team_id=%s''
     = Some (Select ''TEAMS'' None [CondEq ''team_id'' Placeholder] None)"
  by code_simp

lemma mariadb_select_players:
  "mariadb rejects on_delete other ''SELECT player_id FROM PLAYERS WHERE team_id=%s'' [PInt i] s
     = Some (s, map (\<lambda>r. [(''player_id'', field r ''player_id'')]) (team_players i s), 0)"
  by (simp add: mariadb_def parse_select_players exec_select_def get_table_def order_rows_def
        team_players_def selected_key cong: filter_cong)

lemma mariadb_get_team:
  "mariadb rejects on_delete other ''SELECT * FROM TEAMS WHERE team_id=%s'' [PInt i] s
     = Some (s, team_rows i s, 0)"
  by (simp add: mariadb_def parse_get_team exec_select_def get_table_def order_rows_def
        team_rows_def selected_key cong: filter_cong)

lemma mariadb_deactivate_team:
  "mariadb rejects on_delete other ''UPDATE TEAMS SET is_active=FALSE WHERE team_id=%s'' [PInt i] s
     = (if rejects ''UPDATE TEAMS SET is_active=FALSE WHERE team_id=%s'' [PInt i] s then None
        else Some (s\<lparr>teams := map (\<lambda>r. if sql_eq (field r ''team_id'') (PInt i)
                                       then set_field ''is_active'' (PInt 0) r else r) (teams s)\<rparr>,
                   [], 0))"
  by (simp add: mariadb_def parse_deactivate_team exec_update_def get_table_def set_table_def
        selected_key)

lemma mariadb_delete_team:
  "mariadb rejects on_delete other ''DELETE FROM TEAMS WHERE team_id=%s'' [PInt i] s
     = (if rejects ''DELETE FROM TEAMS WHERE team_id=%s'' [PInt i] s then None
        else map_option (\<lambda>s'. (s', [], 0))
               (apply_fks on_delete ''TEAMS'' (map (\<lambda>r. field r ''team_id'') (team_rows i s))
                  foreign_keys
                  (s\<lparr>teams := filter (\<lambda>r. \<not> sql_eq (field r ''team_id'') (PInt i)) (teams s)\<rparr>)))"
  by (simp add: mariadb_def parse_delete_team exec_delete_def get_table_def set_table_def
        selected_key pk_of_def team_rows_def cong: filter_cong)

lemma apply_fks_parents:
  "apply_fks on_delete p keys fks s = Some s' \<Longrightarrow>
   list_all (\<lambda>fk. fst fk = ''PLAYERS'' \<or> fst fk = ''MATCHES'') fks \<Longrightarrow>
     teams s' = teams s \<and> users s' = users s \<and> tournaments s' = tournaments s"
proof (induction fks arbitrary: s)
  case Nil
  then show ?case by simp
next
  case (Cons fk fks)
  obtain child col par where fk: "fk = (child, col, par)" by (cases fk) auto
  from Cons.prems(2) have ch: "child = ''PLAYERS'' \<or> child = ''MATCHES''"
    and rest: "list_all (\<lambda>fk. fst fk = ''PLAYERS'' \<or> fst fk = ''MATCHES'') fks"
    unfolding fk by simp_all
  show ?case
  proof (cases "par = p")
    case False
    with Cons.prems(1) fk have "apply_fks on_delete p keys fks s = Some s'" by simp
    from Cons.IH [OF this rest] show ?thesis .
  next
    case True
    from Cons.prems(1) fk True obtain rows where g: "get_table child s = Some rows"
      by (auto split: option.splits)
    from Cons.prems(1) fk True g obtain s1 where
      s1: "apply_fks on_delete p keys fks s1 = Some s'"
      and same: "teams s1 = teams s \<and> users s1 = users s \<and> tournaments s1 = tournaments s"
      using ch by (auto simp: set_table_fields split: ref_action.splits if_splits)
    from Cons.IH [OF s1 rest] same show ?thesis by simp
  qed
qed

lemma foreign_keys_children:
  "list_all (\<lambda>fk. fst fk = ''PLAYERS'' \<or> fst fk = ''MATCHES'') foreign_keys"
  by (simp add: foreign_keys_def)

lemma fetch_all_mariadb_players:
  "fetch_all (mariadb rejects on_delete other) ''SELECT player_id FROM PLAYERS WHERE team_id=%s''
     [PInt i] w
   = (map (\<lambda>r. [(''player_id'', field r ''player_id'')]) (team_players i (store w)),
      w\<lparr>issued := issued w @ [call ''SELECT player_id FROM PLAYERS WHERE team_id=%s'' [PInt i] True]\<rparr>)"
  by (simp add: fetch_all_def mariadb_select_players)

lemma get_team_by_id_mariadb:
  "fst (get_team_by_id (mariadb rejects on_delete other) i w)
     = (case team_rows i (store w) of [] \<Rightarrow> None | r # rs \<Rightarrow> Some r)"
  by (simp add: get_team_by_id_def fetch_one_def mariadb_get_team)

lemma team_rows_deactivated:
  "team_rows i (s\<lparr>teams := map (\<lambda>r. if sql_eq (field r ''team_id'') (PInt i)
                                     then set_field ''is_active'' (PInt 0) r else r) (teams s)\<rparr>)
     = map (set_field ''is_active'' (PInt 0)) (team_rows i s)"
  by (induction "teams s" arbitrary: s) (auto simp: team_rows_def filter_map o_def field_set_field
        cong: filter_cong)

lemma unreliable_never: "unreliable (\<lambda>q ps s. False) db = db"
  by (simp add: unreliable_def fun_eq_iff)

lemma fetch_all_unreliable_players:
  "fetch_all (unreliable down (mariadb rejects on_delete other))
     ''SELECT player_id FROM PLAYERS WHERE team_id=%s'' [PInt i] w
   = (if down ''SELECT player_id FROM PLAYERS WHERE team_id=%s'' [PInt i] (store w)
      then ([], w\<lparr>issued := issued w
                      @ [call ''SELECT player_id FROM PLAYERS WHERE team_id=%s'' [PInt i] False],
                    printed := printed w @ [FetchError]\<rparr>)
      else (map (\<lambda>r. [(''player_id'', field r ''player_id'')]) (team_players i (store w)),
            w\<lparr>issued := issued w
                  @ [call ''SELECT player_id FROM PLAYERS WHERE team_id=%s'' [PInt i] True]\<rparr>))"
  by (simp add: fetch_all_def unreliable_def mariadb_select_players)

lemma get_team_by_id_unreliable:
  "fst (get_team_by_id (unreliable down (mariadb rejects on_delete other)) i w)
     = (if down ''SELECT * FROM TEAMS WHERE team_id=%s'' [PInt i] (store w) then None
        else (case team_rows i (store w) of [] \<Rightarrow> None | r # rs \<Rightarrow> Some r))"
  by (simp add: get_team_by_id_def fetch_one_def unreliable_def mariadb_get_team)

lemma deactivate_team_unreliable:
  assumes "fst (execute (unreliable down (mariadb rejects on_delete other))
                  ''UPDATE TEAMS SET is_active=FALSE WHERE team_id=%s'' [PInt i] w)"
  shows "store (snd (execute (unreliable down (mariadb rejects on_delete other))
                       ''UPDATE TEAMS SET is_active=FALSE WHERE team_id=%s'' [PInt i] w))
           = (store w)\<lparr>teams := map (\<lambda>r. if sql_eq (field r ''team_id'') (PInt i)
                                          then set_field ''is_active'' (PInt 0) r else r)
                                     (teams (store w))\<rparr>"
  using assms
  by (auto simp: execute_def unreliable_def mariadb_deactivate_team split: if_splits)

lemma remove_team_unreliable:
  assumes "fst (execute (unreliable down (mariadb rejects on_delete other))
                  ''DELETE FROM TEAMS WHERE team_id=%s'' [PInt i] w)"
  shows "team_rows i (store (snd (execute (unreliable down (mariadb rejects on_delete other))
                                    ''DELETE FROM TEAMS WHERE team_id=%s'' [PInt i] w))) = []"
proof -
  from assms obtain s' where
    a: "apply_fks on_delete ''TEAMS'' (map (\<lambda>r. field r ''team_id'') (team_rows i (store w)))
          foreign_keys
          ((store w)\<lparr>teams := filter (\<lambda>r. \<not> sql_eq (field r ''team_id'') (PInt i))
                                (teams (store w))\<rparr>) = Some s'"
    and s': "store (snd (execute (unreliable down (mariadb rejects on_delete other))
                           ''DELETE FROM TEAMS WHERE team_id=%s'' [PInt i] w)) = s'"
    by (auto simp: execute_def unreliable_def mariadb_delete_team split: if_splits option.splits)
  from apply_fks_parents [OF a foreign_keys_children]
  have "teams s' = filter (\<lambda>r. \<not> sql_eq (field r ''team_id'') (PInt i)) (teams (store w))"
    by simp
  then show ?thesis by (simp add: s' team_rows_def)
qed

lemma world_upd_store [simp]:
  "store (w\<lparr>issued := x\<rparr>) = store w" "store (w\<lparr>printed := y\<rparr>) = store w"
  by simp_all

text \<open>
  C2 (as amended). The dependent check of \<open>delete_team\<close> reads every player row that
  references the team, active or not; the connection may fail on any statement.

  When the check is answered and finds at least one such row, the team is deactivated and
  not removed: the statements are the SELECT and the UPDATE of the active-flag, the number
  of rows found is printed, no team row disappears; an accepted UPDATE leaves the flag of
  the team at 0, a refused one leaves the store as it was, and the team can still be read
  by its key whenever that read is answered.

  When the check is answered and finds no such row, the statements are the SELECT and the
  DELETE: an accepted DELETE leaves no row of the team and the team can no longer be read;
  a refused one (a match still references the team) leaves the store as it was.

  When the check fails, \<open>fetch_all\<close> prints the error and returns no row: the DELETE is
  issued whatever players the team has, and an accepted DELETE leaves no row of the team.
\<close>

theorem delete_team_checks_all_players:
  "(\<not> down ''SELECT player_id FROM PLAYERS WHERE team_id=%s'' [PInt i] (store w)
      \<and> team_players i (store w) \<noteq> [] \<longrightarrow>
      map text_of
        (drop (length (issued w))
           (issued (snd (delete_team (unreliable down (mariadb rejects on_delete other)) i w))))
        = [''SELECT player_id FROM PLAYERS WHERE team_id=%s'',
           ''UPDATE TEAMS SET is_active=FALSE WHERE team_id=%s'']
    \<and> printed (snd (delete_team (unreliable down (mariadb rejects on_delete other)) i w))
        = printed w @ [TeamHasPlayers (length (team_players i (store w)))]
          @ (if fst (delete_team (unreliable down (mariadb rejects on_delete other)) i w)
             then [] else [SqlError])
    \<and> map (\<lambda>r. field r ''team_id'')
          (teams (store (snd (delete_team (unreliable down (mariadb rejects on_delete other)) i w))))
        = map (\<lambda>r. field r ''team_id'') (teams (store w))
    \<and> (fst (delete_team (unreliable down (mariadb rejects on_delete other)) i w) \<longrightarrow>
         list_all (\<lambda>r. field r ''is_active'' = PInt 0)
           (team_rows i
              (store (snd (delete_team (unreliable down (mariadb rejects on_delete other)) i w)))))
    \<and> (\<not> fst (delete_team (unreliable down (mariadb rejects on_delete other)) i w) \<longrightarrow>
         store (snd (delete_team (unreliable down (mariadb rejects on_delete other)) i w))
           = store w)
    \<and> (team_rows i (store w) \<noteq> []
         \<and> \<not> down ''SELECT * FROM TEAMS WHERE team_id=%s'' [PInt i]
               (store (snd (delete_team (unreliable down (mariadb rejects on_delete other)) i w)))
        \<longrightarrow>
         fst (get_team_by_id (unreliable down (mariadb rejects on_delete other)) i
                (snd (delete_team (unreliable down (mariadb rejects on_delete other)) i w)))
           \<noteq> None))
   \<and> (\<not> down ''SELECT player_id FROM PLAYERS WHERE team_id=%s'' [PInt i] (store w)
        \<and> team_players i (store w) = [] \<longrightarrow>
      map text_of
        (drop (length (issued w))
           (issued (snd (delete_team (unreliable down (mariadb rejects on_delete other)) i w))))
        = [''SELECT player_id FROM PLAYERS WHERE team_id=%s'',
           ''DELETE FROM TEAMS WHERE team_id=%s'']
    \<and> printed (snd (delete_team (unreliable down (mariadb rejects on_delete other)) i w))
        = printed w
          @ (if fst (delete_team (unreliable down (mariadb rejects on_delete other)) i w)
             then [] else [SqlError])
    \<and> (fst (delete_team (unreliable down (mariadb rejects on_delete other)) i w) \<longrightarrow>
         team_rows i
           (store (snd (delete_team (unreliable down (mariadb rejects on_delete other)) i w))) = []
         \<and> fst (get_team_by_id (unreliable down (mariadb rejects on_delete other)) i
                  (snd (delete_team (unreliable down (mariadb rejects on_delete other)) i w)))
             = None)
    \<and> (\<not> fst (delete_team (unreliable down (mariadb rejects on_delete other)) i w) \<longrightarrow>
         store (snd (delete_team (unreliable down (mariadb rejects on_delete other)) i w))
           = store w))
   \<and> (down ''SELECT player_id FROM PLAYERS WHERE team_id=%s'' [PInt i] (store w) \<longrightarrow>
      map (\<lambda>c. (text_of c, accepted c))
        (drop (length (issued w))
           (issued (snd (delete_team (unreliable down (mariadb rejects on_delete other)) i w))))
        = [(''SELECT player_id FROM PLAYERS WHERE team_id=%s'', False),
           (''DELETE FROM TEAMS WHERE team_id=%s'',
            fst (delete_team (unreliable down (mariadb rejects on_delete other)) i w))]
    \<and> printed (snd (delete_team (unreliable down (mariadb rejects on_delete other)) i w))
        = printed w @ [FetchError]
          @ (if fst (delete_team (unreliable down (mariadb rejects on_delete other)) i w)
             then [] else [SqlError])
    \<and> (fst (delete_team (unreliable down (mariadb rejects on_delete other)) i w) \<longrightarrow>
         team_rows i
           (store (snd (delete_team (unreliable down (mariadb rejects on_delete other)) i w))) = [])
    \<and> (\<not> fst (delete_team (unreliable down (mariadb rejects on_delete other)) i w) \<longrightarrow>
         store (snd (delete_team (unreliable down (mariadb rejects on_delete other)) i w))
           = store w))"
proof (intro conjI impI)
  let ?E = "unreliable down (mariadb rejects on_delete other)"
  let ?sel = "''SELECT player_id FROM PLAYERS WHERE team_id=%s''"
  let ?upd = "''UPDATE TEAMS SET is_active=FALSE WHERE team_id=%s''"
  let ?w1 = "w\<lparr>issued := issued w @ [call ?sel [PInt i] True]\<rparr>"
  let ?w2 = "?w1\<lparr>printed := printed ?w1 @ [TeamHasPlayers (length (team_players i (store w)))]\<rparr>"
  assume a: "\<not> down ?sel [PInt i] (store w) \<and> team_players i (store w) \<noteq> []"
  then have d: "delete_team ?E i w = execute ?E ?upd [PInt i] ?w2"
    by (simp add: delete_team_def fetch_all_unreliable_players)
  have st: "store ?w2 = store w" by simp
  show "map text_of (drop (length (issued w)) (issued (snd (delete_team ?E i w)))) = [?sel, ?upd]"
    by (simp add: d execute_issued)
  show "printed (snd (delete_team ?E i w))
        = printed w @ [TeamHasPlayers (length (team_players i (store w)))]
          @ (if fst (delete_team ?E i w) then [] else [SqlError])"
    by (simp add: d execute_printed)
  have upd: "store (snd (delete_team ?E i w))
               = (store w)\<lparr>teams := map (\<lambda>r. if sql_eq (field r ''team_id'') (PInt i)
                                              then set_field ''is_active'' (PInt 0) r else r)
                                         (teams (store w))\<rparr>"
    if "fst (delete_team ?E i w)"
  proof -
    from that have "fst (execute ?E ?upd [PInt i] ?w2)" by (simp only: d)
    from deactivate_team_unreliable [OF this] show ?thesis by (simp add: d)
  qed
  have same: "store (snd (delete_team ?E i w)) = store w" if "\<not> fst (delete_team ?E i w)"
  proof -
    from that have "\<not> fst (execute ?E ?upd [PInt i] ?w2)" unfolding d .
    from execute_refused [OF this] show ?thesis by (simp add: d)
  qed
  show "map (\<lambda>r. field r ''team_id'') (teams (store (snd (delete_team ?E i w))))
        = map (\<lambda>r. field r ''team_id'') (teams (store w))"
  proof (cases "fst (delete_team ?E i w)")
    case True
    then show ?thesis by (simp add: upd o_def field_set_field)
  next
    case False
    then show ?thesis by (simp add: same)
  qed
  show "list_all (\<lambda>r. field r ''is_active'' = PInt 0) (team_rows i (store (snd (delete_team ?E i w))))"
    if "fst (delete_team ?E i w)"
    using that by (simp add: upd team_rows_deactivated list_all_iff field_set_field)
  show "store (snd (delete_team ?E i w)) = store w" if "\<not> fst (delete_team ?E i w)"
    using that by (rule same)
  show "fst (get_team_by_id ?E i (snd (delete_team ?E i w))) \<noteq> None"
    if t: "team_rows i (store w) \<noteq> []
         \<and> \<not> down ''SELECT * FROM TEAMS WHERE team_id=%s'' [PInt i]
               (store (snd (delete_team ?E i w)))"
  proof (cases "fst (delete_team ?E i w)")
    case True
    have "team_rows i (store (snd (delete_team ?E i w))) \<noteq> []"
      using t by (simp add: upd [OF True] team_rows_deactivated)
    then show ?thesis
      using t by (simp add: get_team_by_id_unreliable split: list.splits)
  next
    case False
    have "team_rows i (store (snd (delete_team ?E i w))) \<noteq> []"
      using t by (simp add: same [OF False])
    then show ?thesis
      using t by (simp add: get_team_by_id_unreliable split: list.splits)
  qed
next
  let ?E = "unreliable down (mariadb rejects on_delete other)"
  let ?sel = "''SELECT player_id FROM PLAYERS WHERE team_id=%s''"
  let ?del = "''DELETE FROM TEAMS WHERE team_id=%s''"
  let ?w1 = "w\<lparr>issued := issued w @ [call ?sel [PInt i] True]\<rparr>"
  assume a: "\<not> down ?sel [PInt i] (store w) \<and> team_players i (store w) = []"
  then have d: "delete_team ?E i w = execute ?E ?del [PInt i] ?w1"
    by (simp add: delete_team_def fetch_all_unreliable_players)
  have st: "store ?w1 = store w" by simp
  show "map text_of (drop (length (issued w)) (issued (snd (delete_team ?E i w)))) = [?sel, ?del]"
    by (simp add: d execute_issued)
  show "printed (snd (delete_team ?E i w))
        = printed w @ (if fst (delete_team ?E i w) then [] else [SqlError])"
    by (simp add: d execute_printed)
  have gone: "team_rows i (store (snd (delete_team ?E i w))) = []" if "fst (delete_team ?E i w)"
  proof -
    from that have "fst (execute ?E ?del [PInt i] ?w1)" by (simp only: d)
    from remove_team_unreliable [OF this] show ?thesis by (simp only: d)
  qed
  show "team_rows i (store (snd (delete_team ?E i w))) = []" if "fst (delete_team ?E i w)"
    using that by (rule gone)
  show "fst (get_team_by_id ?E i (snd (delete_team ?E i w))) = None" if "fst (delete_team ?E i w)"
    using gone [OF that] by (simp add: get_team_by_id_unreliable)
  show "store (snd (delete_team ?E i w)) = store w" if "\<not> fst (delete_team ?E i w)"
  proof -
    from that have "\<not> fst (execute ?E ?del [PInt i] ?w1)" unfolding d .
    from execute_refused [OF this] show ?thesis by (simp add: d)
  qed
next
  let ?E = "unreliable down (mariadb rejects on_delete other)"
  let ?sel = "''SELECT player_id FROM PLAYERS WHERE team_id=%s''"
  let ?del = "''DELETE FROM TEAMS WHERE team_id=%s''"
  let ?w1 = "w\<lparr>issued := issued w @ [call ?sel [PInt i] False], printed := printed w @ [FetchError]\<rparr>"
  assume a: "down ?sel [PInt i] (store w)"
  then have d: "delete_team ?E i w = execute ?E ?del [PInt i] ?w1"
    by (simp add: delete_team_def fetch_all_unreliable_players)
  have st: "store ?w1 = store w" by simp
  show "map (\<lambda>c. (text_of c, accepted c))
          (drop (length (issued w)) (issued (snd (delete_team ?E i w))))
        = [(?sel, False), (?del, fst (delete_team ?E i w))]"
    by (simp add: d execute_issued)
  show "printed (snd (delete_team ?E i w))
        = printed w @ [FetchError] @ (if fst (delete_team ?E i w) then [] else [SqlError])"
    by (simp add: d execute_printed)
  show "team_rows i (store (snd (delete_team ?E i w))) = []" if "fst (delete_team ?E i w)"
  proof -
    from that have "fst (execute ?E ?del [PInt i] ?w1)" by (simp only: d)
    from remove_team_unreliable [OF this] show ?thesis by (simp only: d)
  qed
  show "store (snd (delete_team ?E i w)) = store w" if "\<not> fst (delete_team ?E i w)"
  proof -
    from that have "\<not> fst (execute ?E ?del [PInt i] ?w1)" unfolding d .
    from execute_refused [OF this] show ?thesis by (simp add: d)
  qed
qed

lemma delete_team_inactive_player:
  "delete_team plain_db 1 team_with_inactive_player
     = (True,
        \<lparr>store = \<lparr>users = [],
                   teams = [[(''team_id'', PInt 1), (''team_name'', PStr ''Alpha''),
                             (''is_active'', PInt 0)]],
                   players = [[(''player_id'', PInt 5), (''nickname'', PStr ''ace''),
                               (''team_id'', PInt 1), (''is_active'', PInt 0)]],
                   tournaments = [], matches = []\<rparr>,
         lastrowid = 0,
         issued = [call ''SELECT player_id FROM PLAYERS WHERE team_id=%s'' [PInt 1] True,
                   call ''UPDATE TEAMS SET is_active=FALSE WHERE team_id=%s'' [PInt 1] True],
         printed = [TeamHasPlayers 1]\<rparr>)"
  by (simp add: delete_team_def plain_db_def fetch_all_mariadb_players execute_def
        mariadb_deactivate_team team_players_def team_with_inactive_player_def
        team_without_players_def field_def sql_eq_def)

lemma delete_team_no_player:
  "delete_team plain_db 1 team_without_players
     = (True,
        \<lparr>store = \<lparr>users = [], teams = [], players = [], tournaments = [], matches = []\<rparr>,
         lastrowid = 0,
         issued = [call ''SELECT player_id FROM PLAYERS WHERE team_id=%s'' [PInt 1] True,
                   call ''DELETE FROM TEAMS WHERE team_id=%s'' [PInt 1] True],
         printed = []\<rparr>)"
  by (simp add: delete_team_def plain_db_def fetch_all_mariadb_players execute_def
        mariadb_delete_team team_players_def team_rows_def team_without_players_def field_def
        sql_eq_def foreign_keys_def get_table_def)

lemma get_team_after_deactivation:
  "fst (get_team_by_id plain_db 1 (snd (delete_team plain_db 1 team_with_inactive_player)))
     = Some [(''team_id'', PInt 1), (''team_name'', PStr ''Alpha''), (''is_active'', PInt 0)]"
  unfolding delete_team_inactive_player snd_conv
  by (simp add: plain_db_def get_team_by_id_mariadb team_rows_def field_def sql_eq_def)

lemma get_team_after_removal:
  "fst (get_team_by_id plain_db 1 (snd (delete_team plain_db 1 team_without_players))) = None"
  unfolding delete_team_no_player snd_conv
  by (simp add: plain_db_def get_team_by_id_mariadb team_rows_def)

lemma example_team_players:
  "team_players 1 (store team_with_inactive_player)
     = [[(''player_id'', PInt 5), (''nickname'', PStr ''ace''), (''team_id'', PInt 1),
         (''is_active'', PInt 0)]]"
  "team_rows 1 (store team_with_inactive_player)
     = [[(''team_id'', PInt 1), (''team_name'', PStr ''Alpha''), (''is_active'', PInt 1)]]"
  "team_players 1 (store team_without_players) = []"
  "active_team_players 1 (store team_with_inactive_player) = []"
  by (simp_all add: active_team_players_def team_players_def team_rows_def
        team_with_inactive_player_def team_without_players_def field_def sql_eq_def)

lemma delete_team_blind:
  "delete_team blind_db 1 team_with_inactive_player
     = (True,
        \<lparr>store = \<lparr>users = [], teams = [],
                   players = [[(''player_id'', PInt 5), (''nickname'', PStr ''ace''),
                               (''team_id'', PNone), (''is_active'', PInt 0)]],
                   tournaments = [], matches = []\<rparr>,
         lastrowid = 0,
         issued = [call ''SELECT player_id FROM PLAYERS WHERE team_id=%s'' [PInt 1] False,
                   call ''DELETE FROM TEAMS WHERE team_id=%s'' [PInt 1] True],
         printed = [FetchError]\<rparr>)"
  by (simp add: delete_team_def blind_db_def fetch_all_def unreliable_def execute_def
        mariadb_delete_team team_rows_def team_with_inactive_player_def
        team_without_players_def field_def sql_eq_def foreign_keys_def get_table_def
        set_table_def references_def)

theorem delete_team_checks_all_players_witness:
  "team_players 1 (store team_with_inactive_player) \<noteq> []
   \<and> team_rows 1 (store team_with_inactive_player) \<noteq> []
   \<and> fst (delete_team plain_db 1 team_with_inactive_player)
   \<and> printed (snd (delete_team plain_db 1 team_with_inactive_player)) = [TeamHasPlayers 1]
   \<and> list_all (\<lambda>r. field r ''is_active'' = PInt 0)
        (team_rows 1 (store (snd (delete_team plain_db 1 team_with_inactive_player))))
   \<and> fst (get_team_by_id plain_db 1 (snd (delete_team plain_db 1 team_with_inactive_player)))
       \<noteq> None
   \<and> team_players 1 (store team_without_players) = []
   \<and> fst (delete_team plain_db 1 team_without_players)
   \<and> team_rows 1 (store (snd (delete_team plain_db 1 team_without_players))) = []
   \<and> fst (get_team_by_id plain_db 1 (snd (delete_team plain_db 1 team_without_players))) = None
   \<and> fst (delete_team blind_db 1 team_with_inactive_player)
   \<and> printed (snd (delete_team blind_db 1 team_with_inactive_player)) = [FetchError]
   \<and> team_rows 1 (store (snd (delete_team blind_db 1 team_with_inactive_player))) = []"
proof -
  have ok1: "fst (delete_team plain_db 1 team_with_inactive_player)"
    by (simp add: delete_team_inactive_player)
  have ok2: "fst (delete_team plain_db 1 team_without_players)"
    by (simp add: delete_team_no_player)
  have ok3: "fst (delete_team blind_db 1 team_with_inactive_player)"
    by (simp add: delete_team_blind)
  have p: "printed team_with_inactive_player = []"
    by (simp add: team_with_inactive_player_def team_without_players_def)
  note a = delete_team_checks_all_players
    [where down = "\<lambda>q ps s. False" and i = 1 and w = team_with_inactive_player
       and rejects = "\<lambda>q ps s. False" and on_delete = "\<lambda>child col. Restrict"
       and other = "\<lambda>q ps s. None",
     unfolded unreliable_never, folded plain_db_def]
  note b = delete_team_checks_all_players
    [where down = "\<lambda>q ps s. False" and i = 1 and w = team_without_players
       and rejects = "\<lambda>q ps s. False" and on_delete = "\<lambda>child col. Restrict"
       and other = "\<lambda>q ps s. None",
     unfolded unreliable_never, folded plain_db_def]
  note c = delete_team_checks_all_players
    [where down = "\<lambda>q ps s. q = ''SELECT player_id FROM PLAYERS WHERE team_id=%s''"
       and i = 1 and w = team_with_inactive_player
       and rejects = "\<lambda>q ps s. False" and on_delete = "\<lambda>child col. SetNull"
       and other = "\<lambda>q ps s. None",
     folded blind_db_def]
  show ?thesis
    using ok1 ok2 ok3 p a b c
    by (simp add: example_team_players)
qed

text \<open>
  The claim as written fails on a team whose only player was deactivated: no active player
  references the team, and the team row is deactivated and kept, not removed.
\<close>

theorem delete_team_keeps_team_of_inactive_player_counterexample:
  "active_team_players 1 (store team_with_inactive_player) = []
   \<and> fst (delete_team plain_db 1 team_with_inactive_player)
   \<and> teams (store (snd (delete_team plain_db 1 team_with_inactive_player)))
       = [[(''team_id'', PInt 1), (''team_name'', PStr ''Alpha''), (''is_active'', PInt 0)]]
   \<and> fst (get_team_by_id plain_db 1 (snd (delete_team plain_db 1 team_with_inactive_player)))
       = Some [(''team_id'', PInt 1), (''team_name'', PStr ''Alpha''), (''is_active'', PInt 0)]"
proof (intro conjI)
  show "active_team_players 1 (store team_with_inactive_player) = []"
    by (rule example_team_players(4))
  show "fst (delete_team plain_db 1 team_with_inactive_player)"
    by (simp add: delete_team_inactive_player)
  show "teams (store (snd (delete_team plain_db 1 team_with_inactive_player)))
          = [[(''team_id'', PInt 1), (''team_name'', PStr ''Alpha''), (''is_active'', PInt 0)]]"
    by (simp add: delete_team_inactive_player)
  show "fst (get_team_by_id plain_db 1 (snd (delete_team plain_db 1 team_with_inactive_player)))
          = Some [(''team_id'', PInt 1), (''team_name'', PStr ''Alpha''), (''is_active'', PInt 0)]"
    by (rule get_team_after_deactivation)
qed

subsection \<open>The structured search\<close>

lemma parse_search_queries:
  "parse_sql ''SELECT * FROM TOURNAMENTS WHERE 1=1 ORDER BY start_date DESC''
     = Some (Select ''TOURNAMENTS'' None [CondTrue] (Some (''start_date'', True)))"
  "parse_sql ''SELECT * FROM TOURNAMENTS WHERE status=%s ORDER BY start_date DESC''
     = Some (Select ''TOURNAMENTS'' None [CondEq ''status'' Placeholder]
               (Some (''start_date'', True)))"
  "parse_sql ''SELECT * FROM TOURNAMENTS WHERE tier=%s ORDER BY start_date DESC''
     = Some (Select ''TOURNAMENTS'' None [CondEq ''tier'' Placeholder] (Some (''start_date'', True)))"
  "parse_sql ''SELECT * FROM TOURNAMENTS WHERE tier=%s AND status=%s ORDER BY start_date DESC''
     = Some (Select ''TOURNAMENTS'' None [CondEq ''tier'' Placeholder, CondEq ''status'' Placeholder]
               (Some (''start_date'', True)))"
  "parse_sql ''SELECT * FROM TOURNAMENTS WHERE (tournament_name LIKE %s OR location LIKE %s) ORDER BY start_date DESC''
     = Some (Select ''TOURNAMENTS'' None [CondLike [''tournament_name'', ''location'']]
               (Some (''start_date'', True)))"
  "parse_sql ''SELECT * FROM TOURNAMENTS WHERE (tournament_name LIKE %s OR location LIKE %s) AND status=%s ORDER BY start_date DESC''
     = Some (Select ''TOURNAMENTS'' None
               [CondLike [''tournament_name'', ''location''], CondEq ''status'' Placeholder]
               (Some (''start_date'', True)))"
  "parse_sql ''SELECT * FROM TOURNAMENTS WHERE (tournament_name LIKE %s OR location LIKE %s) AND tier=%s ORDER BY start_date DESC''
     = Some (Select ''TOURNAMENTS'' None
               [CondLike [''tournament_name'', ''location''], CondEq ''tier'' Placeholder]
               (Some (''start_date'', True)))"
  "parse_sql ''SELECT * FROM TOURNAMENTS WHERE (tournament_name LIKE %s OR location LIKE %s) AND tier=%s AND status=%s ORDER BY start_date DESC''
     = Some (Select ''TOURNAMENTS'' None
               [CondLike [''tournament_name'', ''location''], CondEq ''tier'' Placeholder,
                CondEq ''status'' Placeholder]
               (Some (''start_date'', True)))"
  by code_simp+

lemma not_truthy:
  "\<not> truthy x \<Longrightarrow> term_filter x = ([], []) \<and> eq_filter c x = ([], [])
     \<and> term_matches x r \<and> column_matches c x r"
  by (cases x) (auto simp: term_filter_def eq_filter_def term_matches_def column_matches_def)

lemma truthy_some: "truthy x \<Longrightarrow> \<exists>t. x = Some t \<and> t \<noteq> []"
  by (cases x) auto

lemma search_tournaments_rows:
  "fst (search_tournaments (mariadb rejects on_delete other) term tier status w)
     = order_rows (Some (''start_date'', True))
         (filter (tournament_matches term tier status) (tournaments (store w)))"
proof -
  note defs = search_tournaments_def fetch_all_def search_query_def search_params_def
    search_conds_def search_where_def term_filter_def eq_filter_def mariadb_def
    parse_search_queries exec_select_def get_table_def selected_def tournament_matches_def
    term_matches_def column_matches_def
  show ?thesis
  proof (cases "truthy term")
    case True
    then obtain a where a: "term = Some a" "a \<noteq> []" using truthy_some by blast
    show ?thesis
    proof (cases "truthy tier")
      case True
      then obtain b where b: "tier = Some b" "b \<noteq> []" using truthy_some by blast
      show ?thesis
      proof (cases "truthy status")
        case True
        then obtain c where c: "status = Some c" "c \<noteq> []" using truthy_some by blast
        show ?thesis using a b c by (simp add: defs numeral_2_eq_2 cong: filter_cong)
      next
        case False
        from not_truthy [OF this] show ?thesis
          using a b by (simp add: defs numeral_2_eq_2 cong: filter_cong)
      qed
    next
      case False
      note nt = not_truthy [OF this]
      show ?thesis
      proof (cases "truthy status")
        case True
        then obtain c where c: "status = Some c" "c \<noteq> []" using truthy_some by blast
        show ?thesis using a nt c by (simp add: defs numeral_2_eq_2 cong: filter_cong)
      next
        case False
        from not_truthy [OF this] show ?thesis
          using a nt by (simp add: defs numeral_2_eq_2 cong: filter_cong)
      qed
    qed
  next
    case False
    note n1 = not_truthy [OF this]
    show ?thesis
    proof (cases "truthy tier")
      case True
      then obtain b where b: "tier = Some b" "b \<noteq> []" using truthy_some by blast
      show ?thesis
      proof (cases "truthy status")
        case True
        then obtain c where c: "status = Some c" "c \<noteq> []" using truthy_some by blast
        show ?thesis using n1 b c by (simp add: defs cong: filter_cong)
      next
        case False
        from not_truthy [OF this] show ?thesis
          using n1 b by (simp add: defs cong: filter_cong)
      qed
    next
      case False
      note nt = not_truthy [OF this]
      show ?thesis
      proof (cases "truthy status")
        case True
        then obtain c where c: "status = Some c" "c \<noteq> []" using truthy_some by blast
        show ?thesis using n1 nt c by (simp add: defs cong: filter_cong)
      next
        case False
        from not_truthy [OF this] show ?thesis
          using n1 nt by (simp add: defs cong: filter_cong)
      qed
    qed
  qed
qed

lemma mset_insert_by: "mset (insert_by le x ys) = add_mset x (mset ys)"
  by (induction ys) simp_all

lemma mset_sort_by: "mset (sort_by le xs) = mset xs"
  by (induction xs) (simp_all add: sort_by_def mset_insert_by)

lemma mset_order_rows: "mset (order_rows ord rows) = mset rows"
  by (cases ord) (auto simp: order_rows_def mset_sort_by Let_def)

lemma search_conds_count:
  "length (search_conds term tier status) = length (filter truthy [term, tier, status])"
  by (cases "term"; cases tier; cases status)
     (simp_all add: search_conds_def term_filter_def eq_filter_def)

text \<open>
  C6 (as amended). The structured search returns the tournaments that satisfy every filter
  that is present and not empty, and only those; an absent filter adds no clause, each
  present one adds exactly one, and the clauses are joined by AND. With all filters absent
  the WHERE clause is the tautology \<open>1=1\<close> and the result is the full set of rows; with a
  tier filter alone the result is exactly the rows of that tier.
\<close>

theorem search_tournaments_filters:
  "fst (search_tournaments (mariadb rejects on_delete other) term tier status w)
     = order_rows (Some (''start_date'', True))
         (filter (tournament_matches term tier status) (tournaments (store w)))
   \<and> mset (fst (search_tournaments (mariadb rejects on_delete other) None None None w))
       = mset (tournaments (store w))
   \<and> (t \<noteq> [] \<longrightarrow>
        mset (fst (search_tournaments (mariadb rejects on_delete other) None (Some t) None w))
          = mset (filter (\<lambda>r. sql_eq (field r ''tier'') (PStr t)) (tournaments (store w))))
   \<and> search_query term tier status
       = ''SELECT * FROM TOURNAMENTS WHERE ''
         @ (if search_conds term tier status = [] then ''1=1''
            else join '' AND '' (search_conds term tier status))
         @ '' ORDER BY start_date DESC''
   \<and> length (search_conds term tier status) = length (filter truthy [term, tier, status])
   \<and> search_conds None None None = []"
proof (intro conjI impI)
  show "fst (search_tournaments (mariadb rejects on_delete other) term tier status w)
     = order_rows (Some (''start_date'', True))
         (filter (tournament_matches term tier status) (tournaments (store w)))"
    by (rule search_tournaments_rows)
  show "mset (fst (search_tournaments (mariadb rejects on_delete other) None None None w))
       = mset (tournaments (store w))"
    by (simp add: search_tournaments_rows mset_order_rows tournament_matches_def
          term_matches_def column_matches_def)
  show "mset (fst (search_tournaments (mariadb rejects on_delete other) None (Some t) None w))
          = mset (filter (\<lambda>r. sql_eq (field r ''tier'') (PStr t)) (tournaments (store w)))"
    if "t \<noteq> []"
    using that
    by (simp add: search_tournaments_rows mset_order_rows tournament_matches_def
          term_matches_def column_matches_def cong: filter_cong)
  show "search_query term tier status
       = ''SELECT * FROM TOURNAMENTS WHERE ''
         @ (if search_conds term tier status = [] then ''1=1''
            else join '' AND '' (search_conds term tier status))
         @ '' ORDER BY start_date DESC''"
    by (simp add: search_query_def search_where_def)
  show "length (search_conds term tier status) = length (filter truthy [term, tier, status])"
    by (rule search_conds_count)
  show "search_conds None None None = []"
    by (simp add: search_conds_def term_filter_def eq_filter_def)
qed

lemma search_s_tier:
  "map (\<lambda>r. field r ''tournament_id'')
     (fst (search_tournaments plain_db None (Some ''S-Tier'') None three_tournaments))
   = [PInt 3, PInt 1]"
  unfolding plain_db_def search_tournaments_rows
  by (simp add: three_tournaments_def tournament_matches_def term_matches_def
        column_matches_def field_def sql_eq_def order_rows_def sort_by_def sql_le_def)

theorem search_tournaments_filters_witness:
  "''S-Tier'' \<noteq> []
   \<and> mset (fst (search_tournaments plain_db None (Some ''S-Tier'') None three_tournaments))
       = mset (filter (\<lambda>r. sql_eq (field r ''tier'') (PStr ''S-Tier''))
                 (tournaments (store three_tournaments)))
   \<and> map (\<lambda>r. field r ''tournament_id'')
        (fst (search_tournaments plain_db None (Some ''S-Tier'') None three_tournaments))
       = [PInt 3, PInt 1]
   \<and> search_query None (Some ''S-Tier'') None
       = ''SELECT * FROM TOURNAMENTS WHERE tier=%s ORDER BY start_date DESC''"
proof -
  have q: "search_query None (Some ''S-Tier'') None
             = ''SELECT * FROM TOURNAMENTS WHERE tier=%s ORDER BY start_date DESC''"
    by (simp add: search_query_def search_where_def search_conds_def term_filter_def
          eq_filter_def)
  have "''S-Tier'' \<noteq> [] \<longrightarrow>
        mset (fst (search_tournaments plain_db None (Some ''S-Tier'') None three_tournaments))
          = mset (filter (\<lambda>r. sql_eq (field r ''tier'') (PStr ''S-Tier''))
                    (tournaments (store three_tournaments)))"
    using search_tournaments_filters
      [of "\<lambda>q ps s. False" "\<lambda>child col. Restrict" "\<lambda>q ps s. None" None "Some ''S-Tier''" None
          three_tournaments "''S-Tier''", folded plain_db_def]
    by (elim conjE)
  then have m: "mset (fst (search_tournaments plain_db None (Some ''S-Tier'') None three_tournaments))
          = mset (filter (\<lambda>r. sql_eq (field r ''tier'') (PStr ''S-Tier''))
                    (tournaments (store three_tournaments)))"
    by simp
  show ?thesis
    by (intro conjI m search_s_tier q) simp
qed

text \<open>
  The claim as written fails where it says that no tautology placeholder is inserted: with
  all filters absent the statement issued holds the condition \<open>1=1\<close>.
\<close>

theorem search_without_filters_counterexample:
  "map text_of (issued (snd (search_tournaments plain_db None None None three_tournaments)))
     = [''SELECT * FROM TOURNAMENTS WHERE 1=1 ORDER BY start_date DESC'']
   \<and> parse_sql ''SELECT * FROM TOURNAMENTS WHERE 1=1 ORDER BY start_date DESC''
       = Some (Select ''TOURNAMENTS'' None [CondTrue] (Some (''start_date'', True)))
   \<and> parse_sql ''SELECT * FROM TOURNAMENTS ORDER BY start_date DESC''
       = Some (Select ''TOURNAMENTS'' None [] (Some (''start_date'', True)))"
proof (intro conjI)
  show "map text_of (issued (snd (search_tournaments plain_db None None None three_tournaments)))
     = [''SELECT * FROM TOURNAMENTS WHERE 1=1 ORDER BY start_date DESC'']"
    by (simp add: search_tournaments_def fetch_all_def search_query_def search_where_def
          search_conds_def term_filter_def eq_filter_def three_tournaments_def
          split: option.splits)
  show "parse_sql ''SELECT * FROM TOURNAMENTS WHERE 1=1 ORDER BY start_date DESC''
       = Some (Select ''TOURNAMENTS'' None [CondTrue] (Some (''start_date'', True)))"
    by (rule parse_search_queries(1))
  show "parse_sql ''SELECT * FROM TOURNAMENTS ORDER BY start_date DESC''
       = Some (Select ''TOURNAMENTS'' None [] (Some (''start_date'', True)))"
    by code_simp
qed

end
